theory Spec2Isabelle
  imports Main
begin

section \<open>Text\<close>

text \<open>
  The program is \<^verbatim>\<open>main.js\<close> of itsDumper. Its strings are modelled as \<^typ>\<open>string\<close>:
  one \<^typ>\<open>char\<close> stands for one code unit, so the texts covered are those whose code
  units are below 256. The helpers below are the JavaScript string and array methods the
  source calls.
\<close>

text \<open>\<^verbatim>\<open>s.startsWith(p)\<close>\<close>

definition startsWith :: "string \<Rightarrow> string \<Rightarrow> bool" where
  "startsWith s p = (take (length p) s = p)"

text \<open>\<^verbatim>\<open>s.includes(p)\<close>\<close>

fun str_includes :: "string \<Rightarrow> string \<Rightarrow> bool" where
  "str_includes [] p = (p = [])"
| "str_includes (c # cs) p = (startsWith (c # cs) p \<or> str_includes cs p)"

text \<open>\<^verbatim>\<open>s.indexOf(c)\<close> for a one-character search string: \<open>-1\<close> when absent.\<close>

definition indexOf :: "string \<Rightarrow> char \<Rightarrow> int" where
  "indexOf s c = (if c \<in> set s then int (length (takeWhile (\<lambda>x. x \<noteq> c) s)) else - 1)"

text \<open>
  \<^verbatim>\<open>s.substring(a, b)\<close>: both indices are clamped to \<open>0..length\<close> and swapped when
  the first is the larger.
\<close>

definition substring :: "string \<Rightarrow> int \<Rightarrow> int \<Rightarrow> string" where
  "substring s a b =
     (let n = int (length s);
          a' = max 0 (min a n);
          b' = max 0 (min b n);
          lo = min a' b';
          hi = max a' b'
      in take (nat (hi - lo)) (drop (nat lo) s))"

text \<open>\<^verbatim>\<open>xs.join(sep)\<close>\<close>

fun join :: "string list \<Rightarrow> string \<Rightarrow> string" where
  "join [] sep = []"
| "join [x] sep = x"
| "join (x # y # ys) sep = x @ sep @ join (y # ys) sep"

text \<open>
  \<^verbatim>\<open>[...new Set(xs)]\<close>: the elements in insertion order, an element that is already in
  the set is not inserted again.
\<close>

fun newSet :: "'a list \<Rightarrow> 'a list \<Rightarrow> 'a list" where
  "newSet seen [] = seen"
| "newSet seen (x # xs) = newSet (if x \<in> set seen then seen else seen @ [x]) xs"

text \<open>
  \<^verbatim>\<open>s.replace(/pat/g, rep)\<close> for a literal, non-empty pattern: one pass from left to
  right, the text put in place of a match is not scanned again.
\<close>

function replaceAll :: "string \<Rightarrow> string \<Rightarrow> string \<Rightarrow> string" where
  "replaceAll pat rep [] = []"
| "replaceAll pat rep (c # cs) =
     (if startsWith (c # cs) pat
      then rep @ replaceAll pat rep (drop (length pat - 1) cs)
      else c # replaceAll pat rep cs)"
  by pat_completeness auto
termination
  by (relation "measure (\<lambda>(pat, rep, s). length s)") auto

text \<open>The character classes \<^verbatim>\<open>\s\<close> and \<^verbatim>\<open>\d\<close> of a JavaScript regular expression.\<close>

definition isSpace :: "char \<Rightarrow> bool" where
  "isSpace c = (c \<in> {CHR 0x09, CHR 0x0A, CHR 0x0B, CHR 0x0C, CHR 0x0D, CHR 0x20, CHR 0xA0})"

definition isDigit :: "char \<Rightarrow> bool" where
  "isDigit c = (c \<in> set ''0123456789'')"

text \<open>
  \<^verbatim>\<open>s.match(/LIT1(\S+)LIT2/)[1]\<close>, the shape of four patterns of the source. The match
  starts at the leftmost position where the whole pattern can match. There the group is
  greedy: it first takes the whole run of non-space characters after \<open>LIT1\<close> and gives
  characters back one at a time until \<open>LIT2\<close> follows. \<open>None\<close> is the \<^verbatim>\<open>null\<close>
  of a failed match.
\<close>

fun backtrack :: "string \<Rightarrow> string \<Rightarrow> nat \<Rightarrow> string option" where
  "backtrack lit2 r 0 = None"
| "backtrack lit2 r (Suc k) =
     (if startsWith (drop (Suc k) r) lit2 then Some (take (Suc k) r) else backtrack lit2 r k)"

definition matchAt :: "string \<Rightarrow> string \<Rightarrow> string \<Rightarrow> string option" where
  "matchAt lit1 lit2 s =
     (if startsWith s lit1
      then let r = drop (length lit1) s
           in backtrack lit2 r (length (takeWhile (\<lambda>c. \<not> isSpace c) r))
      else None)"

fun matchNonSpace :: "string \<Rightarrow> string \<Rightarrow> string \<Rightarrow> string option" where
  "matchNonSpace lit1 lit2 [] = None"
| "matchNonSpace lit1 lit2 (c # cs) =
     (case matchAt lit1 lit2 (c # cs) of
        Some g \<Rightarrow> Some g
      | None \<Rightarrow> matchNonSpace lit1 lit2 cs)"

text \<open>\<^verbatim>\<open>s.match(/LIT(\d+)/)[1]\<close>: the longest run of digits after the leftmost \<open>LIT\<close>
  that a digit follows.\<close>

fun matchDigits :: "string \<Rightarrow> string \<Rightarrow> string option" where
  "matchDigits lit [] = None"
| "matchDigits lit (c # cs) =
     (if startsWith (c # cs) lit \<and> takeWhile isDigit (drop (length lit) (c # cs)) \<noteq> []
      then Some (takeWhile isDigit (drop (length lit) (c # cs)))
      else matchDigits lit cs)"

text \<open>String concatenation with a value that may be \<^verbatim>\<open>null\<close>.\<close>

definition toString :: "string option \<Rightarrow> string" where
  "toString v = (case v of None \<Rightarrow> ''null'' | Some x \<Rightarrow> x)"

section \<open>The world outside the program\<close>

datatype error = TypeError | FetchError | SystemError

text \<open>
  A request as the source builds it: the URL, the \<^verbatim>\<open>Cookie\<close> header when one is set, and
  whether \<^verbatim>\<open>redirect: 'manual'\<close> is asked for.
\<close>

record request =
  requestUrl :: string
  cookieHeader :: "string option"
  redirectManual :: bool

text \<open>
  What the source reads of a response: \<^verbatim>\<open>ok\<close>, \<^verbatim>\<open>statusText\<close>,
  \<^verbatim>\<open>headers.get('location')\<close>, \<^verbatim>\<open>headers.raw()['set-cookie']\<close> (undefined when the
  response carries no such header) and the text of the body.
\<close>

record response =
  ok :: bool
  statusText :: string
  location :: "string option"
  setCookie :: "string list option"
  body :: string

text \<open>
  An element of a parsed page, as far as the source looks at it. A page is the list
  of its elements in document order.
\<close>

record element =
  attributes :: "(string \<times> string) list"
  classNames :: "string list"
  textContent :: string

definition getAttribute :: "element \<Rightarrow> string \<Rightarrow> string option" where
  "getAttribute e name = map_of (attributes e) name"

definition getElementById :: "element list \<Rightarrow> string \<Rightarrow> element option" where
  "getElementById doc ident = find (\<lambda>e. getAttribute e ''id'' = Some ident) doc"

definition getElementsByClassName :: "element list \<Rightarrow> string \<Rightarrow> element list" where
  "getElementsByClassName doc cls = filter (\<lambda>e. cls \<in> set (classNames e)) doc"

text \<open>
  The collaborators of the program and its configuration block. \<open>fetch\<close> is
  \<^verbatim>\<open>node-fetch\<close> (a rejected promise is \<open>Inl\<close>), \<open>parseFromString\<close> is
  \<^verbatim>\<open>dom-parser\<close>, \<open>decode\<close> is \<^verbatim>\<open>decode\<close> of \<^verbatim>\<open>html-entities\<close>, \<open>pathJoin\<close> is
  \<^verbatim>\<open>path.join\<close> on two arguments. None of them is code of the repository, so each is
  a parameter. The server answers a request the same way whenever it is asked.
  \<open>pathDirname\<close> is not called by the program: it gives the directory that holds a
  path, which is where the file system looks when a file is opened for writing.
\<close>

record env =
  fetch :: "request \<Rightarrow> error + response"
  parseFromString :: "string \<Rightarrow> element list"
  decode :: "string \<Rightarrow> string"
  pathJoin :: "string \<Rightarrow> string \<Rightarrow> string"
  pathDirname :: "string \<Rightarrow> string"
  downloadLocation :: string
  skipAlreadyDownloadedFiles :: bool

text \<open>
  The observable state: what was requested and printed so far, in order, and the
  file system. \<open>Started elementId folderPath\<close> stands for a call
  \<^verbatim>\<open>downloadResourceObject(school, sessionId, elementId, folderPath)\<close> that is not awaited
  (line 175 of the source): the call sends its first request and comes back with a
  promise that nothing reads; the rest of the resolution runs later.
\<close>

datatype event =
    Fetch request
  | ConsoleLog string
  | ConsoleWarn string
  | ConsoleError string
  | Started string string

datatype node = File string | Directory

record state =
  trace :: "event list"
  fs :: "string \<Rightarrow> node option"

definition emit :: "event \<Rightarrow> state \<Rightarrow> state" where
  "emit e s = s\<lparr>trace := trace s @ [e]\<rparr>"

definition existsSync :: "state \<Rightarrow> string \<Rightarrow> bool" where
  "existsSync s p = (fs s p \<noteq> None)"

text \<open>
  \<^verbatim>\<open>fs.mkdirSync(p, { recursive: true })\<close>: of the directories it creates, the
  state keeps \<open>p\<close> itself. The call of the source throws when a file stands where a
  directory is to be made; the state does not keep enough of the tree to tell, and here
  the call always succeeds.
\<close>

definition mkdirSync :: "state \<Rightarrow> string \<Rightarrow> state" where
  "mkdirSync s p = s\<lparr>fs := (fs s)(p \<mapsto> Directory)\<rparr>"

text \<open>
  \<^verbatim>\<open>fs.createWriteStream(p)\<close> with the response body piped into it. The stream opens
  the file when the directory that is to hold it exists and \<open>p\<close> is not a directory
  itself; the file is then created or overwritten. Otherwise the stream fails
  (\<^verbatim>\<open>ENOENT\<close>, \<^verbatim>\<open>ENOTDIR\<close>, \<^verbatim>\<open>EISDIR\<close>).
\<close>

definition createWriteStream :: "env \<Rightarrow> state \<Rightarrow> string \<Rightarrow> string \<Rightarrow> error + state" where
  "createWriteStream env s p content =
     (if fs s (pathDirname env p) \<noteq> Some Directory \<or> fs s p = Some Directory then Inl SystemError
      else Inr (s\<lparr>fs := (fs s)(p \<mapsto> File content)\<rparr>))"

text \<open>
  How a call ends: it returns, it throws (an \<^verbatim>\<open>async\<close> function rejects), or an error
  that nothing catches is raised while it runs, which ends the process.
\<close>

datatype outcome = Returned state | Threw error state | Uncaught error state

section \<open>The name sanitizer\<close>

text \<open>
  \<^verbatim>\<open>Buffer.from(text, 'utf-8').toString()\<close>: the text is encoded as UTF-8 and decoded
  again. On the code units modelled here (none is half of a surrogate pair) that gives
  the text back.
\<close>

definition bufferRoundTrip :: "string \<Rightarrow> string" where
  "bufferRoundTrip text = text"

text \<open>The character class of \<^verbatim>\<open>/[\/\\|":?*<>{}]/g\<close>.\<close>

definition forbidden :: "char set" where
  "forbidden = {CHR ''/'', CHR 0x5C, CHR ''|'', CHR 0x22, CHR '':'', CHR ''?'', CHR ''*'',
                CHR ''<'', CHR ''>'', CHR ''{'', CHR ''}''}"

definition decodeString :: "env \<Rightarrow> string \<Rightarrow> string" where
  "decodeString env text =
     (let decoded = decode env (bufferRoundTrip text)
      in map (\<lambda>c. if c \<in> forbidden then CHR ''_'' else c) decoded)"

text \<open>
  A decoder to run the sanitizer on concrete texts. It is not \<^verbatim>\<open>decode\<close> of
  \<^verbatim>\<open>html-entities\<close>, which is a parameter of the model, but a stand-in for it: one pass
  from left to right that replaces the five predefined entities, written with their
  semicolon, and copies every other character. The library also decodes numeric references,
  the other named entities and some entities written without the semicolon; the texts
  the stand-in is run on below hold none of these, and on them it gives what the library
  gives.
\<close>

definition namedReferences :: "(string \<times> string) list" where
  "namedReferences =
     [(''&amp;'', ''&''), (''&lt;'', ''<''), (''&gt;'', ''>''),
      (''&quot;'', [CHR 0x22]), (''&apos;'', [CHR 0x27])]"

fun decodeEntity :: "(string \<times> string) list \<Rightarrow> string \<Rightarrow> (string \<times> nat) option" where
  "decodeEntity [] s = None"
| "decodeEntity ((entity, text) # refs) s =
     (if startsWith s entity then Some (text, length entity) else decodeEntity refs s)"

function decodeEntities :: "string \<Rightarrow> string" where
  "decodeEntities [] = []"
| "decodeEntities (c # cs) =
     (case decodeEntity namedReferences (c # cs) of
        Some (text, n) \<Rightarrow> text @ decodeEntities (drop (n - 1) cs)
      | None \<Rightarrow> c # decodeEntities cs)"
  by pat_completeness auto
termination
  by (relation "measure length") auto

section \<open>Cookies\<close>

definition convertSetCookieToCookieString :: "string list \<Rightarrow> string" where
  "convertSetCookieToCookieString cookieArray =
     (let cookies = map (\<lambda>cookie. substring cookie 0 (indexOf cookie CHR '';'')) cookieArray;
          uniqueCookies = newSet [] cookies
      in join uniqueCookies ''; '')"

section \<open>The File Materializer\<close>

text \<open>
  The local \<^verbatim>\<open>downloadLocation\<close> of \<^verbatim>\<open>downloadFile\<close>, the path of the file, is called
  \<open>target\<close> here; the configuration constant of that name is a field of the environment.
  A file name that is \<^verbatim>\<open>null\<close> makes \<^verbatim>\<open>path.join\<close> throw. The write stream has no
  listener for its errors (lines 336 to 342 of the source listen to the errors of the
  response body only), so a stream that fails raises an error that nothing catches.
\<close>

definition downloadFile ::
  "env \<Rightarrow> state \<Rightarrow> string \<Rightarrow> string \<Rightarrow> string \<Rightarrow> string option \<Rightarrow> outcome" where
  "downloadFile env s downloadUrl cookieString folderPath filename =
     (case filename of
        None \<Rightarrow> Threw TypeError s
      | Some name \<Rightarrow>
          let target = pathJoin env folderPath name
          in if existsSync s target \<and> skipAlreadyDownloadedFiles env
             then Returned (emit (ConsoleLog (''Skipping file: '' @ target)) s)
             else
               let req = \<lparr>requestUrl = downloadUrl, cookieHeader = Some cookieString, redirectManual = False\<rparr>;
                   s1 = emit (Fetch req) s
               in case fetch env req of
                    Inl e \<Rightarrow> Threw e s1
                  | Inr resp \<Rightarrow>
                      if \<not> ok resp
                      then Returned (emit (ConsoleLog (''Failed to download file: '' @ statusText resp)) s1)
                      else
                        let s2 = (if \<not> existsSync s1 folderPath then mkdirSync s1 folderPath else s1)
                        in case createWriteStream env s2 target (body resp) of
                             Inl e \<Rightarrow> Uncaught e s2
                           | Inr s3 \<Rightarrow>
                               Returned (emit (ConsoleLog (''Downloaded file to '' @ target)) s3))"

section \<open>The Resource Resolver\<close>

definition getOfficeFileDownloadUrl :: "string \<Rightarrow> error + string" where
  "getOfficeFileDownloadUrl webContent =
     (case matchNonSpace (''form.action = '' @ [CHR 0x27]) (CHR 0x27 # '';'') webContent of
        None \<Rightarrow> Inl TypeError
      | Some officeUrl \<Rightarrow>
     (case matchNonSpace (''accessTokenInput.value = '' @ [CHR 0x27]) (CHR 0x27 # '';'') webContent of
        None \<Rightarrow> Inl TypeError
      | Some accessToken \<Rightarrow>
     (case matchNonSpace (''accessTokenTtlInput.value = '' @ [CHR 0x27]) (CHR 0x27 # '';'') webContent of
        None \<Rightarrow> Inl TypeError
      | Some accessTokenTtl \<Rightarrow>
     (case matchNonSpace ''WOPISrc='' ''&ui='' officeUrl of
        None \<Rightarrow> Inl TypeError
      | Some wopiSrc \<Rightarrow>
          let fileContentUrl =
                replaceAll (CHR 0x5C # ''x252f'') ''/'' (replaceAll (CHR 0x5C # ''x253a'') '':'' wopiSrc)
          in Inr (fileContentUrl @ ''/contents?access_token='' @ accessToken)))))"

text \<open>
  \<^verbatim>\<open>downloadResourceObject\<close> is modelled in two parts. The first is the three hops up
  to the parsed platform page (lines 191 to 242 of the source): it either stops the
  resolution or reaches the page with the state, the file name read from the view page,
  the resource cookie string and the parsed page.
\<close>

datatype hops = Stopped outcome | Reached state string string "element list"

definition resolveHops :: "env \<Rightarrow> state \<Rightarrow> string \<Rightarrow> string \<Rightarrow> string \<Rightarrow> hops" where
  "resolveHops env s school sessionId elementId =
     (let viewUrl = ''https://'' @ school
            @ ''.itslearning.com/LearningToolElement/ViewLearningToolElement.aspx?LearningToolElementId=''
            @ elementId;
          viewRequest = \<lparr>requestUrl = viewUrl, cookieHeader = Some (''ASP.NET_SessionId='' @ sessionId @ '';''),
            redirectManual = True\<rparr>;
          s1 = emit (Fetch viewRequest) s
      in case fetch env viewRequest of
           Inl e \<Rightarrow> Stopped (Threw e s1)
         | Inr viewResponse \<Rightarrow>
      if \<not> ok viewResponse
      then Stopped (Returned (emit (ConsoleError (''Failed to fetch web page for resource object: ''
             @ statusText viewResponse @ '' URL: '' @ viewUrl)) s1))
      else
        let viewDom = parseFromString env (body viewResponse)
        in case getElementById viewDom ''ctl00_PageHeader_TT'' of
             None \<Rightarrow> Stopped (Threw TypeError s1)
           | Some title \<Rightarrow>
        let fileName = textContent title
        in case getElementById viewDom ''ctl00_ContentPlaceHolder_ExtensionIframe'' of
             None \<Rightarrow> Stopped (Threw TypeError s1)
           | Some iframe \<Rightarrow>
        (case getAttribute iframe ''src'' of
             None \<Rightarrow> Stopped (Threw TypeError s1)
           | Some src \<Rightarrow>
        let iframeUrl = replaceAll ''&amp;'' ''&'' src;
            iframeRequest = \<lparr>requestUrl = iframeUrl, cookieHeader = None, redirectManual = True\<rparr>;
            s2 = emit (Fetch iframeRequest) s1
        in case fetch env iframeRequest of
             Inl e \<Rightarrow> Stopped (Threw e s2)
           | Inr iframeResponse \<Rightarrow>
        (case setCookie iframeResponse of
             None \<Rightarrow> Stopped (Threw TypeError s2)
           | Some iframeCookies \<Rightarrow>
        let platformCookieString = convertSetCookieToCookieString iframeCookies
        in case location iframeResponse of
             None \<Rightarrow> Stopped (Threw TypeError s2)
           | Some learningObjectInstanceUrl \<Rightarrow>
        let resourceRequest = \<lparr>requestUrl = learningObjectInstanceUrl,
              cookieHeader = Some platformCookieString, redirectManual = False\<rparr>;
            s3 = emit (Fetch resourceRequest) s2
        in case fetch env resourceRequest of
             Inl e \<Rightarrow> Stopped (Threw e s3)
           | Inr resourceResponse \<Rightarrow>
        (case setCookie resourceResponse of
             None \<Rightarrow> Stopped (Threw TypeError s3)
           | Some allCookies \<Rightarrow>
        let resourceCookies = filter (\<lambda>c. str_includes c ''ASP.NET_SessionId'') allCookies;
            resourceCookieString = convertSetCookieToCookieString resourceCookies;
            resourceDom = parseFromString env (body resourceResponse)
        in Reached s3 fileName resourceCookieString resourceDom))))"

text \<open>The second part is the delivery branch (lines 244 to 278 of the source).\<close>

definition deliver ::
  "env \<Rightarrow> state \<Rightarrow> string \<Rightarrow> string \<Rightarrow> string \<Rightarrow> element list \<Rightarrow> outcome" where
  "deliver env s folderPath fileName resourceCookieString resourceDom =
     (case getElementById resourceDom ''ctl00_ctl00_MainFormContent_DownloadLinkForViewType'' of
        Some downloadAnchor \<Rightarrow>
          (case getAttribute downloadAnchor ''href'' of
             None \<Rightarrow> Threw TypeError s
           | Some href \<Rightarrow>
               let downloadUrl = ''https://resource.itslearning.com'' @ replaceAll ''&amp;'' ''&'' href;
                   downloadFilename = getAttribute downloadAnchor ''Download''
               in downloadFile env s downloadUrl resourceCookieString folderPath downloadFilename)
      | None \<Rightarrow>
          (case getElementById resourceDom
                  ''ctl00_ctl00_MainFormContent_PreviewIframe_FilePreviewIframe'' of
             Some filePreviewIframe \<Rightarrow>
               let previewUrl = ''https://resource.itslearning.com/''
                     @ toString (getAttribute filePreviewIframe ''src'');
                   previewRequest = \<lparr>requestUrl = previewUrl, cookieHeader = Some resourceCookieString,
                     redirectManual = False\<rparr>;
                   s1 = emit (Fetch previewRequest) s
               in (case fetch env previewRequest of
                     Inl e \<Rightarrow> Threw e s1
                   | Inr previewResponse \<Rightarrow>
                       if \<not> ok previewResponse
                       then Returned (emit (ConsoleError
                              (''Failed to download file preview web page (office online): ''
                                 @ statusText previewResponse)) s1)
                       else (case getOfficeFileDownloadUrl (body previewResponse) of
                               Inl e \<Rightarrow> Threw e s1
                             | Inr officeDownloadUrl \<Rightarrow>
                                 downloadFile env s1 officeDownloadUrl [] folderPath (Some fileName)))
           | None \<Rightarrow>
               Returned (emit (ConsoleLog
                 (''Resource type unsupported. No direct download link available: '' @ fileName)) s)))"

definition downloadResourceObject ::
  "env \<Rightarrow> state \<Rightarrow> string \<Rightarrow> string \<Rightarrow> string \<Rightarrow> string \<Rightarrow> outcome" where
  "downloadResourceObject env s school sessionId elementId folderPath =
     (case resolveHops env s school sessionId elementId of
        Stopped r \<Rightarrow> r
      | Reached s3 fileName resourceCookieString resourceDom \<Rightarrow>
          deliver env s3 folderPath fileName resourceCookieString resourceDom)"

section \<open>The Folder Traversal Engine\<close>

text \<open>
  The first part of \<^verbatim>\<open>downloadResourceFolder\<close> (lines 130 to 161 of the source) fetches
  and reads the folder page: it either ends the call or gives the state, the folder's
  local path, the entries' names and the entries.
\<close>

datatype folder_page = Ended outcome | Opened state string "string list" "element list"

definition openFolder ::
  "env \<Rightarrow> state \<Rightarrow> string \<Rightarrow> string \<Rightarrow> string \<Rightarrow> string \<Rightarrow> bool \<Rightarrow> folder_page" where
  "openFolder env s school folderUrl sessionId parentFolderPath appendId =
     (let folderUrl' = (if startsWith folderUrl ''/''
                        then ''https://'' @ school @ ''.itslearning.com'' @ folderUrl
                        else folderUrl);
          req = \<lparr>requestUrl = folderUrl',
            cookieHeader = Some (''ASP.NET_SessionId='' @ sessionId @ '';''),
            redirectManual = False\<rparr>;
          s1 = emit (Fetch req) s
      in case fetch env req of
           Inl e \<Rightarrow> Ended (Threw e s1)
         | Inr contentResponse \<Rightarrow>
      if \<not> ok contentResponse
      then Ended (Returned (emit (ConsoleError
             (''Failed to fetch web content for folder at '' @ folderUrl')) s1))
      else
        let doc = parseFromString env (body contentResponse)
        in case getElementById doc ''ctl00_PageHeader_TT'' of
             None \<Rightarrow> Ended (Threw TypeError s1)
           | Some header \<Rightarrow>
        let rawFolderName = textContent header;
            folderName = decodeString env rawFolderName
        in case (if appendId
                 then (case matchDigits ''FolderID='' folderUrl' of
                         None \<Rightarrow> Inl TypeError
                       | Some folderId \<Rightarrow> Inr (folderName @ '' ['' @ folderId @ '']''))
                 else Inr folderName) of
             Inl e \<Rightarrow> Ended (Threw e s1)
           | Inr folderName' \<Rightarrow>
        let folderPath = parentFolderPath @ ''/'' @ folderName';
            folderEntries = getElementsByClassName doc ''GridTitle'';
            folderEntryNames = map textContent folderEntries
        in Opened s1 folderPath folderEntryNames folderEntries)"

text \<open>
  The second part is the loop over the entries. A folder page may link to folders
  without end, so the recursion carries a depth bound: \<open>None\<close> says that the bound was
  reached, \<open>Some\<close> is how the call ended.

  \<^verbatim>\<open>downloadResourceObject\<close> is called without \<^verbatim>\<open>await\<close>, and nothing in the program
  reads its promise: the loop goes on as soon as the call has sent its first request, and
  the rest of the resolution runs later, between the steps of the traversal or after it.
  The traversal therefore neither waits for a resolution nor sees how it ends. Its state
  holds what the traversal itself requests and prints and, as \<open>Started\<close> events, the
  resolutions it has started, in order. What a started resolution does, from its view
  request on, is \<open>downloadResourceObject env s' school sessionId elementId folderPath\<close>
  for the state \<open>s'\<close> it finds; in which order the steps of several resolutions and of
  the traversal follow each other is not fixed by the program and is not modelled. Nor is
  what the runtime does when a started resolution throws: its promise is rejected and
  nothing handles the rejection.
\<close>

fun downloadResourceFolder ::
      "nat \<Rightarrow> env \<Rightarrow> state \<Rightarrow> string \<Rightarrow> string \<Rightarrow> string \<Rightarrow> string \<Rightarrow> bool \<Rightarrow> outcome option"
  and folderEntriesLoop ::
      "nat \<Rightarrow> env \<Rightarrow> state \<Rightarrow> string \<Rightarrow> string \<Rightarrow> string \<Rightarrow> string list \<Rightarrow> element list
        \<Rightarrow> outcome option"
where
  "downloadResourceFolder 0 env s school folderUrl sessionId parentFolderPath appendId = None"
| "downloadResourceFolder (Suc n) env s school folderUrl sessionId parentFolderPath appendId =
     (case openFolder env s school folderUrl sessionId parentFolderPath appendId of
        Ended r \<Rightarrow> Some r
      | Opened s1 folderPath folderEntryNames folderEntries \<Rightarrow>
          folderEntriesLoop n env s1 school sessionId folderPath folderEntryNames folderEntries)"
| "folderEntriesLoop n env s school sessionId folderPath folderEntryNames [] = Some (Returned s)"
| "folderEntriesLoop n env s school sessionId folderPath folderEntryNames (entry # entries) =
     (case getAttribute entry ''href'' of
        None \<Rightarrow> Some (Threw TypeError s)
      | Some url \<Rightarrow>
     let numberOfSameName = length (filter (\<lambda>n. n = textContent entry) folderEntryNames);
         shouldAppendId = (if numberOfSameName > 1 then True else False)
     in if startsWith url ''/Folder''
        then (case downloadResourceFolder n env s school url sessionId folderPath shouldAppendId of
                None \<Rightarrow> None
              | Some (Returned s') \<Rightarrow>
                  folderEntriesLoop n env s' school sessionId folderPath folderEntryNames entries
              | Some (Threw e s') \<Rightarrow> Some (Threw e s')
              | Some (Uncaught e s') \<Rightarrow> Some (Uncaught e s'))
        else if startsWith url ''/LearningToolElement''
        then (case matchDigits ''LearningToolElementId='' url of
                None \<Rightarrow> Some (Threw TypeError s)
              | Some elementId \<Rightarrow>
                  folderEntriesLoop n env (emit (Started elementId folderPath) s) school sessionId
                    folderPath folderEntryNames entries)
        else folderEntriesLoop n env (emit (ConsoleWarn (''Unknown folder entry type. Url: '' @ url)) s)
               school sessionId folderPath folderEntryNames entries)"

text \<open>A course as the course list gives it; the identifier is its text in the URL.\<close>

record course =
  Title :: string
  CourseId :: string

text \<open>
  The body of the loop of \<^verbatim>\<open>downloadResourcesOfCourses\<close> up to the call of
  \<^verbatim>\<open>downloadResourceFolder\<close> (lines 95 to 116 of the source): it either ends the whole
  function or gives the state, the URL of the course's resource folder and the course's
  local path.
\<close>

datatype course_page = Left outcome | Entered state string string

definition openCourse :: "env \<Rightarrow> state \<Rightarrow> string \<Rightarrow> string \<Rightarrow> course \<Rightarrow> course_page" where
  "openCourse env s school sessionId c =
     (let contentUrl = ''https://'' @ school
            @ ''.itslearning.com/ContentArea/ContentArea.aspx?LocationID='' @ CourseId c
            @ ''&LocationType=1'';
          req = \<lparr>requestUrl = contentUrl,
            cookieHeader = Some (''ASP.NET_SessionId='' @ sessionId @ '';''),
            redirectManual = False\<rparr>;
          s1 = emit (Fetch req) s
      in case fetch env req of
           Inl e \<Rightarrow> Left (Threw e s1)
         | Inr contentResponse \<Rightarrow>
      if \<not> ok contentResponse
      then Left (Returned (emit (ConsoleError
             (''Failed to fetch web content for course '' @ Title c)) s1))
      else
        let doc = parseFromString env (body contentResponse)
        in case getElementById doc ''link-resources'' of
             None \<Rightarrow> Left (Threw TypeError s1)
           | Some resourcesAnchor \<Rightarrow>
        (case getAttribute resourcesAnchor ''href'' of
             None \<Rightarrow> Left (Threw TypeError s1)
           | Some resourceFolderUrl \<Rightarrow>
        let parentFolder = pathJoin env (downloadLocation env) (decodeString env (Title c))
        in Entered s1 resourceFolderUrl parentFolder))"


section \<open>A server to run the program against\<close>

text \<open>
  \<^verbatim>\<open>path.join\<close> of Node on a POSIX system, for two arguments: the non-empty arguments
  are joined with a slash and the result is normalized (empty and \<open>.\<close> segments are
  dropped, a \<open>..\<close> segment removes the segment before it).
\<close>

fun splitSlash :: "string \<Rightarrow> string list" where
  "splitSlash [] = [[]]"
| "splitSlash (c # cs) =
     (if c = CHR ''/'' then [] # splitSlash cs
      else (case splitSlash cs of [] \<Rightarrow> [[c]] | w # ws \<Rightarrow> (c # w) # ws))"

fun normalizeSegments :: "bool \<Rightarrow> string list \<Rightarrow> string list \<Rightarrow> string list" where
  "normalizeSegments allowAboveRoot res [] = rev res"
| "normalizeSegments allowAboveRoot res (seg # segs) =
     (if seg = [] \<or> seg = ''.'' then normalizeSegments allowAboveRoot res segs
      else if seg = ''..''
      then (if res \<noteq> [] \<and> hd res \<noteq> ''..'' then normalizeSegments allowAboveRoot (tl res) segs
            else if allowAboveRoot then normalizeSegments allowAboveRoot (''..'' # res) segs
            else normalizeSegments allowAboveRoot res segs)
      else normalizeSegments allowAboveRoot (seg # res) segs)"

definition normalize :: "string \<Rightarrow> string" where
  "normalize path =
     (if path = [] then ''.''
      else
        let isAbsolute = (hd path = CHR ''/'');
            trailingSeparator = (last path = CHR ''/'');
            p = join (normalizeSegments (\<not> isAbsolute) [] (splitSlash path)) ''/''
        in if p = [] then (if isAbsolute then ''/'' else if trailingSeparator then ''./'' else ''.'')
           else (if isAbsolute then ''/'' else []) @ p @ (if trailingSeparator then ''/'' else []))"

definition posixJoin :: "string \<Rightarrow> string \<Rightarrow> string" where
  "posixJoin a b =
     (if a = [] \<and> b = [] then ''.''
      else normalize (if a = [] then b else if b = [] then a else a @ ''/'' @ b))"

text \<open>
  \<^verbatim>\<open>path.dirname\<close> of Node on a POSIX system: trailing slashes and the last segment are
  cut off, up to the slash before them; a slash at the very start is not cut.
\<close>

definition posixDirname :: "string \<Rightarrow> string" where
  "posixDirname path =
     (if path = [] then ''.''
      else
        let hasRoot = (hd path = CHR ''/'');
            r = dropWhile (\<lambda>c. c \<noteq> CHR ''/'') (dropWhile (\<lambda>c. c = CHR ''/'') (rev path));
            stop = length r - 1
        in if length r \<le> 1 then (if hasRoot then ''/'' else ''.'')
           else if hasRoot \<and> stop = 1 then ''//''
           else take stop path)"

text \<open>
  The pages of the server. The view pages of the elements 21, 22, 23, 25, 26, 28 and 29
  carry a title and the frame of the handoff. The platform pages of 21 and 25 have a
  download anchor, those of 22, 28 and 29 a preview frame, that of 23 neither. The view
  page of 24 is not found. The platform page of 26 is that of 21, sent with a status that
  is not a success. Folder 10 holds three folders, folder 14 three files; folder 11 and
  the content page of course 3 are not found.
\<close>

definition viewPage :: "string \<Rightarrow> string \<Rightarrow> element list" where
  "viewPage title src =
     [\<lparr>attributes = [(''id'', ''ctl00_PageHeader_TT'')], classNames = [], textContent = title\<rparr>,
      \<lparr>attributes = [(''id'', ''ctl00_ContentPlaceHolder_ExtensionIframe''), (''src'', src)],
       classNames = [], textContent = []\<rparr>]"

definition anchorPage :: "string \<Rightarrow> string \<Rightarrow> element list" where
  "anchorPage href name =
     [\<lparr>attributes = [(''id'', ''ctl00_ctl00_MainFormContent_DownloadLinkForViewType''),
                     (''href'', href), (''Download'', name)],
       classNames = [], textContent = ''Download''\<rparr>]"

definition previewPage :: "element list" where
  "previewPage =
     [\<lparr>attributes = [(''id'', ''ctl00_ctl00_MainFormContent_PreviewIframe_FilePreviewIframe''),
                     (''src'', ''p22'')],
       classNames = [], textContent = []\<rparr>]"

definition previewPageAt :: "string \<Rightarrow> element list" where
  "previewPageAt src =
     [\<lparr>attributes = [(''id'', ''ctl00_ctl00_MainFormContent_PreviewIframe_FilePreviewIframe''),
                     (''src'', src)],
       classNames = [], textContent = []\<rparr>]"

definition folderEntry :: "string \<Rightarrow> string \<Rightarrow> element" where
  "folderEntry name href =
     \<lparr>attributes = [(''href'', href)], classNames = [''GridTitle''], textContent = name\<rparr>"

definition folderPage :: "string \<Rightarrow> element list \<Rightarrow> element list" where
  "folderPage title entries =
     \<lparr>attributes = [(''id'', ''ctl00_PageHeader_TT'')], classNames = [], textContent = title\<rparr>
       # entries"

definition rootEntries :: "element list" where
  "rootEntries =
     [folderEntry ''Notes'' ''/Folder/processfolder.aspx?FolderID=11'',
      folderEntry ''Notes'' ''/Folder/processfolder.aspx?FolderID=12'',
      folderEntry ''Syllabus'' ''/Folder/processfolder.aspx?FolderID=13'']"

definition fileEntries :: "element list" where
  "fileEntries =
     [folderEntry ''Notes'' ''/LearningToolElement/ViewLearningToolElement.aspx?LearningToolElementId=21'',
      folderEntry ''Notes'' ''/LearningToolElement/ViewLearningToolElement.aspx?LearningToolElementId=25'',
      folderEntry ''Syllabus'' ''/LearningToolElement/ViewLearningToolElement.aspx?LearningToolElementId=23'']"

definition pages :: "(string \<times> element list) list" where
  "pages =
     [(''v21'', viewPage ''Report'' ''https://platform.example/21?a=1&amp;b=2''),
      (''v22'', viewPage ''Slides:1&amp;2.pptx'' ''https://platform.example/22''),
      (''v23'', viewPage ''Quiz'' ''https://platform.example/23''),
      (''v25'', viewPage ''Plan'' ''https://platform.example/25''),
      (''v26'', viewPage ''Report'' ''https://platform.example/26''),
      (''v28'', viewPage ''Sheet.xlsx'' ''https://platform.example/28''),
      (''v29'', viewPage ''Memo.docx'' ''https://platform.example/29''),
      (''r21'', anchorPage ''/x&amp;y'' ''report.pdf''),
      (''r22'', previewPage),
      (''r23'', []),
      (''r25'', anchorPage ''/d25'' ''Plan:1&amp;2.pdf''),
      (''r28'', previewPageAt ''p28''),
      (''r29'', previewPageAt ''p29''),
      (''c1'', [\<lparr>attributes = [(''id'', ''link-resources''),
                                 (''href'', ''/Folder/processfolder.aspx?FolderID=10'')],
                classNames = [], textContent = ''Resources''\<rparr>]),
      (''c2'', [\<lparr>attributes = [(''id'', ''link-resources''),
                                 (''href'', ''/Folder/processfolder.aspx?FolderID=13'')],
                classNames = [], textContent = ''Resources''\<rparr>]),
      (''f10'', folderPage ''Root'' rootEntries),
      (''f12'', folderPage ''Notes: &lt;2&gt;'' []),
      (''f13'', folderPage ''Syllabus'' []),
      (''f14'', folderPage ''Files'' fileEntries)]"

text \<open>The script of the preview page of element 22.\<close>

definition officePage :: string where
  "officePage =
     ''form.action = '' @ [CHR 0x27] @ ''https://office.example/we?WOPISrc=https''
       @ CHR 0x5C # ''x253a'' @ CHR 0x5C # ''x252f'' @ CHR 0x5C # ''x252fwopi.example''
       @ CHR 0x5C # ''x252f22&ui=en'' @ [CHR 0x27] @ ''; accessTokenInput.value = ''
       @ [CHR 0x27] @ ''TOKEN'' @ [CHR 0x27] @ ''; accessTokenTtlInput.value = ''
       @ [CHR 0x27] @ ''0'' @ [CHR 0x27] @ '';''"

text \<open>
  The script of the preview page of element 28: in its form action a further parameter
  stands between \<^verbatim>\<open>WOPISrc\<close> and \<^verbatim>\<open>ui\<close>. The script of the preview page of element
  29: it sets the form action and the access token, not the token's time to live.
\<close>

definition officePage28 :: string where
  "officePage28 =
     ''form.action = '' @ [CHR 0x27] @ ''https://office.example/we?WOPISrc=https''
       @ CHR 0x5C # ''x253a'' @ CHR 0x5C # ''x252f'' @ CHR 0x5C # ''x252fwopi.example''
       @ CHR 0x5C # ''x252f28&rs=en&ui=en'' @ [CHR 0x27] @ ''; accessTokenInput.value = ''
       @ [CHR 0x27] @ ''TOKEN'' @ [CHR 0x27] @ ''; accessTokenTtlInput.value = ''
       @ [CHR 0x27] @ ''0'' @ [CHR 0x27] @ '';''"

definition officePage29 :: string where
  "officePage29 =
     ''form.action = '' @ [CHR 0x27] @ ''https://office.example/we?WOPISrc=https''
       @ CHR 0x5C # ''x253a'' @ CHR 0x5C # ''x252f'' @ CHR 0x5C # ''x252fwopi.example''
       @ CHR 0x5C # ''x252f29&ui=en'' @ [CHR 0x27] @ ''; accessTokenInput.value = ''
       @ [CHR 0x27] @ ''TOKEN'' @ [CHR 0x27] @ '';''"

definition page :: "string \<Rightarrow> response" where
  "page text = \<lparr>ok = True, statusText = ''OK'', location = None, setCookie = None, body = text\<rparr>"

definition failure :: response where
  "failure = \<lparr>ok = False, statusText = ''Not Found'', location = None, setCookie = None,
               body = []\<rparr>"

definition handoff :: "string \<Rightarrow> response" where
  "handoff target = \<lparr>ok = False, statusText = ''Found'', location = Some target,
                     setCookie = Some [''P=1; path=/'', ''P=1; path=/''], body = []\<rparr>"

definition platform :: "string \<Rightarrow> response" where
  "platform text = \<lparr>ok = True, statusText = ''OK'', location = None,
                    setCookie = Some [''ASP.NET_SessionId=r1; path=/; HttpOnly'', ''lang=en; path=/''],
                    body = text\<rparr>"

definition platformError :: "string \<Rightarrow> response" where
  "platformError text = \<lparr>ok = False, statusText = ''Internal Server Error'', location = None,
                         setCookie = Some [''ASP.NET_SessionId=r1; path=/; HttpOnly''],
                         body = text\<rparr>"

definition site :: "(string \<times> response) list" where
  "site =
     [(''https://s.itslearning.com/LearningToolElement/ViewLearningToolElement.aspx?LearningToolElementId=21'',
         page ''v21''),
      (''https://s.itslearning.com/LearningToolElement/ViewLearningToolElement.aspx?LearningToolElementId=22'',
         page ''v22''),
      (''https://s.itslearning.com/LearningToolElement/ViewLearningToolElement.aspx?LearningToolElementId=23'',
         page ''v23''),
      (''https://s.itslearning.com/LearningToolElement/ViewLearningToolElement.aspx?LearningToolElementId=24'',
         failure),
      (''https://s.itslearning.com/LearningToolElement/ViewLearningToolElement.aspx?LearningToolElementId=25'',
         page ''v25''),
      (''https://s.itslearning.com/LearningToolElement/ViewLearningToolElement.aspx?LearningToolElementId=26'',
         page ''v26''),
      (''https://s.itslearning.com/LearningToolElement/ViewLearningToolElement.aspx?LearningToolElementId=28'',
         page ''v28''),
      (''https://s.itslearning.com/LearningToolElement/ViewLearningToolElement.aspx?LearningToolElementId=29'',
         page ''v29''),
      (''https://platform.example/21?a=1&b=2'', handoff ''https://resource.example/21''),
      (''https://platform.example/22'', handoff ''https://resource.example/22''),
      (''https://platform.example/23'', handoff ''https://resource.example/23''),
      (''https://platform.example/25'', handoff ''https://resource.example/25''),
      (''https://platform.example/26'', handoff ''https://resource.example/26''),
      (''https://platform.example/28'', handoff ''https://resource.example/28''),
      (''https://platform.example/29'', handoff ''https://resource.example/29''),
      (''https://resource.example/21'', platform ''r21''),
      (''https://resource.example/22'', platform ''r22''),
      (''https://resource.example/23'', platform ''r23''),
      (''https://resource.example/25'', platform ''r25''),
      (''https://resource.example/26'', platformError ''r21''),
      (''https://resource.example/28'', platform ''r28''),
      (''https://resource.example/29'', platform ''r29''),
      (''https://resource.itslearning.com/x&y'', page ''PDF''),
      (''https://resource.itslearning.com/d25'', page ''PLAN''),
      (''https://resource.itslearning.com/p22'', page officePage),
      (''https://resource.itslearning.com/p28'', page officePage28),
      (''https://resource.itslearning.com/p29'', page officePage29),
      (''https://wopi.example/22/contents?access_token=TOKEN'', page ''PPTX''),
      (''https://s.itslearning.com/ContentArea/ContentArea.aspx?LocationID=1&LocationType=1'',
         page ''c1''),
      (''https://s.itslearning.com/ContentArea/ContentArea.aspx?LocationID=2&LocationType=1'',
         page ''c2''),
      (''https://s.itslearning.com/ContentArea/ContentArea.aspx?LocationID=3&LocationType=1'',
         failure),
      (''https://s.itslearning.com/Folder/processfolder.aspx?FolderID=10'', page ''f10''),
      (''https://s.itslearning.com/Folder/processfolder.aspx?FolderID=11'', failure),
      (''https://s.itslearning.com/Folder/processfolder.aspx?FolderID=12'', page ''f12''),
      (''https://s.itslearning.com/Folder/processfolder.aspx?FolderID=13'', page ''f13''),
      (''https://s.itslearning.com/Folder/processfolder.aspx?FolderID=14'', page ''f14'')]"

definition server :: env where
  "server =
     \<lparr>fetch = (\<lambda>r. case map_of site (requestUrl r) of
                        None \<Rightarrow> Inl FetchError
                      | Some resp \<Rightarrow> Inr resp),
      parseFromString = (\<lambda>text. case map_of pages text of None \<Rightarrow> [] | Some doc \<Rightarrow> doc),
      decode = decodeEntities,
      pathJoin = posixJoin,
      pathDirname = posixDirname,
      downloadLocation = ''./data'',
      skipAlreadyDownloadedFiles = True\<rparr>"

definition start :: state where
  "start = \<lparr>trace = [], fs = Map.empty\<rparr>"


section \<open>Shorthand for the requests of the program\<close>

text \<open>The URL and the request of the view hop (lines 191 to 199 of the source).\<close>

abbreviation viewUrl :: "string \<Rightarrow> string \<Rightarrow> string" where
  "viewUrl school elementId \<equiv>
     ''https://'' @ school
       @ ''.itslearning.com/LearningToolElement/ViewLearningToolElement.aspx?LearningToolElementId=''
       @ elementId"

abbreviation viewRequest :: "string \<Rightarrow> string \<Rightarrow> string \<Rightarrow> request" where
  "viewRequest school sessionId elementId \<equiv>
     \<lparr>requestUrl = viewUrl school elementId,
      cookieHeader = Some (''ASP.NET_SessionId='' @ sessionId @ '';''),
      redirectManual = True\<rparr>"

text \<open>The URL and the request of a folder page (lines 130 to 138 of the source).\<close>

abbreviation absoluteUrl :: "string \<Rightarrow> string \<Rightarrow> string" where
  "absoluteUrl school folderUrl \<equiv>
     (if startsWith folderUrl ''/''
      then ''https://'' @ school @ ''.itslearning.com'' @ folderUrl
      else folderUrl)"

abbreviation folderRequest :: "string \<Rightarrow> string \<Rightarrow> request" where
  "folderRequest sessionId folderUrl \<equiv>
     \<lparr>requestUrl = folderUrl,
      cookieHeader = Some (''ASP.NET_SessionId='' @ sessionId @ '';''),
      redirectManual = False\<rparr>"

text \<open>The request of the preview page (lines 258 to 264 of the source).\<close>

abbreviation previewRequest :: "element \<Rightarrow> string \<Rightarrow> request" where
  "previewRequest frame resourceCookieString \<equiv>
     \<lparr>requestUrl = ''https://resource.itslearning.com/'' @ toString (getAttribute frame ''src''),
      cookieHeader = Some resourceCookieString,
      redirectManual = False\<rparr>"

text \<open>
  The four matches of \<^verbatim>\<open>getOfficeFileDownloadUrl\<close> and its two replacements (lines 282
  to 289 of the source).
\<close>

abbreviation formAction :: "string \<Rightarrow> string option" where
  "formAction webContent \<equiv>
     matchNonSpace (''form.action = '' @ [CHR 0x27]) (CHR 0x27 # '';'') webContent"

abbreviation accessTokenValue :: "string \<Rightarrow> string option" where
  "accessTokenValue webContent \<equiv>
     matchNonSpace (''accessTokenInput.value = '' @ [CHR 0x27]) (CHR 0x27 # '';'') webContent"

abbreviation accessTokenTtlValue :: "string \<Rightarrow> string option" where
  "accessTokenTtlValue webContent \<equiv>
     matchNonSpace (''accessTokenTtlInput.value = '' @ [CHR 0x27]) (CHR 0x27 # '';'') webContent"

abbreviation wopiSrcOf :: "string \<Rightarrow> string option" where
  "wopiSrcOf officeUrl \<equiv> matchNonSpace ''WOPISrc='' ''&ui='' officeUrl"

abbreviation unescape :: "string \<Rightarrow> string" where
  "unescape text \<equiv>
     replaceAll (CHR 0x5C # ''x252f'') ''/'' (replaceAll (CHR 0x5C # ''x253a'') '':'' text)"

section \<open>The name sanitizer: claims C9 and C5\<close>

lemma sanitize_twice:
  "map (\<lambda>c. if c \<in> forbidden then CHR ''_'' else c)
     (map (\<lambda>c. if c \<in> forbidden then CHR ''_'' else c) xs)
   = map (\<lambda>c. if c \<in> forbidden then CHR ''_'' else c) xs"
  by (induction xs) (auto simp: forbidden_def)

text \<open>
  Claim C9. For every text and every entity decoder, the sanitizer is the replacement of
  every character of the set \<open>/ \ | " : ? * < > { }\<close> by \<open>_\<close> in the decoded text, so
  its result has no character of that set. With the entities decoded as
  \<^verbatim>\<open>html-entities\<close> decodes them, \<^verbatim>\<open>A/B\C:D\<close> becomes \<^verbatim>\<open>A_B_C_D\<close>, and an
  entity is decoded before the replacement: \<^verbatim>\<open>1&lt;2 &amp; 3\<close> becomes \<^verbatim>\<open>1_2 & 3\<close>.
\<close>

theorem decodeString_replaces_forbidden:
  "decodeString env text = map (\<lambda>c. if c \<in> forbidden then CHR ''_'' else c) (decode env text)
   \<and> set (decodeString env text) \<inter> forbidden = {}
   \<and> decodeString server (''A/B'' @ [CHR 0x5C] @ ''C:D'') = ''A_B_C_D''
   \<and> decodeString server ''1&lt;2 &amp; 3'' = ''1_2 & 3''"
proof (intro conjI)
  show "decodeString env text = map (\<lambda>c. if c \<in> forbidden then CHR ''_'' else c) (decode env text)"
    by (simp add: decodeString_def bufferRoundTrip_def)
  show "set (decodeString env text) \<inter> forbidden = {}"
    by (auto simp: decodeString_def forbidden_def)
  show "decodeString server (''A/B'' @ [CHR 0x5C] @ ''C:D'') = ''A_B_C_D''"
    by (simp add: decodeString_def bufferRoundTrip_def server_def forbidden_def
        namedReferences_def startsWith_def)
  show "decodeString server ''1&lt;2 &amp; 3'' = ''1_2 & 3''"
    by (simp add: decodeString_def bufferRoundTrip_def server_def forbidden_def
        namedReferences_def startsWith_def)
qed

text \<open>
  Claim C5, as stated, fails: the sanitizer is not idempotent. \<^verbatim>\<open>&amp;lt;\<close> is
  sanitized to \<^verbatim>\<open>&lt;\<close>, which is an entity again; sanitizing it once more gives
  \<^verbatim>\<open>_\<close>.
\<close>

theorem decodeString_twice_differs:
  "decodeString server (decodeString server ''&amp;lt;'') \<noteq> decodeString server ''&amp;lt;''"
  by (simp add: decodeString_def bufferRoundTrip_def server_def forbidden_def
      namedReferences_def startsWith_def)

text \<open>
  Claim C5, amended. The sanitizer is idempotent on every text whose sanitized form is
  left as it is by the entity decoder (it holds no entity any more): on such a text
  \<open>sanitize (sanitize x) = sanitize x\<close>.
\<close>

theorem decodeString_idempotent_on_decoded:
  assumes "decode env (decodeString env x) = decodeString env x"
  shows "decodeString env (decodeString env x) = decodeString env x"
proof -
  have "decodeString env (decodeString env x)
        = map (\<lambda>c. if c \<in> forbidden then CHR ''_'' else c) (decode env (decodeString env x))"
    by (simp add: decodeString_def bufferRoundTrip_def)
  also have "\<dots> = map (\<lambda>c. if c \<in> forbidden then CHR ''_'' else c) (decodeString env x)"
    using assms by simp
  also have "\<dots> = decodeString env x"
    by (simp add: decodeString_def sanitize_twice)
  finally show ?thesis .
qed

lemma sanitized_notes: "decodeString server ''Notes: &lt;2&gt;'' = ''Notes_ _2_''"
  by (simp add: decodeString_def bufferRoundTrip_def server_def forbidden_def
      namedReferences_def startsWith_def)

text \<open>
  The amended claim C5 at \<^verbatim>\<open>Notes: &lt;2&gt;\<close>, whose sanitized form is \<^verbatim>\<open>Notes_ _2_\<close>.
\<close>

theorem decodeString_idempotent_on_decoded_witness:
  "decode server (decodeString server ''Notes: &lt;2&gt;'') = decodeString server ''Notes: &lt;2&gt;''
   \<and> decodeString server (decodeString server ''Notes: &lt;2&gt;'')
       = decodeString server ''Notes: &lt;2&gt;''"
proof -
  have h: "decode server (decodeString server ''Notes: &lt;2&gt;'')
           = decodeString server ''Notes: &lt;2&gt;''"
    unfolding sanitized_notes by (simp add: server_def namedReferences_def startsWith_def)
  show ?thesis
    using h decodeString_idempotent_on_decoded [OF h] by simp
qed

section \<open>Facts about the cookie string\<close>

lemma set_newSet: "set (newSet seen xs) = set seen \<union> set xs"
  by (induction xs arbitrary: seen) auto

lemma distinct_newSet: "distinct seen \<Longrightarrow> distinct (newSet seen xs)"
  by (induction xs arbitrary: seen) auto

lemma cookie_prefix:
  "substring c 0 (indexOf c CHR '';'')
   = (if CHR '';'' \<in> set c then takeWhile (\<lambda>x. x \<noteq> CHR '';'') c else [])"
proof (cases "CHR '';'' \<in> set c")
  case True
  define k where "k = length (takeWhile (\<lambda>x. x \<noteq> CHR '';'') c)"
  have le: "k \<le> length c"
    unfolding k_def by (rule length_takeWhile_le)
  have "substring c 0 (int k) = take k c"
    using le by (simp add: substring_def Let_def)
  also have "\<dots> = takeWhile (\<lambda>x. x \<noteq> CHR '';'') c"
    unfolding k_def by (rule takeWhile_eq_take [symmetric])
  finally show ?thesis
    using True by (simp add: indexOf_def k_def)
next
  case False
  then show ?thesis by (simp add: substring_def indexOf_def Let_def)
qed

section \<open>The File Materializer: claim C8\<close>

text \<open>
  Claim C8. When a file exists at the path joined from \<open>folderPath\<close> and \<open>fileName\<close>
  and skipping is enabled, \<^verbatim>\<open>downloadFile\<close> returns after printing the skip line: the
  trace gains that line only (no request is sent), the file system is the one before the
  call, and the file keeps its contents.
\<close>

theorem downloadFile_skips_existing:
  assumes "fs s (pathJoin env folderPath fileName) = Some (File content)"
      and "skipAlreadyDownloadedFiles env"
  shows "\<exists>s'. downloadFile env s downloadUrl cookieString folderPath (Some fileName) = Returned s'
           \<and> trace s' = trace s @ [ConsoleLog (''Skipping file: '' @ pathJoin env folderPath fileName)]
           \<and> fs s' = fs s
           \<and> fs s' (pathJoin env folderPath fileName) = Some (File content)"
  using assms by (simp add: downloadFile_def existsSync_def emit_def)

text \<open>
  Claim C8 on the example server, with \<^verbatim>\<open>data/C/report.pdf\<close> already on disk.
\<close>

theorem downloadFile_skips_existing_witness:
  "fs (start\<lparr>fs := [''data/C/report.pdf'' \<mapsto> File ''old'']\<rparr>) (pathJoin server ''data/C'' ''report.pdf'')
     = Some (File ''old'')
   \<and> skipAlreadyDownloadedFiles server
   \<and> (\<exists>s'. downloadFile server (start\<lparr>fs := [''data/C/report.pdf'' \<mapsto> File ''old'']\<rparr>)
               ''https://resource.itslearning.com/x&y'' ''ASP.NET_SessionId=r1'' ''data/C''
               (Some ''report.pdf'') = Returned s'
           \<and> trace s' = [ConsoleLog ''Skipping file: data/C/report.pdf'']
           \<and> fs s' ''data/C/report.pdf'' = Some (File ''old''))"
proof -
  have j: "pathJoin server ''data/C'' ''report.pdf'' = ''data/C/report.pdf''"
    by (simp add: server_def posixJoin_def normalize_def)
  have h1: "fs (start\<lparr>fs := [''data/C/report.pdf'' \<mapsto> File ''old'']\<rparr>)
              (pathJoin server ''data/C'' ''report.pdf'') = Some (File ''old'')"
    unfolding j by simp
  have h2: "skipAlreadyDownloadedFiles server"
    by (simp add: server_def)
  show ?thesis
    using h1 h2 downloadFile_skips_existing [OF h1 h2, of "''https://resource.itslearning.com/x&y''"
        "''ASP.NET_SessionId=r1''"]
    unfolding j by (auto simp: start_def)
qed

section \<open>Facts about the text functions\<close>

lemma startsWith_Nil [simp]: "startsWith s []"
  by (simp add: startsWith_def)

lemma startsWith_Nil_Cons [simp]: "\<not> startsWith [] (x # q)"
  by (simp add: startsWith_def)

lemma startsWith_Cons_Cons [simp]: "startsWith (c # cs) (x # q) = (c = x \<and> startsWith cs q)"
  by (auto simp: startsWith_def)

lemma startsWith_append: "startsWith s p \<Longrightarrow> s = p @ drop (length p) s"
  by (metis append_take_drop_id startsWith_def)

lemma startsWith_appendI: "startsWith (p @ t) p"
  by (simp add: startsWith_def)

lemma backtrack_Some:
  "backtrack lit2 r k = Some g \<Longrightarrow> \<exists>j. 0 < j \<and> j \<le> k \<and> g = take j r \<and> startsWith (drop j r) lit2"
proof (induction k)
  case 0
  then show ?case by simp
next
  case (Suc k)
  show ?case
  proof (cases "startsWith (drop (Suc k) r) lit2")
    case True
    with Suc.prems have "g = take (Suc k) r" by simp
    with True show ?thesis by blast
  next
    case False
    with Suc.prems have "backtrack lit2 r k = Some g" by simp
    from Suc.IH [OF this] obtain j where
      "0 < j" "j \<le> k" "g = take j r" "startsWith (drop j r) lit2" by blast
    then have "0 < j \<and> j \<le> Suc k \<and> g = take j r \<and> startsWith (drop j r) lit2" by simp
    then show ?thesis by blast
  qed
qed

lemma matchAt_Some:
  assumes "matchAt lit1 lit2 s = Some g"
  shows "\<exists>post. s = lit1 @ g @ lit2 @ post \<and> g \<noteq> [] \<and> \<not> (\<exists>c \<in> set g. isSpace c)"
proof -
  define r where "r = drop (length lit1) s"
  define run where "run = takeWhile (\<lambda>c. \<not> isSpace c) r"
  from assms have sw: "startsWith s lit1"
    by (auto simp: matchAt_def split: if_splits)
  with assms have "backtrack lit2 r (length run) = Some g"
    by (simp add: matchAt_def r_def run_def Let_def)
  then obtain j where j: "0 < j" "j \<le> length run" "g = take j r" "startsWith (drop j r) lit2"
    using backtrack_Some by blast
  have run_r: "run = take (length run) r"
    unfolding run_def by (rule takeWhile_eq_take)
  have "length run \<le> length r"
    unfolding run_def by (rule length_takeWhile_le)
  with j have "g = take j run"
    by (metis run_r min.absorb1 take_take)
  then have "set g \<subseteq> set run"
    by (simp add: set_take_subset)
  moreover have "\<forall>c \<in> set run. \<not> isSpace c"
    unfolding run_def by (auto dest: set_takeWhileD)
  ultimately have nosp: "\<not> (\<exists>c \<in> set g. isSpace c)" by blast
  have "g \<noteq> []"
    using j \<open>length run \<le> length r\<close> by auto
  moreover have "s = lit1 @ r"
    unfolding r_def using sw by (rule startsWith_append)
  moreover have "r = g @ drop j r"
    using j by simp
  moreover have "drop j r = lit2 @ drop (length lit2) (drop j r)"
    using j(4) by (rule startsWith_append)
  ultimately show ?thesis using nosp by metis
qed

lemma matchNonSpace_Some:
  "matchNonSpace lit1 lit2 s = Some g \<Longrightarrow>
     \<exists>pre post. s = pre @ lit1 @ g @ lit2 @ post \<and> g \<noteq> [] \<and> \<not> (\<exists>c \<in> set g. isSpace c)"
proof (induction s)
  case Nil
  then show ?case by simp
next
  case (Cons c cs)
  show ?case
  proof (cases "matchAt lit1 lit2 (c # cs)")
    case (Some g')
    with Cons.prems have "g' = g" by simp
    with Some matchAt_Some [of lit1 lit2 "c # cs" g] show ?thesis
      by (metis append_Nil)
  next
    case None
    with Cons.prems have "matchNonSpace lit1 lit2 cs = Some g" by simp
    from Cons.IH [OF this] obtain pre post where
      "cs = pre @ lit1 @ g @ lit2 @ post" "g \<noteq> []" "\<not> (\<exists>c \<in> set g. isSpace c)" by blast
    then have "c # cs = (c # pre) @ lit1 @ g @ lit2 @ post" by simp
    with \<open>g \<noteq> []\<close> \<open>\<not> (\<exists>c \<in> set g. isSpace c)\<close> show ?thesis by blast
  qed
qed

lemma startsWith_replaceAll:
  assumes "rep \<noteq> []" and "set rep \<inter> set q = {}"
  shows "startsWith (replaceAll pat rep cs) q \<Longrightarrow> startsWith cs q"
  using assms(2)
proof (induction q arbitrary: cs)
  case Nil
  then show ?case by simp
next
  case (Cons x q)
  show ?case
  proof (cases cs)
    case Nil
    with Cons.prems show ?thesis by simp
  next
    case (Cons d ds)
    show ?thesis
    proof (cases "startsWith (d # ds) pat")
      case True
      obtain r0 rs where rep: "rep = r0 # rs"
        using assms(1) by (cases rep) auto
      from True Cons Cons.prems(1) have "r0 = x"
        by (simp add: rep)
      with rep Cons.prems(2) show ?thesis by auto
    next
      case False
      with Cons Cons.prems(1) have "d = x" "startsWith (replaceAll pat rep ds) q"
        by simp_all
      moreover have "set rep \<inter> set q = {}"
        using Cons.prems(2) by auto
      ultimately show ?thesis
        using Cons.IH [of ds] Cons by simp
    qed
  qed
qed

lemma str_includes_append_disjoint:
  assumes "set rep \<inter> set p = {}" and "p \<noteq> []"
  shows "str_includes (rep @ xs) p = str_includes xs p"
  using assms(1)
proof (induction rep)
  case Nil
  then show ?case by simp
next
  case (Cons r rs)
  obtain p0 ps where p: "p = p0 # ps"
    using assms(2) by (cases p) auto
  from Cons.prems have "r \<noteq> p0" by (auto simp: p)
  moreover have "str_includes (rs @ xs) p = str_includes xs p"
    using Cons by auto
  ultimately show ?case by (simp add: p)
qed

lemma str_includes_Cons: "str_includes cs p \<Longrightarrow> str_includes (c # cs) p"
  by simp

lemma str_includes_drop: "str_includes (drop k xs) p \<Longrightarrow> str_includes xs p"
proof (induction xs arbitrary: k)
  case Nil
  then show ?case by simp
next
  case (Cons x xs)
  then show ?case by (cases k) auto
qed

lemma replaceAll_removes:
  "rep \<noteq> [] \<Longrightarrow> set rep \<inter> set pat = {} \<Longrightarrow> pat \<noteq> [] \<Longrightarrow>
     \<not> str_includes (replaceAll pat rep s) pat"
proof (induction pat rep s rule: replaceAll.induct)
  case (1 pat rep)
  then show ?case by simp
next
  case (2 pat rep c cs)
  obtain b rest where pat: "pat = b # rest"
    using "2.prems"(3) by (cases pat) auto
  show ?case
  proof (cases "startsWith (c # cs) pat")
    case True
    then have "\<not> str_includes (replaceAll pat rep (drop (length pat - 1) cs)) pat"
      using "2.IH"(1) "2.prems" by simp
    then show ?thesis
      using True "2.prems" by (simp add: str_includes_append_disjoint)
  next
    case False
    then have ih: "\<not> str_includes (replaceAll pat rep cs) pat"
      using "2.IH"(2) "2.prems" by simp
    have "\<not> startsWith (c # replaceAll pat rep cs) pat"
    proof
      assume "startsWith (c # replaceAll pat rep cs) pat"
      then have "c = b" "startsWith (replaceAll pat rep cs) rest"
        by (simp_all add: pat)
      moreover have "set rep \<inter> set rest = {}"
        using "2.prems"(2) by (auto simp: pat)
      ultimately have "startsWith cs rest"
        using startsWith_replaceAll "2.prems"(1) by blast
      with \<open>c = b\<close> False show False by (simp add: pat)
    qed
    with ih False show ?thesis by simp
  qed
qed

lemma replaceAll_adds_none:
  "rep \<noteq> [] \<Longrightarrow> set rep \<inter> set p = {} \<Longrightarrow> p \<noteq> [] \<Longrightarrow>
     str_includes (replaceAll pat rep s) p \<Longrightarrow> str_includes s p"
proof (induction pat rep s rule: replaceAll.induct)
  case (1 pat rep)
  then show ?case by simp
next
  case (2 pat rep c cs)
  obtain p0 ps where p: "p = p0 # ps"
    using "2.prems"(3) by (cases p) auto
  show ?case
  proof (cases "startsWith (c # cs) pat")
    case True
    with "2.prems" have "str_includes (replaceAll pat rep (drop (length pat - 1) cs)) p"
      by (simp add: str_includes_append_disjoint)
    then have "str_includes (drop (length pat - 1) cs) p"
      using "2.IH"(1) True "2.prems" by simp
    then show ?thesis
      by (simp add: str_includes_drop)
  next
    case False
    with "2.prems"(4) have
      "startsWith (c # replaceAll pat rep cs) p \<or> str_includes (replaceAll pat rep cs) p"
      by simp
    then show ?thesis
    proof
      assume "startsWith (c # replaceAll pat rep cs) p"
      then have "c = p0" "startsWith (replaceAll pat rep cs) ps"
        by (simp_all add: p)
      moreover have "set rep \<inter> set ps = {}"
        using "2.prems"(2) by (auto simp: p)
      ultimately have "startsWith cs ps"
        using startsWith_replaceAll "2.prems"(1) by blast
      with \<open>c = p0\<close> show ?thesis by (simp add: p)
    next
      assume "str_includes (replaceAll pat rep cs) p"
      then have "str_includes cs p"
        using "2.IH"(2) False "2.prems" by simp
      then show ?thesis by simp
    qed
  qed
qed

lemma startsWith_before:
  "startsWith (a @ b # u) q \<Longrightarrow> b \<notin> set q \<Longrightarrow> startsWith a q"
proof (induction q arbitrary: a)
  case Nil
  then show ?case by simp
next
  case (Cons x q)
  then show ?case by (cases a) auto
qed

lemma startsWith_straddle:
  assumes "b \<notin> set rest" and "startsWith ((c # cs) @ (b # rest) @ t) (b # rest)"
  shows "startsWith (c # cs) (b # rest)"
proof -
  from assms(2) have "c = b" "startsWith (cs @ b # (rest @ t)) rest"
    by simp_all
  with assms(1) show ?thesis
    using startsWith_before [of cs b "rest @ t" rest] by simp
qed

lemma startsWith_length: "startsWith s p \<Longrightarrow> length p \<le> length s"
proof -
  assume "startsWith s p"
  then have "length (take (length p) s) = length p"
    by (simp only: startsWith_def)
  then show ?thesis by simp
qed

lemma startsWith_appendD: "startsWith s p \<Longrightarrow> startsWith (s @ t) p"
proof -
  assume sw: "startsWith s p"
  then have "length p \<le> length s" by (rule startsWith_length)
  with sw show ?thesis by (simp add: startsWith_def)
qed

lemma replaceAll_match:
  "startsWith (c # cs) pat \<Longrightarrow>
     replaceAll pat rep (c # cs) = rep @ replaceAll pat rep (drop (length pat - 1) cs)"
  by simp

lemma replaceAll_no_match:
  "\<not> startsWith (c # cs) pat \<Longrightarrow> replaceAll pat rep (c # cs) = c # replaceAll pat rep cs"
  by simp

lemma replaceAll_at_occurrence:
  assumes "b \<notin> set rest"
  shows "replaceAll (b # rest) rep (a @ (b # rest) @ t)
         = replaceAll (b # rest) rep a @ rep @ replaceAll (b # rest) rep t"
proof (induction a rule: length_induct)
  case (1 a)
  show ?case
  proof (cases a)
    case Nil
    have "startsWith (b # rest @ t) (b # rest)"
      using startsWith_appendI [of "b # rest" t] by simp
    then have "replaceAll (b # rest) rep (b # rest @ t)
               = rep @ replaceAll (b # rest) rep (drop (length (b # rest) - 1) (rest @ t))"
      by (rule replaceAll_match)
    then show ?thesis by (simp add: Nil)
  next
    case (Cons c cs)
    show ?thesis
    proof (cases "startsWith (c # cs) (b # rest)")
      case True
      then have "length (b # rest) \<le> length (c # cs)"
        by (rule startsWith_length)
      then have len: "length rest \<le> length cs" by simp
      from True have "startsWith ((c # cs) @ (b # rest) @ t) (b # rest)"
        by (rule startsWith_appendD)
      then have "startsWith (c # (cs @ (b # rest) @ t)) (b # rest)" by simp
      then have "replaceAll (b # rest) rep (c # (cs @ (b # rest) @ t))
                 = rep @ replaceAll (b # rest) rep
                     (drop (length (b # rest) - 1) (cs @ (b # rest) @ t))"
        by (rule replaceAll_match)
      also have "drop (length (b # rest) - 1) (cs @ (b # rest) @ t)
                 = drop (length rest) cs @ (b # rest) @ t"
        using len by simp
      also have "replaceAll (b # rest) rep (drop (length rest) cs @ (b # rest) @ t)
                 = replaceAll (b # rest) rep (drop (length rest) cs) @ rep
                     @ replaceAll (b # rest) rep t"
        using 1 by (simp add: Cons)
      finally have whole: "replaceAll (b # rest) rep (c # (cs @ (b # rest) @ t))
                 = rep @ replaceAll (b # rest) rep (drop (length rest) cs) @ rep
                     @ replaceAll (b # rest) rep t" .
      have "replaceAll (b # rest) rep (c # cs)
            = rep @ replaceAll (b # rest) rep (drop (length (b # rest) - 1) cs)"
        using True by (rule replaceAll_match)
      then have "replaceAll (b # rest) rep (c # cs)
            = rep @ replaceAll (b # rest) rep (drop (length rest) cs)"
        by simp
      with whole show ?thesis by (simp only: Cons append_Cons append_assoc)
    next
      case False
      have "\<not> startsWith ((c # cs) @ (b # rest) @ t) (b # rest)"
        using startsWith_straddle [OF assms, of c cs t] False by blast
      then have "\<not> startsWith (c # (cs @ (b # rest) @ t)) (b # rest)" by simp
      then have "replaceAll (b # rest) rep (c # (cs @ (b # rest) @ t))
                 = c # replaceAll (b # rest) rep (cs @ (b # rest) @ t)"
        by (rule replaceAll_no_match)
      also have "replaceAll (b # rest) rep (cs @ (b # rest) @ t)
                 = replaceAll (b # rest) rep cs @ rep @ replaceAll (b # rest) rep t"
        using 1 by (simp add: Cons)
      finally have whole: "replaceAll (b # rest) rep (c # (cs @ (b # rest) @ t))
                 = c # replaceAll (b # rest) rep cs @ rep @ replaceAll (b # rest) rep t" .
      have "replaceAll (b # rest) rep (c # cs) = c # replaceAll (b # rest) rep cs"
        using False by (rule replaceAll_no_match)
      with whole show ?thesis by (simp only: Cons append_Cons append_assoc)
    qed
  qed
qed

lemma matchDigits_digits: "matchDigits lit s = Some d \<Longrightarrow> set d \<subseteq> set ''0123456789''"
proof (induction s)
  case Nil
  then show ?case by simp
next
  case (Cons c cs)
  show ?case
  proof (cases "startsWith (c # cs) lit \<and> takeWhile isDigit (drop (length lit) (c # cs)) \<noteq> []")
    case True
    with Cons.prems have "d = takeWhile isDigit (drop (length lit) (c # cs))" by simp
    then have "\<forall>x \<in> set d. isDigit x" by (auto dest: set_takeWhileD)
    then show ?thesis by (auto simp: isDigit_def)
  next
    case False
    with Cons.prems have "matchDigits lit cs = Some d" by auto
    then show ?thesis by (rule Cons.IH)
  qed
qed

lemma decodeString_clean: "set (decodeString env text) \<inter> forbidden = {}"
  by (auto simp: decodeString_def forbidden_def)

lemma backtrack_None:
  "backtrack lit2 r k = None \<Longrightarrow> 0 < j \<Longrightarrow> j \<le> k \<Longrightarrow> \<not> startsWith (drop j r) lit2"
proof (induction k)
  case 0
  then show ?case by simp
next
  case (Suc k)
  from Suc.prems(1) have here: "\<not> startsWith (drop (Suc k) r) lit2"
    by (auto split: if_splits)
  with Suc.prems(1) have below: "backtrack lit2 r k = None"
    by simp
  show ?case
  proof (cases "j = Suc k")
    case True
    with here show ?thesis by simp
  next
    case False
    with Suc.prems have "j \<le> k" by simp
    with Suc.IH below Suc.prems(2) show ?thesis by blast
  qed
qed

lemma backtrack_greatest:
  "backtrack lit2 r k = Some g \<Longrightarrow>
     \<exists>j. 0 < j \<and> j \<le> k \<and> g = take j r \<and> startsWith (drop j r) lit2
        \<and> (\<forall>j'. j < j' \<and> j' \<le> k \<longrightarrow> \<not> startsWith (drop j' r) lit2)"
proof (induction k)
  case 0
  then show ?case by simp
next
  case (Suc k)
  show ?case
  proof (cases "startsWith (drop (Suc k) r) lit2")
    case True
    with Suc.prems have "g = take (Suc k) r" by simp
    with True show ?thesis by auto
  next
    case False
    with Suc.prems have "backtrack lit2 r k = Some g" by simp
    from Suc.IH [OF this] obtain j where
      j: "0 < j" "j \<le> k" "g = take j r" "startsWith (drop j r) lit2"
         "\<forall>j'. j < j' \<and> j' \<le> k \<longrightarrow> \<not> startsWith (drop j' r) lit2" by blast
    have "\<forall>j'. j < j' \<and> j' \<le> Suc k \<longrightarrow> \<not> startsWith (drop j' r) lit2"
      using j(5) False by (auto simp: le_Suc_eq)
    with j show ?thesis
      by (metis le_SucI)
  qed
qed

lemma backtrack_found:
  "0 < j \<Longrightarrow> j \<le> k \<Longrightarrow> startsWith (drop j r) lit2 \<Longrightarrow>
   (\<forall>j'. j < j' \<and> j' \<le> k \<longrightarrow> \<not> startsWith (drop j' r) lit2) \<Longrightarrow>
   backtrack lit2 r k = Some (take j r)"
proof (induction k)
  case 0
  then show ?case by simp
next
  case (Suc k)
  show ?case
  proof (cases "j = Suc k")
    case True
    with Suc.prems show ?thesis by simp
  next
    case False
    with Suc.prems have jk: "j \<le> k" by simp
    then have "\<not> startsWith (drop (Suc k) r) lit2"
      using Suc.prems(4) by auto
    moreover have "backtrack lit2 r k = Some (take j r)"
      using Suc.IH [OF Suc.prems(1) jk Suc.prems(3)] Suc.prems(4) by auto
    ultimately show ?thesis by simp
  qed
qed

lemma takeWhile_all: "\<forall>c \<in> set r. P c \<Longrightarrow> takeWhile P r = r"
  by (induction r) auto

lemma matchNonSpace_skip:
  "(\<forall>i < length pre. matchAt lit1 lit2 (drop i (pre @ t)) = None) \<Longrightarrow>
   matchNonSpace lit1 lit2 (pre @ t) = matchNonSpace lit1 lit2 t"
proof (induction pre)
  case Nil
  then show ?case by simp
next
  case (Cons c pre)
  have "matchAt lit1 lit2 ((c # pre) @ t) = None"
    using Cons.prems [rule_format, of 0] by simp
  moreover have "\<forall>i < length pre. matchAt lit1 lit2 (drop i (pre @ t)) = None"
  proof (intro allI impI)
    fix i assume "i < length pre"
    then show "matchAt lit1 lit2 (drop i (pre @ t)) = None"
      using Cons.prems [rule_format, of "Suc i"] by simp
  qed
  ultimately show ?case using Cons.IH by simp
qed

lemma matchNonSpace_leftmost:
  "matchNonSpace lit1 lit2 s = Some g \<Longrightarrow>
     \<exists>pre t. s = pre @ t \<and> matchAt lit1 lit2 t = Some g
            \<and> (\<forall>i < length pre. matchAt lit1 lit2 (drop i s) = None)"
proof (induction s)
  case Nil
  then show ?case by simp
next
  case (Cons c cs)
  show ?case
  proof (cases "matchAt lit1 lit2 (c # cs)")
    case (Some g')
    with Cons.prems have "g' = g" by simp
    with Some have "c # cs = [] @ (c # cs) \<and> matchAt lit1 lit2 (c # cs) = Some g
            \<and> (\<forall>i < length ([] :: string). matchAt lit1 lit2 (drop i (c # cs)) = None)"
      by simp
    then show ?thesis by blast
  next
    case None
    with Cons.prems have "matchNonSpace lit1 lit2 cs = Some g" by simp
    from Cons.IH [OF this] obtain pre t where
      pt: "cs = pre @ t" "matchAt lit1 lit2 t = Some g"
          "\<forall>i < length pre. matchAt lit1 lit2 (drop i cs) = None" by blast
    have "\<forall>i < length (c # pre). matchAt lit1 lit2 (drop i (c # cs)) = None"
    proof (intro allI impI)
      fix i assume i: "i < length (c # pre)"
      show "matchAt lit1 lit2 (drop i (c # cs)) = None"
      proof (cases i)
        case 0
        with None show ?thesis by simp
      next
        case (Suc k)
        with i pt(3) show ?thesis by simp
      qed
    qed
    with pt have "c # cs = (c # pre) @ t \<and> matchAt lit1 lit2 t = Some g
            \<and> (\<forall>i < length (c # pre). matchAt lit1 lit2 (drop i (c # cs)) = None)"
      by simp
    then show ?thesis by blast
  qed
qed

lemma matchAt_nospace:
  assumes "\<forall>c \<in> set t. \<not> isSpace c" and "startsWith t lit1"
  shows "matchAt lit1 lit2 t = backtrack lit2 (drop (length lit1) t) (length (drop (length lit1) t))"
proof -
  have "\<forall>c \<in> set (drop (length lit1) t). \<not> isSpace c"
    using assms(1) by (meson in_set_dropD)
  then have "takeWhile (\<lambda>c. \<not> isSpace c) (drop (length lit1) t) = drop (length lit1) t"
    by (rule takeWhile_all)
  then have "length (takeWhile (\<lambda>c. \<not> isSpace c) (drop (length lit1) t))
             = length (drop (length lit1) t)"
    by (simp only:)
  then show ?thesis
    using assms(2) unfolding matchAt_def Let_def by (simp only: if_True)
qed

lemma matchNonSpace_between_found:
  assumes nosp: "\<forall>c \<in> set s. \<not> isSpace c"
      and s: "s = pre @ lit1 @ g @ lit2 @ post" and g: "g \<noteq> []"
      and first: "\<forall>i < length pre. \<not> startsWith (drop i s) lit1"
      and last: "\<forall>k. 0 < k \<longrightarrow> \<not> startsWith (drop k (lit2 @ post)) lit2"
  shows "matchNonSpace lit1 lit2 s = Some g"
proof -
  define t where "t = lit1 @ g @ lit2 @ post"
  define r where "r = g @ lit2 @ post"
  have st: "s = pre @ t" by (simp add: s t_def)
  have "\<forall>i < length pre. matchAt lit1 lit2 (drop i (pre @ t)) = None"
    using first by (simp add: matchAt_def st)
  then have skip: "matchNonSpace lit1 lit2 (pre @ t) = matchNonSpace lit1 lit2 t"
    by (rule matchNonSpace_skip)
  have nt: "\<forall>c \<in> set t. \<not> isSpace c"
    using nosp st by simp
  have sw: "startsWith t lit1"
    unfolding t_def by (rule startsWith_appendI)
  have dr: "drop (length lit1) t = r"
    by (simp add: t_def r_def)
  have m: "matchAt lit1 lit2 t = backtrack lit2 r (length r)"
    using matchAt_nospace [OF nt sw] by (simp only: dr)
  have j1: "0 < length g" using g by simp
  have j2: "length g \<le> length r" by (simp add: r_def)
  have j3: "startsWith (drop (length g) r) lit2"
    by (simp add: r_def startsWith_appendI)
  have j4: "\<forall>j'. length g < j' \<and> j' \<le> length r \<longrightarrow> \<not> startsWith (drop j' r) lit2"
  proof (intro allI impI)
    fix j' assume a: "length g < j' \<and> j' \<le> length r"
    then have eq: "drop j' r = drop (j' - length g) (lit2 @ post)"
      by (simp add: r_def)
    have "0 < j' - length g" using a by simp
    with last have "\<not> startsWith (drop (j' - length g) (lit2 @ post)) lit2"
      by blast
    then show "\<not> startsWith (drop j' r) lit2"
      unfolding eq .
  qed
  have "backtrack lit2 r (length r) = Some (take (length g) r)"
    using j1 j2 j3 j4 by (rule backtrack_found)
  then have found: "matchAt lit1 lit2 t = Some g"
    using m by (simp add: r_def)
  have "t \<noteq> []" using g by (simp add: t_def)
  then obtain c cs where "t = c # cs" by (cases t) auto
  with found have "matchNonSpace lit1 lit2 t = Some g" by simp
  with skip st show ?thesis by simp
qed

lemma matchNonSpace_between_only:
  assumes nosp: "\<forall>c \<in> set s. \<not> isSpace c" and l2: "lit2 \<noteq> []"
      and m: "matchNonSpace lit1 lit2 s = Some g"
  shows "\<exists>pre post. s = pre @ lit1 @ g @ lit2 @ post \<and> g \<noteq> []
            \<and> (\<forall>i < length pre. \<not> startsWith (drop i s) lit1)
            \<and> (\<forall>k. 0 < k \<longrightarrow> \<not> startsWith (drop k (lit2 @ post)) lit2)"
proof -
  from matchNonSpace_leftmost [OF m] obtain pre t where
    st: "s = pre @ t" and mt: "matchAt lit1 lit2 t = Some g"
    and left: "\<forall>i < length pre. matchAt lit1 lit2 (drop i s) = None" by blast
  define r where "r = drop (length lit1) t"
  have sw: "startsWith t lit1"
    using mt by (auto simp: matchAt_def split: if_splits)
  have t: "t = lit1 @ r"
    unfolding r_def using sw by (rule startsWith_append)
  have nt: "\<forall>c \<in> set t. \<not> isSpace c"
    using nosp st by simp
  have "backtrack lit2 r (length r) = Some g"
    using matchAt_nospace [OF nt sw, of lit2] mt by (simp add: r_def)
  from backtrack_greatest [OF this] obtain j where
    j: "0 < j" "j \<le> length r" "g = take j r" "startsWith (drop j r) lit2"
       "\<forall>j'. j < j' \<and> j' \<le> length r \<longrightarrow> \<not> startsWith (drop j' r) lit2" by blast
  define post where "post = drop (length lit2) (drop j r)"
  have dj: "drop j r = lit2 @ post"
    unfolding post_def using j(4) by (rule startsWith_append)
  have r: "r = g @ lit2 @ post"
    using j(3) dj by (metis append_take_drop_id)
  have lg: "length g = j"
    using j(2,3) by simp
  have g: "g \<noteq> []"
    using lg j(1) by auto
  have s: "s = pre @ lit1 @ g @ lit2 @ post"
    using st t r by simp
  have last: "\<forall>k. 0 < k \<longrightarrow> \<not> startsWith (drop k (lit2 @ post)) lit2"
  proof (intro allI impI)
    fix k :: nat assume k: "0 < k"
    have d: "drop k (lit2 @ post) = drop (j + k) r"
      by (simp add: dj [symmetric] add.commute)
    show "\<not> startsWith (drop k (lit2 @ post)) lit2"
    proof (cases "j + k \<le> length r")
      case True
      with j(5) k have "\<not> startsWith (drop (j + k) r) lit2" by simp
      with d show ?thesis by simp
    next
      case False
      then have "drop (j + k) r = []" by simp
      with d l2 show ?thesis by (cases lit2) simp_all
    qed
  qed
  have first: "\<forall>i < length pre. \<not> startsWith (drop i s) lit1"
  proof (intro allI impI notI)
    fix i assume i: "i < length pre" and swi: "startsWith (drop i s) lit1"
    define ri where "ri = drop (length lit1) (drop i s)"
    have ni: "\<forall>c \<in> set (drop i s). \<not> isSpace c"
      using nosp by (meson in_set_dropD)
    have "matchAt lit1 lit2 (drop i s) = None"
      using left i by simp
    then have none: "backtrack lit2 ri (length ri) = None"
      using matchAt_nospace [OF ni swi, of lit2] by (simp add: ri_def)
    define ji where "ji = length pre - i + length g"
    have p1: "0 < ji" using g by (simp add: ji_def)
    have len: "length ri = length pre - i + length g + length lit2 + length post"
      using i by (simp add: ri_def s)
    have p2: "ji \<le> length ri" by (simp add: ji_def len)
    have "drop ji ri = drop (length pre + length lit1 + length g) s"
      using i by (simp add: ji_def ri_def add.commute add.left_commute)
    also have "\<dots> = lit2 @ post"
      by (simp add: s)
    finally have "startsWith (drop ji ri) lit2"
      by (simp add: startsWith_appendI)
    with backtrack_None [OF none p1 p2] show False by simp
  qed
  from s g first last show ?thesis by blast
qed

lemma matchNonSpace_between:
  assumes "\<forall>c \<in> set s. \<not> isSpace c" and "lit2 \<noteq> []"
  shows "matchNonSpace lit1 lit2 s = Some g \<longleftrightarrow>
         (\<exists>pre post. s = pre @ lit1 @ g @ lit2 @ post \<and> g \<noteq> []
            \<and> (\<forall>i < length pre. \<not> startsWith (drop i s) lit1)
            \<and> (\<forall>k. 0 < k \<longrightarrow> \<not> startsWith (drop k (lit2 @ post)) lit2))"
  using matchNonSpace_between_only [OF assms] matchNonSpace_between_found [OF assms(1)]
  by blast

section \<open>The Resource Resolver: claims C1, C2 and C7\<close>

text \<open>
  What a resolution that reaches the platform page has done: the three requests, the
  file name read from the title of the view page, the cookie string made from the
  session cookies of the platform response, and the page parsed from its body.
\<close>

lemma resolveHops_Reached:
  assumes "resolveHops env s school sessionId elementId = Reached s3 fileName ck doc"
  shows "\<exists>viewResponse title iframe src iframeResponse iframeCookies target resourceResponse allCookies.
      fetch env (viewRequest school sessionId elementId)
        = Inr viewResponse
    \<and> ok viewResponse
    \<and> getElementById (parseFromString env (body viewResponse)) ''ctl00_PageHeader_TT'' = Some title
    \<and> fileName = textContent title
    \<and> getElementById (parseFromString env (body viewResponse))
          ''ctl00_ContentPlaceHolder_ExtensionIframe'' = Some iframe
    \<and> getAttribute iframe ''src'' = Some src
    \<and> fetch env \<lparr>requestUrl = replaceAll ''&amp;'' ''&'' src, cookieHeader = None,
          redirectManual = True\<rparr> = Inr iframeResponse
    \<and> setCookie iframeResponse = Some iframeCookies
    \<and> location iframeResponse = Some target
    \<and> fetch env \<lparr>requestUrl = target,
          cookieHeader = Some (convertSetCookieToCookieString iframeCookies),
          redirectManual = False\<rparr> = Inr resourceResponse
    \<and> setCookie resourceResponse = Some allCookies
    \<and> ck = convertSetCookieToCookieString
               (filter (\<lambda>c. str_includes c ''ASP.NET_SessionId'') allCookies)
    \<and> doc = parseFromString env (body resourceResponse)
    \<and> s3 = emit (Fetch \<lparr>requestUrl = target,
                 cookieHeader = Some (convertSetCookieToCookieString iframeCookies),
                 redirectManual = False\<rparr>)
              (emit (Fetch \<lparr>requestUrl = replaceAll ''&amp;'' ''&'' src, cookieHeader = None,
                 redirectManual = True\<rparr>)
              (emit (Fetch (viewRequest school sessionId elementId)) s))"
  using assms unfolding resolveHops_def Let_def
  by (auto split: sum.splits if_splits option.splits)

lemma resolveHops_state:
  assumes "resolveHops env s school sessionId elementId = Reached s3 fileName ck doc"
  shows "fs s3 = fs s \<and> (\<exists>r1 r2 r3. trace s3 = trace s @ [Fetch r1, Fetch r2, Fetch r3])"
proof -
  from resolveHops_Reached [OF assms] obtain r1 r2 r3 where
    "s3 = emit (Fetch r3) (emit (Fetch r2) (emit (Fetch r1) s))"
    by blast
  then show ?thesis by (simp add: emit_def)
qed

lemma deliver_anchor:
  assumes "getElementById doc ''ctl00_ctl00_MainFormContent_DownloadLinkForViewType'' = Some anchor"
      and "getAttribute anchor ''href'' = Some href"
  shows "deliver env s folderPath fileName ck doc
         = downloadFile env s (''https://resource.itslearning.com'' @ replaceAll ''&amp;'' ''&'' href)
             ck folderPath (getAttribute anchor ''Download'')"
  using assms by (simp add: deliver_def)

lemma deliver_preview:
  assumes "getElementById doc ''ctl00_ctl00_MainFormContent_DownloadLinkForViewType'' = None"
      and "getElementById doc ''ctl00_ctl00_MainFormContent_PreviewIframe_FilePreviewIframe''
             = Some frame"
      and "fetch env (previewRequest frame ck) = Inr previewResponse"
      and "ok previewResponse"
      and "getOfficeFileDownloadUrl (body previewResponse) = Inr officeDownloadUrl"
  shows "deliver env s folderPath fileName ck doc
         = downloadFile env
             (emit (Fetch (previewRequest frame ck)) s)
             officeDownloadUrl [] folderPath (Some fileName)"
  using assms by (simp add: deliver_def Let_def)

lemma deliver_neither:
  assumes "getElementById doc ''ctl00_ctl00_MainFormContent_DownloadLinkForViewType'' = None"
      and "getElementById doc ''ctl00_ctl00_MainFormContent_PreviewIframe_FilePreviewIframe'' = None"
  shows "deliver env s folderPath fileName ck doc
         = Returned (emit (ConsoleLog
             (''Resource type unsupported. No direct download link available: '' @ fileName)) s)"
  using assms by (simp add: deliver_def)

lemma office_url:
  assumes "matchNonSpace (''form.action = '' @ [CHR 0x27]) (CHR 0x27 # '';'') webContent = Some officeUrl"
      and "matchNonSpace (''accessTokenInput.value = '' @ [CHR 0x27]) (CHR 0x27 # '';'') webContent
             = Some accessToken"
      and "matchNonSpace (''accessTokenTtlInput.value = '' @ [CHR 0x27]) (CHR 0x27 # '';'') webContent
             = Some accessTokenTtl"
      and "matchNonSpace ''WOPISrc='' ''&ui='' officeUrl = Some wopiSrc"
  shows "getOfficeFileDownloadUrl webContent
         = Inr (replaceAll (CHR 0x5C # ''x252f'') ''/'' (replaceAll (CHR 0x5C # ''x253a'') '':'' wopiSrc)
                @ ''/contents?access_token='' @ accessToken)"
  using assms unfolding getOfficeFileDownloadUrl_def by (simp del: matchNonSpace.simps)

lemma unescaped:
  "\<not> str_includes (replaceAll (CHR 0x5C # ''x252f'') ''/'' (replaceAll (CHR 0x5C # ''x253a'') '':'' w))
        (CHR 0x5C # ''x253a'')
   \<and> \<not> str_includes (replaceAll (CHR 0x5C # ''x252f'') ''/'' (replaceAll (CHR 0x5C # ''x253a'') '':'' w))
        (CHR 0x5C # ''x252f'')"
proof
  have "\<not> str_includes (replaceAll (CHR 0x5C # ''x253a'') '':'' w) (CHR 0x5C # ''x253a'')"
    by (rule replaceAll_removes) simp_all
  moreover have "str_includes (replaceAll (CHR 0x5C # ''x252f'') ''/''
                   (replaceAll (CHR 0x5C # ''x253a'') '':'' w)) (CHR 0x5C # ''x253a'')
                 \<Longrightarrow> str_includes (replaceAll (CHR 0x5C # ''x253a'') '':'' w) (CHR 0x5C # ''x253a'')"
    by (rule replaceAll_adds_none [of "''/''" "CHR 0x5C # ''x253a''"]) simp_all
  ultimately show "\<not> str_includes (replaceAll (CHR 0x5C # ''x252f'') ''/''
                       (replaceAll (CHR 0x5C # ''x253a'') '':'' w)) (CHR 0x5C # ''x253a'')"
    by blast
  show "\<not> str_includes (replaceAll (CHR 0x5C # ''x252f'') ''/''
              (replaceAll (CHR 0x5C # ''x253a'') '':'' w)) (CHR 0x5C # ''x252f'')"
    by (rule replaceAll_removes) simp_all
qed

text \<open>
The example server, evaluated.
\<close>

lemma fetch_server:
  "fetch server r = (case map_of site (requestUrl r) of None \<Rightarrow> Inl FetchError | Some resp \<Rightarrow> Inr resp)"
  by (simp add: server_def)

lemma parse_server:
  "parseFromString server text = (case map_of pages text of None \<Rightarrow> [] | Some doc \<Rightarrow> doc)"
  by (simp add: server_def)

lemma server_join: "pathJoin server = posixJoin" "skipAlreadyDownloadedFiles server"
  "downloadLocation server = ''./data''" "decode server = decodeEntities"
  "pathDirname server = posixDirname"
  by (simp_all add: server_def)

lemma cookies_platform:
  "convertSetCookieToCookieString [''P=1; path=/'', ''P=1; path=/''] = ''P=1''"
  by (simp add: convertSetCookieToCookieString_def cookie_prefix)

lemma cookies_resource:
  "convertSetCookieToCookieString [''ASP.NET_SessionId=r1; path=/; HttpOnly'']
   = ''ASP.NET_SessionId=r1''"
  by (simp add: convertSetCookieToCookieString_def cookie_prefix)

lemmas server_eval =
  fetch_server parse_server site_def pages_def page_def handoff_def platform_def platformError_def
  failure_def viewPage_def anchorPage_def previewPage_def previewPageAt_def folderPage_def
  folderEntry_def
  getElementById_def getAttribute_def getElementsByClassName_def emit_def start_def
  cookies_platform cookies_resource

lemma hops21:
  "resolveHops server start ''s'' ''sid'' ''21''
   = Reached
       \<lparr>trace =
          [Fetch \<lparr>requestUrl = ''https://s.itslearning.com/LearningToolElement/ViewLearningToolElement.aspx?LearningToolElementId=21'',
                  cookieHeader = Some ''ASP.NET_SessionId=sid;'', redirectManual = True\<rparr>,
           Fetch \<lparr>requestUrl = ''https://platform.example/21?a=1&b=2'', cookieHeader = None,
                  redirectManual = True\<rparr>,
           Fetch \<lparr>requestUrl = ''https://resource.example/21'', cookieHeader = Some ''P=1'',
                  redirectManual = False\<rparr>],
        fs = Map.empty\<rparr>
       ''Report'' ''ASP.NET_SessionId=r1'' (anchorPage ''/x&amp;y'' ''report.pdf'')"
  by (simp add: resolveHops_def fetch_server parse_server site_def pages_def page_def handoff_def
      platform_def viewPage_def getElementById_def getAttribute_def emit_def start_def
      cookies_platform cookies_resource)

lemma hops22:
  "resolveHops server start ''s'' ''sid'' ''22''
   = Reached
       \<lparr>trace =
          [Fetch \<lparr>requestUrl = ''https://s.itslearning.com/LearningToolElement/ViewLearningToolElement.aspx?LearningToolElementId=22'',
                  cookieHeader = Some ''ASP.NET_SessionId=sid;'', redirectManual = True\<rparr>,
           Fetch \<lparr>requestUrl = ''https://platform.example/22'', cookieHeader = None,
                  redirectManual = True\<rparr>,
           Fetch \<lparr>requestUrl = ''https://resource.example/22'', cookieHeader = Some ''P=1'',
                  redirectManual = False\<rparr>],
        fs = Map.empty\<rparr>
       ''Slides:1&amp;2.pptx'' ''ASP.NET_SessionId=r1'' previewPage"
  by (simp add: resolveHops_def fetch_server parse_server site_def pages_def page_def handoff_def
      platform_def viewPage_def getElementById_def getAttribute_def emit_def start_def
      cookies_platform cookies_resource)

lemma hops23:
  "resolveHops server start ''s'' ''sid'' ''23''
   = Reached
       \<lparr>trace =
          [Fetch \<lparr>requestUrl = ''https://s.itslearning.com/LearningToolElement/ViewLearningToolElement.aspx?LearningToolElementId=23'',
                  cookieHeader = Some ''ASP.NET_SessionId=sid;'', redirectManual = True\<rparr>,
           Fetch \<lparr>requestUrl = ''https://platform.example/23'', cookieHeader = None,
                  redirectManual = True\<rparr>,
           Fetch \<lparr>requestUrl = ''https://resource.example/23'', cookieHeader = Some ''P=1'',
                  redirectManual = False\<rparr>],
        fs = Map.empty\<rparr>
       ''Quiz'' ''ASP.NET_SessionId=r1'' []"
  by (simp add: resolveHops_def fetch_server parse_server site_def pages_def page_def handoff_def
      platform_def viewPage_def getElementById_def getAttribute_def emit_def start_def
      cookies_platform cookies_resource)

lemma hops25:
  "resolveHops server start ''s'' ''sid'' ''25''
   = Reached
       \<lparr>trace =
          [Fetch \<lparr>requestUrl = ''https://s.itslearning.com/LearningToolElement/ViewLearningToolElement.aspx?LearningToolElementId=25'',
                  cookieHeader = Some ''ASP.NET_SessionId=sid;'', redirectManual = True\<rparr>,
           Fetch \<lparr>requestUrl = ''https://platform.example/25'', cookieHeader = None,
                  redirectManual = True\<rparr>,
           Fetch \<lparr>requestUrl = ''https://resource.example/25'', cookieHeader = Some ''P=1'',
                  redirectManual = False\<rparr>],
        fs = Map.empty\<rparr>
       ''Plan'' ''ASP.NET_SessionId=r1'' (anchorPage ''/d25'' ''Plan:1&amp;2.pdf'')"
  by (simp add: resolveHops_def fetch_server parse_server site_def pages_def page_def handoff_def
      platform_def viewPage_def getElementById_def getAttribute_def emit_def start_def
      cookies_platform cookies_resource)

lemma office_action:
  "matchNonSpace (''form.action = '' @ [CHR 0x27]) (CHR 0x27 # '';'') officePage
   = Some (''https://office.example/we?WOPISrc=https''
       @ CHR 0x5C # ''x253a'' @ CHR 0x5C # ''x252f'' @ CHR 0x5C # ''x252fwopi.example''
       @ CHR 0x5C # ''x252f22&ui=en'')"
  by (simp add: officePage_def matchAt_def isSpace_def)

lemma office_token:
  "matchNonSpace (''accessTokenInput.value = '' @ [CHR 0x27]) (CHR 0x27 # '';'') officePage
   = Some ''TOKEN''"
  by (simp add: officePage_def matchAt_def isSpace_def)

lemma office_ttl:
  "matchNonSpace (''accessTokenTtlInput.value = '' @ [CHR 0x27]) (CHR 0x27 # '';'') officePage
   = Some ''0''"
  by (simp add: officePage_def matchAt_def isSpace_def)

lemma office_wopi:
  "matchNonSpace ''WOPISrc='' ''&ui=''
     (''https://office.example/we?WOPISrc=https''
       @ CHR 0x5C # ''x253a'' @ CHR 0x5C # ''x252f'' @ CHR 0x5C # ''x252fwopi.example''
       @ CHR 0x5C # ''x252f22&ui=en'')
   = Some (''https'' @ CHR 0x5C # ''x253a'' @ CHR 0x5C # ''x252f'' @ CHR 0x5C # ''x252fwopi.example''
       @ CHR 0x5C # ''x252f22'')"
  by (simp add: matchAt_def isSpace_def)

lemma office_unescape:
  "replaceAll (CHR 0x5C # ''x252f'') ''/'' (replaceAll (CHR 0x5C # ''x253a'') '':''
     (''https'' @ CHR 0x5C # ''x253a'' @ CHR 0x5C # ''x252f'' @ CHR 0x5C # ''x252fwopi.example''
       @ CHR 0x5C # ''x252f22''))
   = ''https://wopi.example/22''"
  by simp

lemma office_url_cases:
  "getOfficeFileDownloadUrl webContent
   = (case (formAction webContent, accessTokenValue webContent, accessTokenTtlValue webContent) of
        (Some officeUrl, Some accessToken, Some accessTokenTtl) \<Rightarrow>
          (case wopiSrcOf officeUrl of
             None \<Rightarrow> Inl TypeError
           | Some wopiSrc \<Rightarrow> Inr (unescape wopiSrc @ ''/contents?access_token='' @ accessToken))
      | _ \<Rightarrow> Inl TypeError)"
  unfolding getOfficeFileDownloadUrl_def
  by (simp split: option.splits del: matchNonSpace.simps)

lemma deliver_preview_fetched:
  assumes "getElementById doc ''ctl00_ctl00_MainFormContent_DownloadLinkForViewType'' = None"
      and "getElementById doc ''ctl00_ctl00_MainFormContent_PreviewIframe_FilePreviewIframe''
             = Some frame"
      and "fetch env (previewRequest frame ck) = Inr previewResponse"
      and "ok previewResponse"
  shows "deliver env s folderPath fileName ck doc
         = (case getOfficeFileDownloadUrl (body previewResponse) of
              Inl e \<Rightarrow> Threw e (emit (Fetch (previewRequest frame ck)) s)
            | Inr officeDownloadUrl \<Rightarrow>
                downloadFile env (emit (Fetch (previewRequest frame ck)) s) officeDownloadUrl []
                  folderPath (Some fileName))"
  using assms
  by (cases "getOfficeFileDownloadUrl (body previewResponse)") (simp_all add: deliver_def Let_def)

lemma wopi_between:
  assumes "formAction webContent = Some officeUrl"
  shows "wopiSrcOf officeUrl = Some wopiSrc \<longleftrightarrow>
         (\<exists>pre post. officeUrl = pre @ ''WOPISrc='' @ wopiSrc @ ''&ui='' @ post \<and> wopiSrc \<noteq> []
            \<and> (\<forall>i < length pre. \<not> startsWith (drop i officeUrl) ''WOPISrc='')
            \<and> (\<forall>k. 0 < k \<longrightarrow> \<not> startsWith (drop k (''&ui='' @ post)) ''&ui=''))"
proof -
  from matchNonSpace_Some [OF assms] have "\<forall>c \<in> set officeUrl. \<not> isSpace c"
    by blast
  then show ?thesis
    by (rule matchNonSpace_between) simp
qed

lemma office22_url:
  "getOfficeFileDownloadUrl officePage = Inr ''https://wopi.example/22/contents?access_token=TOKEN''"
  using office_url [OF office_action office_token office_ttl office_wopi]
  by (simp only: office_unescape) simp

lemma office28_action:
  "formAction officePage28
   = Some (''https://office.example/we?WOPISrc=''
       @ (''https'' @ CHR 0x5C # ''x253a'' @ CHR 0x5C # ''x252f'' @ CHR 0x5C # ''x252fwopi.example''
            @ CHR 0x5C # ''x252f28'')
       @ ''&rs=en&ui=en'')"
  by (simp add: officePage28_def matchAt_def isSpace_def)

lemma office28_url:
  "getOfficeFileDownloadUrl officePage28
   = Inr ''https://wopi.example/28&rs=en/contents?access_token=TOKEN''"
  by (simp add: getOfficeFileDownloadUrl_def officePage28_def matchAt_def isSpace_def)

lemma office29_ttl: "accessTokenTtlValue officePage29 = None"
  by (simp add: officePage29_def matchAt_def isSpace_def)

lemma office29_url: "getOfficeFileDownloadUrl officePage29 = Inl TypeError"
  by (simp add: getOfficeFileDownloadUrl_def officePage29_def matchAt_def isSpace_def)

lemma hops28:
  "resolveHops server start ''s'' ''sid'' ''28''
   = Reached
       \<lparr>trace =
          [Fetch \<lparr>requestUrl = ''https://s.itslearning.com/LearningToolElement/ViewLearningToolElement.aspx?LearningToolElementId=28'',
                  cookieHeader = Some ''ASP.NET_SessionId=sid;'', redirectManual = True\<rparr>,
           Fetch \<lparr>requestUrl = ''https://platform.example/28'', cookieHeader = None,
                  redirectManual = True\<rparr>,
           Fetch \<lparr>requestUrl = ''https://resource.example/28'', cookieHeader = Some ''P=1'',
                  redirectManual = False\<rparr>],
        fs = Map.empty\<rparr>
       ''Sheet.xlsx'' ''ASP.NET_SessionId=r1'' (previewPageAt ''p28'')"
  by (simp add: resolveHops_def fetch_server parse_server site_def pages_def page_def handoff_def
      platform_def viewPage_def getElementById_def getAttribute_def emit_def start_def
      cookies_platform cookies_resource)

lemma hops29:
  "resolveHops server start ''s'' ''sid'' ''29''
   = Reached
       \<lparr>trace =
          [Fetch \<lparr>requestUrl = ''https://s.itslearning.com/LearningToolElement/ViewLearningToolElement.aspx?LearningToolElementId=29'',
                  cookieHeader = Some ''ASP.NET_SessionId=sid;'', redirectManual = True\<rparr>,
           Fetch \<lparr>requestUrl = ''https://platform.example/29'', cookieHeader = None,
                  redirectManual = True\<rparr>,
           Fetch \<lparr>requestUrl = ''https://resource.example/29'', cookieHeader = Some ''P=1'',
                  redirectManual = False\<rparr>],
        fs = Map.empty\<rparr>
       ''Memo.docx'' ''ASP.NET_SessionId=r1'' (previewPageAt ''p29'')"
  by (simp add: resolveHops_def fetch_server parse_server site_def pages_def page_def handoff_def
      platform_def viewPage_def getElementById_def getAttribute_def emit_def start_def
      cookies_platform cookies_resource)

text \<open>
  Claim C1, amended. Let a resolution reach a platform page that has no download anchor
  and has a preview frame, and let the preview page be fetched with success. Then the
  resolver calls \<^verbatim>\<open>downloadFile\<close> exactly when \<^verbatim>\<open>getOfficeFileDownloadUrl\<close> gives a URL:
  with that URL, with an empty cookie string and with the title text of the view page as
  file name. Otherwise it throws, and \<^verbatim>\<open>downloadFile\<close> is not called.

  A URL is given when the script of the preview page sets the form action, the access
  token and the token's time to live (which is read and not used), and the form action
  matches \<^verbatim>\<open>WOPISrc=(\S+)&ui=\<close>. The URL is \<open>contentUrl/contents?access_token=token\<close>.
  What the pattern takes from the form action is the text between its first
  \<^verbatim>\<open>WOPISrc=\<close> and its last \<^verbatim>\<open>&ui=\<close>, whatever stands between them: the match gives
  \<open>wopiSrc\<close> exactly when the form action is \<open>pre\<close>, \<^verbatim>\<open>WOPISrc=\<close>, \<open>wopiSrc\<close>,
  \<^verbatim>\<open>&ui=\<close>, \<open>post\<close> with a non-empty \<open>wopiSrc\<close>, no \<^verbatim>\<open>WOPISrc=\<close> starting inside
  \<open>pre\<close> and no \<^verbatim>\<open>&ui=\<close> starting later than the one named. \<open>contentUrl\<close> is that
  text with every \<^verbatim>\<open>\x253a\<close> replaced by a colon and then every \<^verbatim>\<open>\x252f\<close> by a slash:
  neither sequence occurs in it any more.
\<close>

theorem preview_branch_download_url:
  assumes reached: "resolveHops env s school sessionId elementId = Reached s3 fileName ck doc"
      and no_anchor: "getElementById doc ''ctl00_ctl00_MainFormContent_DownloadLinkForViewType'' = None"
      and frame: "getElementById doc ''ctl00_ctl00_MainFormContent_PreviewIframe_FilePreviewIframe''
                    = Some frame"
      and preview: "fetch env (previewRequest frame ck) = Inr previewResponse"
      and preview_ok: "ok previewResponse"
  shows "downloadResourceObject env s school sessionId elementId folderPath
         = (case getOfficeFileDownloadUrl (body previewResponse) of
              Inl e \<Rightarrow> Threw e (emit (Fetch (previewRequest frame ck)) s3)
            | Inr officeDownloadUrl \<Rightarrow>
                downloadFile env (emit (Fetch (previewRequest frame ck)) s3) officeDownloadUrl []
                  folderPath (Some fileName))
       \<and> getOfficeFileDownloadUrl (body previewResponse)
         = (case (formAction (body previewResponse), accessTokenValue (body previewResponse),
                  accessTokenTtlValue (body previewResponse)) of
              (Some officeUrl, Some accessToken, Some accessTokenTtl) \<Rightarrow>
                (case wopiSrcOf officeUrl of
                   None \<Rightarrow> Inl TypeError
                 | Some wopiSrc \<Rightarrow>
                     Inr (unescape wopiSrc @ ''/contents?access_token='' @ accessToken))
            | _ \<Rightarrow> Inl TypeError)
       \<and> (\<forall>officeUrl wopiSrc. formAction (body previewResponse) = Some officeUrl \<longrightarrow>
            (wopiSrcOf officeUrl = Some wopiSrc \<longleftrightarrow>
               (\<exists>pre post. officeUrl = pre @ ''WOPISrc='' @ wopiSrc @ ''&ui='' @ post
                  \<and> wopiSrc \<noteq> []
                  \<and> (\<forall>i < length pre. \<not> startsWith (drop i officeUrl) ''WOPISrc='')
                  \<and> (\<forall>k. 0 < k \<longrightarrow> \<not> startsWith (drop k (''&ui='' @ post)) ''&ui=''))))
       \<and> (\<forall>wopiSrc. \<not> str_includes (unescape wopiSrc) (CHR 0x5C # ''x253a'')
                   \<and> \<not> str_includes (unescape wopiSrc) (CHR 0x5C # ''x252f''))
       \<and> (\<exists>viewResponse title.
             fetch env (viewRequest school sessionId elementId) = Inr viewResponse
           \<and> getElementById (parseFromString env (body viewResponse)) ''ctl00_PageHeader_TT''
               = Some title
           \<and> fileName = textContent title)"
proof (intro conjI allI impI)
  have "deliver env s3 folderPath fileName ck doc
        = (case getOfficeFileDownloadUrl (body previewResponse) of
              Inl e \<Rightarrow> Threw e (emit (Fetch (previewRequest frame ck)) s3)
            | Inr officeDownloadUrl \<Rightarrow>
                downloadFile env (emit (Fetch (previewRequest frame ck)) s3) officeDownloadUrl []
                  folderPath (Some fileName))"
    using no_anchor frame preview preview_ok by (rule deliver_preview_fetched)
  then show "downloadResourceObject env s school sessionId elementId folderPath
         = (case getOfficeFileDownloadUrl (body previewResponse) of
              Inl e \<Rightarrow> Threw e (emit (Fetch (previewRequest frame ck)) s3)
            | Inr officeDownloadUrl \<Rightarrow>
                downloadFile env (emit (Fetch (previewRequest frame ck)) s3) officeDownloadUrl []
                  folderPath (Some fileName))"
    by (simp add: downloadResourceObject_def reached)
next
  show "getOfficeFileDownloadUrl (body previewResponse)
         = (case (formAction (body previewResponse), accessTokenValue (body previewResponse),
                  accessTokenTtlValue (body previewResponse)) of
              (Some officeUrl, Some accessToken, Some accessTokenTtl) \<Rightarrow>
                (case wopiSrcOf officeUrl of
                   None \<Rightarrow> Inl TypeError
                 | Some wopiSrc \<Rightarrow>
                     Inr (unescape wopiSrc @ ''/contents?access_token='' @ accessToken))
            | _ \<Rightarrow> Inl TypeError)"
    by (rule office_url_cases)
next
  fix officeUrl wopiSrc
  assume "formAction (body previewResponse) = Some officeUrl"
  then show "wopiSrcOf officeUrl = Some wopiSrc \<longleftrightarrow>
               (\<exists>pre post. officeUrl = pre @ ''WOPISrc='' @ wopiSrc @ ''&ui='' @ post
                  \<and> wopiSrc \<noteq> []
                  \<and> (\<forall>i < length pre. \<not> startsWith (drop i officeUrl) ''WOPISrc='')
                  \<and> (\<forall>k. 0 < k \<longrightarrow> \<not> startsWith (drop k (''&ui='' @ post)) ''&ui=''))"
    by (rule wopi_between)
next
  fix wopiSrc
  show "\<not> str_includes (unescape wopiSrc) (CHR 0x5C # ''x253a'')"
    using unescaped by blast
  show "\<not> str_includes (unescape wopiSrc) (CHR 0x5C # ''x252f'')"
    using unescaped by blast
next
  show "\<exists>viewResponse title.
             fetch env (viewRequest school sessionId elementId) = Inr viewResponse
           \<and> getElementById (parseFromString env (body viewResponse)) ''ctl00_PageHeader_TT''
               = Some title
           \<and> fileName = textContent title"
    using resolveHops_Reached [OF reached] by blast
qed

text \<open>
  The amended claim C1 on the example server, for element 22: the form action holds
  \<^verbatim>\<open>WOPISrc\<close> directly before \<^verbatim>\<open>ui\<close>, and the download URL is
  \<^verbatim>\<open>https://wopi.example/22/contents?access_token=TOKEN\<close>.
\<close>

theorem preview_branch_download_url_witness:
  "resolveHops server start ''s'' ''sid'' ''22''
   = Reached
       \<lparr>trace =
          [Fetch \<lparr>requestUrl = ''https://s.itslearning.com/LearningToolElement/ViewLearningToolElement.aspx?LearningToolElementId=22'',
                  cookieHeader = Some ''ASP.NET_SessionId=sid;'', redirectManual = True\<rparr>,
           Fetch \<lparr>requestUrl = ''https://platform.example/22'', cookieHeader = None,
                  redirectManual = True\<rparr>,
           Fetch \<lparr>requestUrl = ''https://resource.example/22'', cookieHeader = Some ''P=1'',
                  redirectManual = False\<rparr>],
        fs = Map.empty\<rparr>
       ''Slides:1&amp;2.pptx'' ''ASP.NET_SessionId=r1'' previewPage
   \<and> getElementById previewPage ''ctl00_ctl00_MainFormContent_DownloadLinkForViewType'' = None
   \<and> getElementById previewPage ''ctl00_ctl00_MainFormContent_PreviewIframe_FilePreviewIframe''
       = Some (hd previewPage)
   \<and> fetch server (previewRequest (hd previewPage) ''ASP.NET_SessionId=r1'')
       = Inr (page officePage)
   \<and> ok (page officePage)
   \<and> formAction (body (page officePage))
       = Some (''https://office.example/we?WOPISrc=https''
           @ CHR 0x5C # ''x253a'' @ CHR 0x5C # ''x252f'' @ CHR 0x5C # ''x252fwopi.example''
           @ CHR 0x5C # ''x252f22&ui=en'')
   \<and> wopiSrcOf (''https://office.example/we?WOPISrc=https''
           @ CHR 0x5C # ''x253a'' @ CHR 0x5C # ''x252f'' @ CHR 0x5C # ''x252fwopi.example''
           @ CHR 0x5C # ''x252f22&ui=en'')
       = Some (''https'' @ CHR 0x5C # ''x253a'' @ CHR 0x5C # ''x252f'' @ CHR 0x5C # ''x252fwopi.example''
           @ CHR 0x5C # ''x252f22'')
   \<and> (\<exists>pre post.
          ''https://office.example/we?WOPISrc=https''
             @ CHR 0x5C # ''x253a'' @ CHR 0x5C # ''x252f'' @ CHR 0x5C # ''x252fwopi.example''
             @ CHR 0x5C # ''x252f22&ui=en''
          = pre @ ''WOPISrc=''
             @ (''https'' @ CHR 0x5C # ''x253a'' @ CHR 0x5C # ''x252f'' @ CHR 0x5C # ''x252fwopi.example''
                  @ CHR 0x5C # ''x252f22'')
             @ ''&ui='' @ post
        \<and> (\<forall>i < length pre. \<not> startsWith (drop i (''https://office.example/we?WOPISrc=https''
             @ CHR 0x5C # ''x253a'' @ CHR 0x5C # ''x252f'' @ CHR 0x5C # ''x252fwopi.example''
             @ CHR 0x5C # ''x252f22&ui=en'')) ''WOPISrc='')
        \<and> (\<forall>k. 0 < k \<longrightarrow> \<not> startsWith (drop k (''&ui='' @ post)) ''&ui=''))
   \<and> downloadResourceObject server start ''s'' ''sid'' ''22'' ''data/Math_ 1/Root''
       = downloadFile server
           \<lparr>trace =
              [Fetch \<lparr>requestUrl = ''https://s.itslearning.com/LearningToolElement/ViewLearningToolElement.aspx?LearningToolElementId=22'',
                      cookieHeader = Some ''ASP.NET_SessionId=sid;'', redirectManual = True\<rparr>,
               Fetch \<lparr>requestUrl = ''https://platform.example/22'', cookieHeader = None,
                      redirectManual = True\<rparr>,
               Fetch \<lparr>requestUrl = ''https://resource.example/22'', cookieHeader = Some ''P=1'',
                      redirectManual = False\<rparr>,
               Fetch \<lparr>requestUrl = ''https://resource.itslearning.com/p22'',
                      cookieHeader = Some ''ASP.NET_SessionId=r1'', redirectManual = False\<rparr>],
            fs = Map.empty\<rparr>
           ''https://wopi.example/22/contents?access_token=TOKEN'' [] ''data/Math_ 1/Root''
           (Some ''Slides:1&amp;2.pptx'')"
proof -
  have h2: "getElementById previewPage ''ctl00_ctl00_MainFormContent_DownloadLinkForViewType'' = None"
    by (simp add: getElementById_def getAttribute_def previewPage_def)
  have h3: "getElementById previewPage ''ctl00_ctl00_MainFormContent_PreviewIframe_FilePreviewIframe''
            = Some (hd previewPage)"
    by (simp add: getElementById_def getAttribute_def previewPage_def)
  have src: "toString (getAttribute (hd previewPage) ''src'') = ''p22''"
    by (simp add: toString_def getAttribute_def previewPage_def)
  have h4: "fetch server (previewRequest (hd previewPage) ''ASP.NET_SessionId=r1'')
            = Inr (page officePage)"
    unfolding src by (simp add: fetch_server site_def)
  have h5: "ok (page officePage)"
    by (simp add: page_def)
  have b: "body (page officePage) = officePage"
    by (simp add: page_def)
  have a1: "formAction (body (page officePage))
            = Some (''https://office.example/we?WOPISrc=https''
                @ CHR 0x5C # ''x253a'' @ CHR 0x5C # ''x252f'' @ CHR 0x5C # ''x252fwopi.example''
                @ CHR 0x5C # ''x252f22&ui=en'')"
    unfolding b by (rule office_action)
  note main = preview_branch_download_url [OF hops22 h2 h3 h4 h5, of "''data/Math_ 1/Root''"]
  from main have "downloadResourceObject server start ''s'' ''sid'' ''22'' ''data/Math_ 1/Root''
       = (case getOfficeFileDownloadUrl (body (page officePage)) of
              Inl e \<Rightarrow> Threw e (emit (Fetch (previewRequest (hd previewPage) ''ASP.NET_SessionId=r1''))
                 \<lparr>trace =
          [Fetch \<lparr>requestUrl = ''https://s.itslearning.com/LearningToolElement/ViewLearningToolElement.aspx?LearningToolElementId=22'',
                  cookieHeader = Some ''ASP.NET_SessionId=sid;'', redirectManual = True\<rparr>,
           Fetch \<lparr>requestUrl = ''https://platform.example/22'', cookieHeader = None,
                  redirectManual = True\<rparr>,
           Fetch \<lparr>requestUrl = ''https://resource.example/22'', cookieHeader = Some ''P=1'',
                  redirectManual = False\<rparr>],
        fs = Map.empty\<rparr>)
            | Inr officeDownloadUrl \<Rightarrow>
                downloadFile server (emit (Fetch (previewRequest (hd previewPage) ''ASP.NET_SessionId=r1''))
                 \<lparr>trace =
          [Fetch \<lparr>requestUrl = ''https://s.itslearning.com/LearningToolElement/ViewLearningToolElement.aspx?LearningToolElementId=22'',
                  cookieHeader = Some ''ASP.NET_SessionId=sid;'', redirectManual = True\<rparr>,
           Fetch \<lparr>requestUrl = ''https://platform.example/22'', cookieHeader = None,
                  redirectManual = True\<rparr>,
           Fetch \<lparr>requestUrl = ''https://resource.example/22'', cookieHeader = Some ''P=1'',
                  redirectManual = False\<rparr>],
        fs = Map.empty\<rparr>) officeDownloadUrl []
                  ''data/Math_ 1/Root'' (Some ''Slides:1&amp;2.pptx''))"
    by (rule conjunct1)
  then have call: "downloadResourceObject server start ''s'' ''sid'' ''22'' ''data/Math_ 1/Root''
       = downloadFile server
           \<lparr>trace =
              [Fetch \<lparr>requestUrl = ''https://s.itslearning.com/LearningToolElement/ViewLearningToolElement.aspx?LearningToolElementId=22'',
                      cookieHeader = Some ''ASP.NET_SessionId=sid;'', redirectManual = True\<rparr>,
               Fetch \<lparr>requestUrl = ''https://platform.example/22'', cookieHeader = None,
                      redirectManual = True\<rparr>,
               Fetch \<lparr>requestUrl = ''https://resource.example/22'', cookieHeader = Some ''P=1'',
                      redirectManual = False\<rparr>,
               Fetch \<lparr>requestUrl = ''https://resource.itslearning.com/p22'',
                      cookieHeader = Some ''ASP.NET_SessionId=r1'', redirectManual = False\<rparr>],
            fs = Map.empty\<rparr>
           ''https://wopi.example/22/contents?access_token=TOKEN'' [] ''data/Math_ 1/Root''
           (Some ''Slides:1&amp;2.pptx'')"
    unfolding b office22_url src by (simp add: emit_def)
  from main have "\<forall>officeUrl wopiSrc. formAction (body (page officePage)) = Some officeUrl \<longrightarrow>
            (wopiSrcOf officeUrl = Some wopiSrc \<longleftrightarrow>
               (\<exists>pre post. officeUrl = pre @ ''WOPISrc='' @ wopiSrc @ ''&ui='' @ post
                  \<and> wopiSrc \<noteq> []
                  \<and> (\<forall>i < length pre. \<not> startsWith (drop i officeUrl) ''WOPISrc='')
                  \<and> (\<forall>k. 0 < k \<longrightarrow> \<not> startsWith (drop k (''&ui='' @ post)) ''&ui='')))"
    by (elim conjE)
  from this [rule_format, OF a1, THEN iffD1, OF office_wopi]
  have between: "\<exists>pre post.
          ''https://office.example/we?WOPISrc=https''
             @ CHR 0x5C # ''x253a'' @ CHR 0x5C # ''x252f'' @ CHR 0x5C # ''x252fwopi.example''
             @ CHR 0x5C # ''x252f22&ui=en''
          = pre @ ''WOPISrc=''
             @ (''https'' @ CHR 0x5C # ''x253a'' @ CHR 0x5C # ''x252f'' @ CHR 0x5C # ''x252fwopi.example''
                  @ CHR 0x5C # ''x252f22'')
             @ ''&ui='' @ post
        \<and> (\<forall>i < length pre. \<not> startsWith (drop i (''https://office.example/we?WOPISrc=https''
             @ CHR 0x5C # ''x253a'' @ CHR 0x5C # ''x252f'' @ CHR 0x5C # ''x252fwopi.example''
             @ CHR 0x5C # ''x252f22&ui=en'')) ''WOPISrc='')
        \<and> (\<forall>k. 0 < k \<longrightarrow> \<not> startsWith (drop k (''&ui='' @ post)) ''&ui='')"
    by blast
  from hops22 h2 h3 h4 h5 a1 office_wopi between call show ?thesis
    by (intro conjI)
qed

text \<open>
  Claim C1, as stated, fails. The text taken from the form action is not the value of
  its \<^verbatim>\<open>WOPISrc\<close> parameter when a further parameter stands between \<^verbatim>\<open>WOPISrc\<close> and
  \<^verbatim>\<open>ui\<close>. The form action of element 28 of the example server ends in
  \<^verbatim>\<open>?WOPISrc=V&rs=en&ui=en\<close>, where \<open>V\<close> stands for \<^verbatim>\<open>https://wopi.example/28\<close>; the
  URL handed to \<^verbatim>\<open>downloadFile\<close> is
  \<^verbatim>\<open>https://wopi.example/28&rs=en/contents?access_token=TOKEN\<close>. Nor does every platform
  page with a preview frame lead to a call of \<^verbatim>\<open>downloadFile\<close>: the preview page of
  element 29 sets the form action and the access token and no time to live, and the
  resolution throws after the request of the preview page.
\<close>

theorem preview_url_keeps_further_parameters:
  "formAction officePage28
     = Some (''https://office.example/we?WOPISrc=''
         @ (''https'' @ CHR 0x5C # ''x253a'' @ CHR 0x5C # ''x252f'' @ CHR 0x5C # ''x252fwopi.example''
              @ CHR 0x5C # ''x252f28'')
         @ ''&rs=en&ui=en'')
   \<and> unescape (''https'' @ CHR 0x5C # ''x253a'' @ CHR 0x5C # ''x252f'' @ CHR 0x5C # ''x252fwopi.example''
              @ CHR 0x5C # ''x252f28'')
     = ''https://wopi.example/28''
   \<and> getOfficeFileDownloadUrl officePage28
     = Inr ''https://wopi.example/28&rs=en/contents?access_token=TOKEN''
   \<and> downloadResourceObject server start ''s'' ''sid'' ''28'' ''data/Math_ 1/Root''
       = downloadFile server
           \<lparr>trace =
              [Fetch \<lparr>requestUrl = ''https://s.itslearning.com/LearningToolElement/ViewLearningToolElement.aspx?LearningToolElementId=28'',
                      cookieHeader = Some ''ASP.NET_SessionId=sid;'', redirectManual = True\<rparr>,
               Fetch \<lparr>requestUrl = ''https://platform.example/28'', cookieHeader = None,
                      redirectManual = True\<rparr>,
               Fetch \<lparr>requestUrl = ''https://resource.example/28'', cookieHeader = Some ''P=1'',
                      redirectManual = False\<rparr>,
               Fetch \<lparr>requestUrl = ''https://resource.itslearning.com/p28'',
                      cookieHeader = Some ''ASP.NET_SessionId=r1'', redirectManual = False\<rparr>],
            fs = Map.empty\<rparr>
           ''https://wopi.example/28&rs=en/contents?access_token=TOKEN'' [] ''data/Math_ 1/Root''
           (Some ''Sheet.xlsx'')
   \<and> accessTokenTtlValue officePage29 = None
   \<and> downloadResourceObject server start ''s'' ''sid'' ''29'' ''data/Math_ 1/Root''
       = Threw TypeError
           \<lparr>trace =
              [Fetch \<lparr>requestUrl = ''https://s.itslearning.com/LearningToolElement/ViewLearningToolElement.aspx?LearningToolElementId=29'',
                      cookieHeader = Some ''ASP.NET_SessionId=sid;'', redirectManual = True\<rparr>,
               Fetch \<lparr>requestUrl = ''https://platform.example/29'', cookieHeader = None,
                      redirectManual = True\<rparr>,
               Fetch \<lparr>requestUrl = ''https://resource.example/29'', cookieHeader = Some ''P=1'',
                      redirectManual = False\<rparr>,
               Fetch \<lparr>requestUrl = ''https://resource.itslearning.com/p29'',
                      cookieHeader = Some ''ASP.NET_SessionId=r1'', redirectManual = False\<rparr>],
            fs = Map.empty\<rparr>"
proof (intro conjI)
  show "formAction officePage28
     = Some (''https://office.example/we?WOPISrc=''
         @ (''https'' @ CHR 0x5C # ''x253a'' @ CHR 0x5C # ''x252f'' @ CHR 0x5C # ''x252fwopi.example''
              @ CHR 0x5C # ''x252f28'')
         @ ''&rs=en&ui=en'')"
    by (rule office28_action)
  show "unescape (''https'' @ CHR 0x5C # ''x253a'' @ CHR 0x5C # ''x252f'' @ CHR 0x5C # ''x252fwopi.example''
              @ CHR 0x5C # ''x252f28'')
     = ''https://wopi.example/28''"
    by simp
  show "getOfficeFileDownloadUrl officePage28
     = Inr ''https://wopi.example/28&rs=en/contents?access_token=TOKEN''"
    by (rule office28_url)
  show "downloadResourceObject server start ''s'' ''sid'' ''28'' ''data/Math_ 1/Root''
       = downloadFile server
           \<lparr>trace =
              [Fetch \<lparr>requestUrl = ''https://s.itslearning.com/LearningToolElement/ViewLearningToolElement.aspx?LearningToolElementId=28'',
                      cookieHeader = Some ''ASP.NET_SessionId=sid;'', redirectManual = True\<rparr>,
               Fetch \<lparr>requestUrl = ''https://platform.example/28'', cookieHeader = None,
                      redirectManual = True\<rparr>,
               Fetch \<lparr>requestUrl = ''https://resource.example/28'', cookieHeader = Some ''P=1'',
                      redirectManual = False\<rparr>,
               Fetch \<lparr>requestUrl = ''https://resource.itslearning.com/p28'',
                      cookieHeader = Some ''ASP.NET_SessionId=r1'', redirectManual = False\<rparr>],
            fs = Map.empty\<rparr>
           ''https://wopi.example/28&rs=en/contents?access_token=TOKEN'' [] ''data/Math_ 1/Root''
           (Some ''Sheet.xlsx'')"
    unfolding downloadResourceObject_def hops28 hops.case
    by (simp add: deliver_def previewPageAt_def getElementById_def getAttribute_def toString_def
        fetch_server site_def page_def office28_url emit_def Let_def)
  show "accessTokenTtlValue officePage29 = None"
    by (rule office29_ttl)
  show "downloadResourceObject server start ''s'' ''sid'' ''29'' ''data/Math_ 1/Root''
       = Threw TypeError
           \<lparr>trace =
              [Fetch \<lparr>requestUrl = ''https://s.itslearning.com/LearningToolElement/ViewLearningToolElement.aspx?LearningToolElementId=29'',
                      cookieHeader = Some ''ASP.NET_SessionId=sid;'', redirectManual = True\<rparr>,
               Fetch \<lparr>requestUrl = ''https://platform.example/29'', cookieHeader = None,
                      redirectManual = True\<rparr>,
               Fetch \<lparr>requestUrl = ''https://resource.example/29'', cookieHeader = Some ''P=1'',
                      redirectManual = False\<rparr>,
               Fetch \<lparr>requestUrl = ''https://resource.itslearning.com/p29'',
                      cookieHeader = Some ''ASP.NET_SessionId=r1'', redirectManual = False\<rparr>],
            fs = Map.empty\<rparr>"
    unfolding downloadResourceObject_def hops29 hops.case
    by (simp add: deliver_def previewPageAt_def getElementById_def getAttribute_def toString_def
        fetch_server site_def page_def office29_url emit_def Let_def)
qed

text \<open>
  Claim C2. When a resolution reaches a platform page with a download anchor that has
  an \<^verbatim>\<open>href\<close> and a \<^verbatim>\<open>Download\<close> attribute, the resolver calls \<^verbatim>\<open>downloadFile\<close>
  with the \<^verbatim>\<open>Download\<close> value as it is as file name, with the cookie string made from
  the session cookies of the platform response, and with the URL
  \<^verbatim>\<open>https://resource.itslearning.com\<close> followed by the \<^verbatim>\<open>href\<close> in which
  \<^verbatim>\<open>&amp;\<close> is replaced by \<^verbatim>\<open>&\<close>. The replacement is one pass: an occurrence of
  \<^verbatim>\<open>&amp;\<close> becomes one \<^verbatim>\<open>&\<close> and the text before and after it is replaced on its
  own, so \<^verbatim>\<open>/x&amp;y\<close> gives \<^verbatim>\<open>/x&y\<close> and \<^verbatim>\<open>/x&amp;amp;y\<close> gives
  \<^verbatim>\<open>/x&amp;y\<close>.
\<close>

theorem direct_download_call:
  assumes reached: "resolveHops env s school sessionId elementId = Reached s3 fileName ck doc"
      and anchor: "getElementById doc ''ctl00_ctl00_MainFormContent_DownloadLinkForViewType''
                     = Some anchor"
      and href: "getAttribute anchor ''href'' = Some href"
      and name: "getAttribute anchor ''Download'' = Some downloadFilename"
  shows "downloadResourceObject env s school sessionId elementId folderPath
         = downloadFile env s3 (''https://resource.itslearning.com'' @ replaceAll ''&amp;'' ''&'' href)
             ck folderPath (Some downloadFilename)
       \<and> (\<exists>resourceRequest resourceResponse allCookies.
             fetch env resourceRequest = Inr resourceResponse
           \<and> setCookie resourceResponse = Some allCookies
           \<and> doc = parseFromString env (body resourceResponse)
           \<and> ck = convertSetCookieToCookieString
                     (filter (\<lambda>c. str_includes c ''ASP.NET_SessionId'') allCookies))
       \<and> (\<forall>a t. replaceAll ''&amp;'' ''&'' (a @ ''&amp;'' @ t)
                   = replaceAll ''&amp;'' ''&'' a @ ''&'' @ replaceAll ''&amp;'' ''&'' t)
       \<and> replaceAll ''&amp;'' ''&'' ''/x&amp;y'' = ''/x&y''
       \<and> replaceAll ''&amp;'' ''&'' ''/x&amp;amp;y'' = ''/x&amp;y''"
proof (intro conjI)
  have "deliver env s3 folderPath fileName ck doc
        = downloadFile env s3 (''https://resource.itslearning.com'' @ replaceAll ''&amp;'' ''&'' href)
            ck folderPath (getAttribute anchor ''Download'')"
    using anchor href by (rule deliver_anchor)
  then show "downloadResourceObject env s school sessionId elementId folderPath
         = downloadFile env s3 (''https://resource.itslearning.com'' @ replaceAll ''&amp;'' ''&'' href)
             ck folderPath (Some downloadFilename)"
    by (simp add: downloadResourceObject_def reached name)
  show "\<exists>resourceRequest resourceResponse allCookies.
             fetch env resourceRequest = Inr resourceResponse
           \<and> setCookie resourceResponse = Some allCookies
           \<and> doc = parseFromString env (body resourceResponse)
           \<and> ck = convertSetCookieToCookieString
                     (filter (\<lambda>c. str_includes c ''ASP.NET_SessionId'') allCookies)"
    using resolveHops_Reached [OF reached] by blast
  show "\<forall>a t. replaceAll ''&amp;'' ''&'' (a @ ''&amp;'' @ t)
                   = replaceAll ''&amp;'' ''&'' a @ ''&'' @ replaceAll ''&amp;'' ''&'' t"
    using replaceAll_at_occurrence [of "CHR ''&''" "''amp;''" "''&''"] by simp
  show "replaceAll ''&amp;'' ''&'' ''/x&amp;y'' = ''/x&y''"
    by simp
  show "replaceAll ''&amp;'' ''&'' ''/x&amp;amp;y'' = ''/x&amp;y''"
    by simp
qed

text \<open>
  Claim C2 on the example server, for element 21: \<^verbatim>\<open>href="/x&amp;y"\<close> and
  \<^verbatim>\<open>Download="report.pdf"\<close>.
\<close>

theorem direct_download_call_witness:
  "resolveHops server start ''s'' ''sid'' ''21''
   = Reached
       \<lparr>trace =
          [Fetch \<lparr>requestUrl = ''https://s.itslearning.com/LearningToolElement/ViewLearningToolElement.aspx?LearningToolElementId=21'',
                  cookieHeader = Some ''ASP.NET_SessionId=sid;'', redirectManual = True\<rparr>,
           Fetch \<lparr>requestUrl = ''https://platform.example/21?a=1&b=2'', cookieHeader = None,
                  redirectManual = True\<rparr>,
           Fetch \<lparr>requestUrl = ''https://resource.example/21'', cookieHeader = Some ''P=1'',
                  redirectManual = False\<rparr>],
        fs = Map.empty\<rparr>
       ''Report'' ''ASP.NET_SessionId=r1'' (anchorPage ''/x&amp;y'' ''report.pdf'')
   \<and> getElementById (anchorPage ''/x&amp;y'' ''report.pdf'')
         ''ctl00_ctl00_MainFormContent_DownloadLinkForViewType''
       = Some (hd (anchorPage ''/x&amp;y'' ''report.pdf''))
   \<and> getAttribute (hd (anchorPage ''/x&amp;y'' ''report.pdf'')) ''href'' = Some ''/x&amp;y''
   \<and> getAttribute (hd (anchorPage ''/x&amp;y'' ''report.pdf'')) ''Download'' = Some ''report.pdf''
   \<and> downloadResourceObject server start ''s'' ''sid'' ''21'' ''data/Math_ 1/Root''
       = downloadFile server
           \<lparr>trace =
              [Fetch \<lparr>requestUrl = ''https://s.itslearning.com/LearningToolElement/ViewLearningToolElement.aspx?LearningToolElementId=21'',
                      cookieHeader = Some ''ASP.NET_SessionId=sid;'', redirectManual = True\<rparr>,
               Fetch \<lparr>requestUrl = ''https://platform.example/21?a=1&b=2'', cookieHeader = None,
                      redirectManual = True\<rparr>,
               Fetch \<lparr>requestUrl = ''https://resource.example/21'', cookieHeader = Some ''P=1'',
                      redirectManual = False\<rparr>],
            fs = Map.empty\<rparr>
           ''https://resource.itslearning.com/x&y'' ''ASP.NET_SessionId=r1'' ''data/Math_ 1/Root''
           (Some ''report.pdf'')"
proof -
  have h2: "getElementById (anchorPage ''/x&amp;y'' ''report.pdf'')
              ''ctl00_ctl00_MainFormContent_DownloadLinkForViewType''
            = Some (hd (anchorPage ''/x&amp;y'' ''report.pdf''))"
    by (simp add: getElementById_def getAttribute_def anchorPage_def)
  have h3: "getAttribute (hd (anchorPage ''/x&amp;y'' ''report.pdf'')) ''href'' = Some ''/x&amp;y''"
    by (simp add: getAttribute_def anchorPage_def)
  have h4: "getAttribute (hd (anchorPage ''/x&amp;y'' ''report.pdf'')) ''Download''
            = Some ''report.pdf''"
    by (simp add: getAttribute_def anchorPage_def)
  have u: "''https://resource.itslearning.com'' @ replaceAll ''&amp;'' ''&'' ''/x&amp;y''
           = ''https://resource.itslearning.com/x&y''"
    by simp
  note call = direct_download_call [OF hops21 h2 h3 h4, of "''data/Math_ 1/Root''",
      THEN conjunct1, unfolded u]
  from hops21 h2 h3 h4 call show ?thesis by (intro conjI)
qed

text \<open>
  Claim C7. When a resolution reaches a platform page that has neither a download
  anchor nor a preview frame, \<^verbatim>\<open>downloadResourceObject\<close> returns (it does not throw)
  after printing the line that the resource type is unsupported. The trace has gained
  the three requests of the hops and that line, nothing else: \<^verbatim>\<open>downloadFile\<close> was
  not called, no payload was requested, and the file system is unchanged.
\<close>

theorem unsupported_resource_returns:
  assumes reached: "resolveHops env s school sessionId elementId = Reached s3 fileName ck doc"
      and no_anchor: "getElementById doc ''ctl00_ctl00_MainFormContent_DownloadLinkForViewType'' = None"
      and no_frame: "getElementById doc ''ctl00_ctl00_MainFormContent_PreviewIframe_FilePreviewIframe''
                       = None"
  shows "\<exists>r1 r2 r3 s'.
           downloadResourceObject env s school sessionId elementId folderPath = Returned s'
         \<and> trace s' = trace s @ [Fetch r1, Fetch r2, Fetch r3, ConsoleLog
              (''Resource type unsupported. No direct download link available: '' @ fileName)]
         \<and> fs s' = fs s"
proof -
  from resolveHops_state [OF reached] obtain r1 r2 r3 where
    st: "fs s3 = fs s" "trace s3 = trace s @ [Fetch r1, Fetch r2, Fetch r3]" by blast
  have "downloadResourceObject env s school sessionId elementId folderPath
        = Returned (emit (ConsoleLog
             (''Resource type unsupported. No direct download link available: '' @ fileName)) s3)"
    using deliver_neither [OF no_anchor no_frame] by (simp add: downloadResourceObject_def reached)
  with st show ?thesis by (simp add: emit_def)
qed

text \<open>
Claim C7 on the example server, for element 23.
\<close>

theorem unsupported_resource_returns_witness:
  "resolveHops server start ''s'' ''sid'' ''23''
   = Reached
       \<lparr>trace =
          [Fetch \<lparr>requestUrl = ''https://s.itslearning.com/LearningToolElement/ViewLearningToolElement.aspx?LearningToolElementId=23'',
                  cookieHeader = Some ''ASP.NET_SessionId=sid;'', redirectManual = True\<rparr>,
           Fetch \<lparr>requestUrl = ''https://platform.example/23'', cookieHeader = None,
                  redirectManual = True\<rparr>,
           Fetch \<lparr>requestUrl = ''https://resource.example/23'', cookieHeader = Some ''P=1'',
                  redirectManual = False\<rparr>],
        fs = Map.empty\<rparr>
       ''Quiz'' ''ASP.NET_SessionId=r1'' []
   \<and> getElementById [] ''ctl00_ctl00_MainFormContent_DownloadLinkForViewType'' = None
   \<and> getElementById [] ''ctl00_ctl00_MainFormContent_PreviewIframe_FilePreviewIframe'' = None
   \<and> (\<exists>r1 r2 r3 s'.
         downloadResourceObject server start ''s'' ''sid'' ''23'' ''data/Math_ 1/Root'' = Returned s'
       \<and> trace s' = trace start @ [Fetch r1, Fetch r2, Fetch r3, ConsoleLog
            (''Resource type unsupported. No direct download link available: '' @ ''Quiz'')]
       \<and> fs s' = fs start)"
proof -
  have h2: "getElementById [] ''ctl00_ctl00_MainFormContent_DownloadLinkForViewType'' = None"
    by (simp add: getElementById_def)
  have h3: "getElementById [] ''ctl00_ctl00_MainFormContent_PreviewIframe_FilePreviewIframe'' = None"
    by (simp add: getElementById_def)
  from hops23 h2 h3 unsupported_resource_returns [OF hops23 h2 h3, of "''data/Math_ 1/Root''"]
  show ?thesis by (intro conjI)
qed

section \<open>Cookies: claim C6\<close>

lemma remdups_snoc:
  "remdups (ys @ [x]) = remdups (filter (\<lambda>y. y \<noteq> x) ys) @ [x]"
  by (induction ys) auto

lemma first_occurrences_Cons:
  "rev (remdups (rev (x # ys))) = x # rev (remdups (rev (filter (\<lambda>y. y \<noteq> x) ys)))"
proof -
  have "remdups (rev ys @ [x]) = remdups (filter (\<lambda>y. y \<noteq> x) (rev ys)) @ [x]"
    by (rule remdups_snoc)
  then have "remdups (rev (x # ys)) = remdups (rev (filter (\<lambda>y. y \<noteq> x) ys)) @ [x]"
    by (simp add: rev_filter)
  then show ?thesis by simp
qed

lemma newSet_first_occurrences:
  "distinct seen \<Longrightarrow>
     newSet seen xs = seen @ rev (remdups (rev (filter (\<lambda>x. x \<notin> set seen) xs)))"
proof (induction xs arbitrary: seen)
  case Nil
  then show ?case by simp
next
  case (Cons x xs)
  show ?case
  proof (cases "x \<in> set seen")
    case True
    then show ?thesis using Cons by simp
  next
    case False
    have f: "filter (\<lambda>y. y \<noteq> x) (filter (\<lambda>y. y \<notin> set seen) xs)
             = filter (\<lambda>y. y \<notin> set (seen @ [x])) xs"
      by (induction xs) auto
    have "distinct (seen @ [x])" using False Cons.prems by simp
    then have "newSet (seen @ [x]) xs
               = (seen @ [x]) @ rev (remdups (rev (filter (\<lambda>y. y \<notin> set (seen @ [x])) xs)))"
      by (rule Cons.IH)
    then have left: "newSet seen (x # xs)
               = seen @ x # rev (remdups (rev (filter (\<lambda>y. y \<notin> set (seen @ [x])) xs)))"
      using False by simp
    have "filter (\<lambda>y. y \<notin> set seen) (x # xs) = x # filter (\<lambda>y. y \<notin> set seen) xs"
      using False by simp
    then have "rev (remdups (rev (filter (\<lambda>y. y \<notin> set seen) (x # xs))))
               = x # rev (remdups (rev (filter (\<lambda>y. y \<notin> set (seen @ [x])) xs)))"
      by (simp only: first_occurrences_Cons f)
    with left show ?thesis by (simp only:)
  qed
qed

text \<open>
  Claim C6, amended. The cookie string built from a list of \<^verbatim>\<open>Set-Cookie\<close> values is
  made of their \<open>name=value\<close> parts (the text before the first semicolon, empty when
  there is none), joined with \<open>; \<close>. A part that is equal to an earlier one, name and
  value, is dropped; every different part is kept in the place of its first occurrence,
  so the parts in the string are distinct and are exactly the parts of the given values.
  In a resolution that reaches the platform page, the request of the view hop carries the
  portal session cookie followed by a semicolon and the request of the handoff hop
  carries no cookie header; the request of the platform hop goes to the location that
  the handoff response names and carries the string built from the \<^verbatim>\<open>Set-Cookie\<close>
  values of that same response; the resource cookie string is the string built from those
  \<^verbatim>\<open>Set-Cookie\<close> values of the response to the platform request that contain
  \<^verbatim>\<open>ASP.NET_SessionId\<close>.
\<close>

theorem convertSetCookie_keeps_distinct_pairs:
  "convertSetCookieToCookieString cookieArray
     = join (newSet [] (map (\<lambda>c. if CHR '';'' \<in> set c
                                   then takeWhile (\<lambda>x. x \<noteq> CHR '';'') c else []) cookieArray)) ''; ''
   \<and> distinct (newSet [] (map (\<lambda>c. if CHR '';'' \<in> set c
                                   then takeWhile (\<lambda>x. x \<noteq> CHR '';'') c else []) cookieArray))
   \<and> set (newSet [] (map (\<lambda>c. if CHR '';'' \<in> set c
                                   then takeWhile (\<lambda>x. x \<noteq> CHR '';'') c else []) cookieArray))
       = (\<lambda>c. if CHR '';'' \<in> set c then takeWhile (\<lambda>x. x \<noteq> CHR '';'') c else []) ` set cookieArray
   \<and> newSet [] (map (\<lambda>c. if CHR '';'' \<in> set c
                                   then takeWhile (\<lambda>x. x \<noteq> CHR '';'') c else []) cookieArray)
       = rev (remdups (rev (map (\<lambda>c. if CHR '';'' \<in> set c
                                   then takeWhile (\<lambda>x. x \<noteq> CHR '';'') c else []) cookieArray)))
   \<and> (resolveHops env s school sessionId elementId = Reached s3 fileName ck doc \<longrightarrow>
        (\<exists>src handoffResponse handoffCookies target platformResponse platformCookies.
            trace s3 = trace s @
              [Fetch \<lparr>requestUrl = viewUrl school elementId,
                      cookieHeader = Some (''ASP.NET_SessionId='' @ sessionId @ '';''),
                      redirectManual = True\<rparr>,
               Fetch \<lparr>requestUrl = replaceAll ''&amp;'' ''&'' src, cookieHeader = None,
                      redirectManual = True\<rparr>,
               Fetch \<lparr>requestUrl = target,
                      cookieHeader = Some (convertSetCookieToCookieString handoffCookies),
                      redirectManual = False\<rparr>]
          \<and> fetch env \<lparr>requestUrl = replaceAll ''&amp;'' ''&'' src, cookieHeader = None,
                         redirectManual = True\<rparr> = Inr handoffResponse
          \<and> setCookie handoffResponse = Some handoffCookies
          \<and> location handoffResponse = Some target
          \<and> fetch env \<lparr>requestUrl = target,
                         cookieHeader = Some (convertSetCookieToCookieString handoffCookies),
                         redirectManual = False\<rparr> = Inr platformResponse
          \<and> setCookie platformResponse = Some platformCookies
          \<and> ck = convertSetCookieToCookieString
                    (filter (\<lambda>c. str_includes c ''ASP.NET_SessionId'') platformCookies)))"
proof (intro conjI impI)
  show "convertSetCookieToCookieString cookieArray
     = join (newSet [] (map (\<lambda>c. if CHR '';'' \<in> set c
                                   then takeWhile (\<lambda>x. x \<noteq> CHR '';'') c else []) cookieArray)) ''; ''"
    by (simp add: convertSetCookieToCookieString_def cookie_prefix)
  show "distinct (newSet [] (map (\<lambda>c. if CHR '';'' \<in> set c
                                   then takeWhile (\<lambda>x. x \<noteq> CHR '';'') c else []) cookieArray))"
    by (simp add: distinct_newSet)
  show "set (newSet [] (map (\<lambda>c. if CHR '';'' \<in> set c
                                   then takeWhile (\<lambda>x. x \<noteq> CHR '';'') c else []) cookieArray))
       = (\<lambda>c. if CHR '';'' \<in> set c then takeWhile (\<lambda>x. x \<noteq> CHR '';'') c else []) ` set cookieArray"
    by (simp add: set_newSet)
  show "newSet [] (map (\<lambda>c. if CHR '';'' \<in> set c
                                   then takeWhile (\<lambda>x. x \<noteq> CHR '';'') c else []) cookieArray)
       = rev (remdups (rev (map (\<lambda>c. if CHR '';'' \<in> set c
                                   then takeWhile (\<lambda>x. x \<noteq> CHR '';'') c else []) cookieArray)))"
    using newSet_first_occurrences [of "[]"] by simp
next
  assume "resolveHops env s school sessionId elementId = Reached s3 fileName ck doc"
  from resolveHops_Reached [OF this] obtain src iframeResponse iframeCookies target
      resourceResponse allCookies where
    f2: "fetch env \<lparr>requestUrl = replaceAll ''&amp;'' ''&'' src, cookieHeader = None,
          redirectManual = True\<rparr> = Inr iframeResponse"
    and c2: "setCookie iframeResponse = Some iframeCookies"
    and l2: "location iframeResponse = Some target"
    and f3: "fetch env \<lparr>requestUrl = target,
          cookieHeader = Some (convertSetCookieToCookieString iframeCookies),
          redirectManual = False\<rparr> = Inr resourceResponse"
    and c3: "setCookie resourceResponse = Some allCookies"
    and ck: "ck = convertSetCookieToCookieString
               (filter (\<lambda>c. str_includes c ''ASP.NET_SessionId'') allCookies)"
    and s3: "s3 = emit (Fetch \<lparr>requestUrl = target,
                 cookieHeader = Some (convertSetCookieToCookieString iframeCookies),
                 redirectManual = False\<rparr>)
              (emit (Fetch \<lparr>requestUrl = replaceAll ''&amp;'' ''&'' src, cookieHeader = None,
                 redirectManual = True\<rparr>)
              (emit (Fetch (viewRequest school sessionId elementId)) s))"
    by blast
  have t: "trace s3 = trace s @
      [Fetch \<lparr>requestUrl = viewUrl school elementId,
                      cookieHeader = Some (''ASP.NET_SessionId='' @ sessionId @ '';''),
                      redirectManual = True\<rparr>,
       Fetch \<lparr>requestUrl = replaceAll ''&amp;'' ''&'' src, cookieHeader = None,
                 redirectManual = True\<rparr>,
       Fetch \<lparr>requestUrl = target,
                 cookieHeader = Some (convertSetCookieToCookieString iframeCookies),
                 redirectManual = False\<rparr>]"
    unfolding s3 by (simp add: emit_def)
  from t f2 c2 l2 f3 c3 ck
  show "\<exists>src handoffResponse handoffCookies target platformResponse platformCookies.
            trace s3 = trace s @
              [Fetch \<lparr>requestUrl = viewUrl school elementId,
                      cookieHeader = Some (''ASP.NET_SessionId='' @ sessionId @ '';''),
                      redirectManual = True\<rparr>,
               Fetch \<lparr>requestUrl = replaceAll ''&amp;'' ''&'' src, cookieHeader = None,
                      redirectManual = True\<rparr>,
               Fetch \<lparr>requestUrl = target,
                      cookieHeader = Some (convertSetCookieToCookieString handoffCookies),
                      redirectManual = False\<rparr>]
          \<and> fetch env \<lparr>requestUrl = replaceAll ''&amp;'' ''&'' src, cookieHeader = None,
                         redirectManual = True\<rparr> = Inr handoffResponse
          \<and> setCookie handoffResponse = Some handoffCookies
          \<and> location handoffResponse = Some target
          \<and> fetch env \<lparr>requestUrl = target,
                         cookieHeader = Some (convertSetCookieToCookieString handoffCookies),
                         redirectManual = False\<rparr> = Inr platformResponse
          \<and> setCookie platformResponse = Some platformCookies
          \<and> ck = convertSetCookieToCookieString
                    (filter (\<lambda>c. str_includes c ''ASP.NET_SessionId'') platformCookies)"
    by blast
qed

text \<open>
  The amended claim C6 on the example server, for element 23: the handoff response sets
  \<^verbatim>\<open>P=1\<close> twice, the platform request carries it once; the platform response sets a
  session cookie and a language cookie, the resource cookie string holds the session
  cookie.
\<close>

theorem convertSetCookie_keeps_distinct_pairs_witness:
  "resolveHops server start ''s'' ''sid'' ''23''
   = Reached
       \<lparr>trace =
          [Fetch \<lparr>requestUrl = ''https://s.itslearning.com/LearningToolElement/ViewLearningToolElement.aspx?LearningToolElementId=23'',
                  cookieHeader = Some ''ASP.NET_SessionId=sid;'', redirectManual = True\<rparr>,
           Fetch \<lparr>requestUrl = ''https://platform.example/23'', cookieHeader = None,
                  redirectManual = True\<rparr>,
           Fetch \<lparr>requestUrl = ''https://resource.example/23'', cookieHeader = Some ''P=1'',
                  redirectManual = False\<rparr>],
        fs = Map.empty\<rparr>
       ''Quiz'' ''ASP.NET_SessionId=r1'' []
   \<and> (\<exists>src handoffResponse handoffCookies target platformResponse platformCookies.
          trace \<lparr>trace =
            [Fetch \<lparr>requestUrl = ''https://s.itslearning.com/LearningToolElement/ViewLearningToolElement.aspx?LearningToolElementId=23'',
                    cookieHeader = Some ''ASP.NET_SessionId=sid;'', redirectManual = True\<rparr>,
             Fetch \<lparr>requestUrl = ''https://platform.example/23'', cookieHeader = None,
                    redirectManual = True\<rparr>,
             Fetch \<lparr>requestUrl = ''https://resource.example/23'', cookieHeader = Some ''P=1'',
                    redirectManual = False\<rparr>],
            fs = Map.empty\<rparr>
          = trace start @
              [Fetch \<lparr>requestUrl = viewUrl ''s'' ''23'',
                      cookieHeader = Some (''ASP.NET_SessionId='' @ ''sid'' @ '';''),
                      redirectManual = True\<rparr>,
               Fetch \<lparr>requestUrl = replaceAll ''&amp;'' ''&'' src, cookieHeader = None,
                      redirectManual = True\<rparr>,
               Fetch \<lparr>requestUrl = target,
                      cookieHeader = Some (convertSetCookieToCookieString handoffCookies),
                      redirectManual = False\<rparr>]
        \<and> fetch server \<lparr>requestUrl = replaceAll ''&amp;'' ''&'' src, cookieHeader = None,
                          redirectManual = True\<rparr> = Inr handoffResponse
        \<and> setCookie handoffResponse = Some handoffCookies
        \<and> location handoffResponse = Some target
        \<and> fetch server \<lparr>requestUrl = target,
                          cookieHeader = Some (convertSetCookieToCookieString handoffCookies),
                          redirectManual = False\<rparr> = Inr platformResponse
        \<and> setCookie platformResponse = Some platformCookies
        \<and> ''ASP.NET_SessionId=r1'' = convertSetCookieToCookieString
                  (filter (\<lambda>c. str_includes c ''ASP.NET_SessionId'') platformCookies))
   \<and> fetch server \<lparr>requestUrl = ''https://platform.example/23'', cookieHeader = None,
                     redirectManual = True\<rparr> = Inr (handoff ''https://resource.example/23'')
   \<and> setCookie (handoff ''https://resource.example/23'') = Some [''P=1; path=/'', ''P=1; path=/'']
   \<and> convertSetCookieToCookieString [''P=1; path=/'', ''P=1; path=/''] = ''P=1''
   \<and> fetch server \<lparr>requestUrl = ''https://resource.example/23'', cookieHeader = Some ''P=1'',
                     redirectManual = False\<rparr> = Inr (platform ''r23'')
   \<and> setCookie (platform ''r23'')
       = Some [''ASP.NET_SessionId=r1; path=/; HttpOnly'', ''lang=en; path=/'']
   \<and> filter (\<lambda>c. str_includes c ''ASP.NET_SessionId'')
         [''ASP.NET_SessionId=r1; path=/; HttpOnly'', ''lang=en; path=/'']
       = [''ASP.NET_SessionId=r1; path=/; HttpOnly'']
   \<and> convertSetCookieToCookieString [''ASP.NET_SessionId=r1; path=/; HttpOnly'']
       = ''ASP.NET_SessionId=r1''"
proof -
  note tied = convertSetCookie_keeps_distinct_pairs [where env = server and s = start
      and school = "''s''" and sessionId = "''sid''" and elementId = "''23''",
      THEN conjunct2, THEN conjunct2, THEN conjunct2, THEN conjunct2, THEN mp, OF hops23]
  have f2: "fetch server \<lparr>requestUrl = ''https://platform.example/23'', cookieHeader = None,
                     redirectManual = True\<rparr> = Inr (handoff ''https://resource.example/23'')"
    by (simp add: fetch_server site_def)
  have c2: "setCookie (handoff ''https://resource.example/23'')
            = Some [''P=1; path=/'', ''P=1; path=/'']"
    by (simp add: handoff_def)
  have f3: "fetch server \<lparr>requestUrl = ''https://resource.example/23'', cookieHeader = Some ''P=1'',
                     redirectManual = False\<rparr> = Inr (platform ''r23'')"
    by (simp add: fetch_server site_def)
  have c3: "setCookie (platform ''r23'')
       = Some [''ASP.NET_SessionId=r1; path=/; HttpOnly'', ''lang=en; path=/'']"
    by (simp add: platform_def)
  have fl: "filter (\<lambda>c. str_includes c ''ASP.NET_SessionId'')
         [''ASP.NET_SessionId=r1; path=/; HttpOnly'', ''lang=en; path=/'']
       = [''ASP.NET_SessionId=r1; path=/; HttpOnly'']"
    by simp
  from hops23 tied f2 c2 cookies_platform f3 c3 fl cookies_resource show ?thesis
    by (intro conjI)
qed

text \<open>
  Claim C6, as stated, fails: two \<^verbatim>\<open>Set-Cookie\<close> values with the same cookie name and
  different values both end up in the cookie string; no value wins.
\<close>

theorem convertSetCookie_same_name_twice:
  "convertSetCookieToCookieString [''a=1; Path=/'', ''a=2; Path=/''] = ''a=1; a=2''"
  by (simp add: convertSetCookieToCookieString_def cookie_prefix)

section \<open>The Folder Traversal Engine: claims C3 and C4\<close>





lemma loop_folder_step:
  assumes "getAttribute entry ''href'' = Some u" and "startsWith u ''/Folder''"
  shows "folderEntriesLoop n env s school sessionId folderPath names (entry # entries)
         = (case downloadResourceFolder n env s school u sessionId folderPath
                   (1 < count_list names (textContent entry)) of
              None \<Rightarrow> None
            | Some (Returned s') \<Rightarrow>
                folderEntriesLoop n env s' school sessionId folderPath names entries
            | Some (Threw e s') \<Rightarrow> Some (Threw e s')
            | Some (Uncaught e s') \<Rightarrow> Some (Uncaught e s'))"
proof -
  have "length (filter (\<lambda>n. n = textContent entry) names) = count_list names (textContent entry)"
    by (induction names) auto
  then show ?thesis
    using assms by (simp add: Let_def)
qed

lemma loop_object_step:
  assumes "getAttribute entry ''href'' = Some u" and "\<not> startsWith u ''/Folder''"
      and "startsWith u ''/LearningToolElement''"
      and "matchDigits ''LearningToolElementId='' u = Some elementId"
  shows "folderEntriesLoop n env s school sessionId folderPath names (entry # entries)
         = folderEntriesLoop n env (emit (Started elementId folderPath) s) school sessionId
             folderPath names entries"
  using assms by (simp add: Let_def)

lemma loop_names_irrelevant:
  "list_all (\<lambda>e. case getAttribute e ''href'' of None \<Rightarrow> True
                  | Some u \<Rightarrow> \<not> startsWith u ''/Folder'') entries \<Longrightarrow>
   folderEntriesLoop n env s school sessionId folderPath names entries
   = folderEntriesLoop n env s school sessionId folderPath names' entries"
proof (induction entries arbitrary: s)
  case Nil
  then show ?case by simp
next
  case (Cons e es)
  then have ih: "\<And>s. folderEntriesLoop n env s school sessionId folderPath names es
                      = folderEntriesLoop n env s school sessionId folderPath names' es"
    by simp
  show ?case
  proof (cases "getAttribute e ''href''")
    case None
    then show ?thesis by simp
  next
    case (Some u)
    with Cons.prems have "\<not> startsWith u ''/Folder''" by simp
    with Some show ?thesis
      by (simp add: Let_def ih split: option.splits)
  qed
qed

lemma loop_append:
  "folderEntriesLoop n env s school sessionId folderPath names (before @ rest)
   = (case folderEntriesLoop n env s school sessionId folderPath names before of
        None \<Rightarrow> None
      | Some (Returned s') \<Rightarrow> folderEntriesLoop n env s' school sessionId folderPath names rest
      | Some (Threw e s') \<Rightarrow> Some (Threw e s')
      | Some (Uncaught e s') \<Rightarrow> Some (Uncaught e s'))"
proof (induction before arbitrary: s)
  case Nil
  then show ?case by simp
next
  case (Cons entry before)
  show ?case
  proof (cases "getAttribute entry ''href''")
    case None
    then show ?thesis by simp
  next
    case (Some u)
    show ?thesis
    proof (cases "startsWith u ''/Folder''")
      case True
      have a: "(entry # before) @ rest = entry # (before @ rest)"
        by simp
      show ?thesis
        unfolding a loop_folder_step [OF Some True]
        by (simp add: Cons.IH split: option.splits outcome.splits del: folderEntriesLoop.simps)
    next
      case False
      with Some show ?thesis
        by (simp add: Let_def Cons.IH split: option.splits)
    qed
  qed
qed




lemma openFolder_Opened:
  assumes opened: "openFolder env s school folderUrl sessionId parentFolderPath appendId
           = Opened s1 folderPath names entries"
  shows "\<exists>name. folderPath = parentFolderPath @ ''/'' @ name \<and> set name \<inter> forbidden = {}"
proof -
  define url' where "url' = absoluteUrl school folderUrl"
  define req where "req = (folderRequest sessionId url')"
  note unfolded = opened [unfolded openFolder_def Let_def, folded url'_def, folded req_def]
  from unfolded obtain resp where r: "fetch env req = Inr resp"
    by (cases "fetch env req") auto
  from unfolded r have okr: "ok resp"
    by (auto split: if_splits)
  from unfolded r okr obtain header where
    h: "getElementById (parseFromString env (body resp)) ''ctl00_PageHeader_TT'' = Some header"
    by (cases "getElementById (parseFromString env (body resp)) ''ctl00_PageHeader_TT''") auto
  have brackets: "set '' ['' \<inter> forbidden = {}" "set '']'' \<inter> forbidden = {}"
    by (simp_all add: forbidden_def)
  show ?thesis
  proof (cases appendId)
    case False
    with unfolded r okr h
    have "folderPath = parentFolderPath @ ''/'' @ decodeString env (textContent header)"
      by simp
    then show ?thesis using decodeString_clean by blast
  next
    case True
    with unfolded r okr h obtain folderId where m: "matchDigits ''FolderID='' url' = Some folderId"
      by (cases "matchDigits ''FolderID='' url'") auto
    with unfolded r okr h True
    have p: "folderPath = parentFolderPath @ ''/''
               @ (decodeString env (textContent header) @ '' ['' @ folderId @ '']'')"
      by simp
    have "set folderId \<subseteq> set ''0123456789''"
      using m by (rule matchDigits_digits)
    then have "set folderId \<inter> forbidden = {}"
      by (auto simp: forbidden_def)
    then have "set (decodeString env (textContent header) @ '' ['' @ folderId @ '']'')
                 \<inter> forbidden = {}"
      using decodeString_clean [of env "textContent header"] brackets
      by (simp only: set_append Int_Un_distrib2 Un_empty)
    with p show ?thesis by blast
  qed
qed

lemma openFolder_names:
  assumes "openFolder env s school folderUrl sessionId parentFolderPath appendId
           = Opened s1 folderPath names entries"
  shows "names = map textContent entries"
  using assms unfolding openFolder_def Let_def
  by (auto split: sum.splits if_splits option.splits)

lemma openCourse_Entered:
  assumes "openCourse env s school sessionId c = Entered s1 resourceFolderUrl parentFolder"
  shows "parentFolder = pathJoin env (downloadLocation env) (decodeString env (Title c))"
  using assms unfolding openCourse_def Let_def
  by (auto split: sum.splits if_splits option.splits)







lemma openFolder_entries:
  assumes "openFolder env s school folderUrl sessionId parentFolderPath appendId
           = Opened s1 folderPath names entries"
  shows "\<exists>contentResponse.
           fetch env (folderRequest sessionId (absoluteUrl school folderUrl)) = Inr contentResponse
         \<and> ok contentResponse
         \<and> entries = getElementsByClassName (parseFromString env (body contentResponse)) ''GridTitle''"
  using assms unfolding openFolder_def Let_def
  by (auto split: sum.splits if_splits option.splits)

lemma count_list_other_position:
  "(1 < count_list (map f (before @ entry # after)) (f entry)) = (f entry \<in> f ` set (before @ after))"
proof -
  have "count_list (map f (before @ entry # after)) (f entry)
        = count_list (map f before) (f entry) + 1 + count_list (map f after) (f entry)"
    by simp
  moreover have "(0 < count_list (map f before) (f entry) + count_list (map f after) (f entry))
                 = (f entry \<in> set (map f before) \<union> set (map f after))"
    using count_list_0_iff [of "map f before" "f entry"] count_list_0_iff [of "map f after" "f entry"]
    by auto
  ultimately show ?thesis by auto
qed

text \<open>
  Claim C4, amended. Take a folder page that is fetched and read, and one of its entries.
  The names the loop compares with are the display texts of all entries of that page,
  folders and files alike, so the flag computed for the entry says whether its display
  text is also the display text of an entry at another position of the page. When the
  loop over the entries before it has returned, the traversal of the page goes on as
  follows. If the entry is a folder, it is traversed with that flag as \<open>appendId\<close>. If
  it is a file, its resolution is started with the element and the folder path:
  \<^verbatim>\<open>downloadResourceObject\<close> takes the school, the session, the element and the folder
  path, no flag is passed to it.
\<close>

theorem duplicate_name_flags_folder_entries:
  assumes opened: "openFolder env s school folderUrl sessionId parentFolderPath appendId
                     = Opened s1 folderPath names entries"
      and position: "entries = before @ entry # after"
      and earlier: "folderEntriesLoop n env s1 school sessionId folderPath names before
                      = Some (Returned s2)"
      and href: "getAttribute entry ''href'' = Some u"
  shows "(\<exists>contentResponse.
             fetch env (folderRequest sessionId (absoluteUrl school folderUrl)) = Inr contentResponse
           \<and> entries = getElementsByClassName (parseFromString env (body contentResponse))
                         ''GridTitle'')
       \<and> names = map textContent entries
       \<and> (1 < count_list names (textContent entry))
           = (textContent entry \<in> textContent ` set (before @ after))
       \<and> (startsWith u ''/Folder'' \<longrightarrow>
            downloadResourceFolder (Suc n) env s school folderUrl sessionId parentFolderPath appendId
            = (case downloadResourceFolder n env s2 school u sessionId folderPath
                      (1 < count_list names (textContent entry)) of
                 None \<Rightarrow> None
               | Some (Returned s') \<Rightarrow>
                   folderEntriesLoop n env s' school sessionId folderPath names after
               | Some (Threw e s') \<Rightarrow> Some (Threw e s')
               | Some (Uncaught e s') \<Rightarrow> Some (Uncaught e s')))
       \<and> (\<not> startsWith u ''/Folder'' \<and> startsWith u ''/LearningToolElement''
            \<and> matchDigits ''LearningToolElementId='' u = Some elementId \<longrightarrow>
            downloadResourceFolder (Suc n) env s school folderUrl sessionId parentFolderPath appendId
            = folderEntriesLoop n env (emit (Started elementId folderPath) s2) school sessionId
                folderPath names after)"
proof (intro conjI impI)
  show "\<exists>contentResponse.
             fetch env (folderRequest sessionId (absoluteUrl school folderUrl)) = Inr contentResponse
           \<and> entries = getElementsByClassName (parseFromString env (body contentResponse))
                         ''GridTitle''"
    using openFolder_entries [OF opened] by blast
  show names: "names = map textContent entries"
    using opened by (rule openFolder_names)
  show "(1 < count_list names (textContent entry))
           = (textContent entry \<in> textContent ` set (before @ after))"
    unfolding names position by (rule count_list_other_position)
  have page: "downloadResourceFolder (Suc n) env s school folderUrl sessionId parentFolderPath appendId
        = folderEntriesLoop n env s2 school sessionId folderPath names (entry # after)"
    by (simp add: opened position loop_append earlier del: folderEntriesLoop.simps)
  {
    assume "startsWith u ''/Folder''"
    with href show "downloadResourceFolder (Suc n) env s school folderUrl sessionId parentFolderPath appendId
            = (case downloadResourceFolder n env s2 school u sessionId folderPath
                      (1 < count_list names (textContent entry)) of
                 None \<Rightarrow> None
               | Some (Returned s') \<Rightarrow>
                   folderEntriesLoop n env s' school sessionId folderPath names after
               | Some (Threw e s') \<Rightarrow> Some (Threw e s')
               | Some (Uncaught e s') \<Rightarrow> Some (Uncaught e s'))"
      unfolding page by (rule loop_folder_step)
  }
  {
    assume "\<not> startsWith u ''/Folder'' \<and> startsWith u ''/LearningToolElement''
            \<and> matchDigits ''LearningToolElementId='' u = Some elementId"
    then have "\<not> startsWith u ''/Folder''" "startsWith u ''/LearningToolElement''"
      "matchDigits ''LearningToolElementId='' u = Some elementId"
      by simp_all
    with href show "downloadResourceFolder (Suc n) env s school folderUrl sessionId parentFolderPath appendId
            = folderEntriesLoop n env (emit (Started elementId folderPath) s2) school sessionId
                folderPath names after"
      unfolding page by (rule loop_object_step)
  }
qed

lemma open10:
  "openFolder server start ''s'' ''/Folder/processfolder.aspx?FolderID=10'' ''sid''
       ''data/Math_ 1'' False
   = Opened
       \<lparr>trace =
          [Fetch \<lparr>requestUrl = ''https://s.itslearning.com/Folder/processfolder.aspx?FolderID=10'',
                  cookieHeader = Some ''ASP.NET_SessionId=sid;'', redirectManual = False\<rparr>],
        fs = Map.empty\<rparr>
       ''data/Math_ 1/Root'' [''Notes'', ''Notes'', ''Syllabus''] rootEntries"
  by (simp add: openFolder_def server_eval server_join rootEntries_def Let_def isDigit_def
      decodeString_def bufferRoundTrip_def forbidden_def namedReferences_def)

lemma loop11:
  "folderEntriesLoop (Suc 0) server
       \<lparr>trace =
          [Fetch \<lparr>requestUrl = ''https://s.itslearning.com/Folder/processfolder.aspx?FolderID=10'',
                  cookieHeader = Some ''ASP.NET_SessionId=sid;'', redirectManual = False\<rparr>],
        fs = Map.empty\<rparr>
       ''s'' ''sid'' ''data/Math_ 1/Root'' [''Notes'', ''Notes'', ''Syllabus'']
       [folderEntry ''Notes'' ''/Folder/processfolder.aspx?FolderID=11'']
   = Some (Returned
       \<lparr>trace =
          [Fetch \<lparr>requestUrl = ''https://s.itslearning.com/Folder/processfolder.aspx?FolderID=10'',
                  cookieHeader = Some ''ASP.NET_SessionId=sid;'', redirectManual = False\<rparr>,
           Fetch \<lparr>requestUrl = ''https://s.itslearning.com/Folder/processfolder.aspx?FolderID=11'',
                  cookieHeader = Some ''ASP.NET_SessionId=sid;'', redirectManual = False\<rparr>,
           ConsoleError ''Failed to fetch web content for folder at https://s.itslearning.com/Folder/processfolder.aspx?FolderID=11''],
        fs = Map.empty\<rparr>)"
  by (simp add: openFolder_def server_eval server_join Let_def)

lemma loop11_12:
  "folderEntriesLoop (Suc 0) server
       \<lparr>trace =
          [Fetch \<lparr>requestUrl = ''https://s.itslearning.com/Folder/processfolder.aspx?FolderID=10'',
                  cookieHeader = Some ''ASP.NET_SessionId=sid;'', redirectManual = False\<rparr>],
        fs = Map.empty\<rparr>
       ''s'' ''sid'' ''data/Math_ 1/Root'' [''Notes'', ''Notes'', ''Syllabus'']
       [folderEntry ''Notes'' ''/Folder/processfolder.aspx?FolderID=11'',
        folderEntry ''Notes'' ''/Folder/processfolder.aspx?FolderID=12'']
   = Some (Returned
       \<lparr>trace =
          [Fetch \<lparr>requestUrl = ''https://s.itslearning.com/Folder/processfolder.aspx?FolderID=10'',
                  cookieHeader = Some ''ASP.NET_SessionId=sid;'', redirectManual = False\<rparr>,
           Fetch \<lparr>requestUrl = ''https://s.itslearning.com/Folder/processfolder.aspx?FolderID=11'',
                  cookieHeader = Some ''ASP.NET_SessionId=sid;'', redirectManual = False\<rparr>,
           ConsoleError ''Failed to fetch web content for folder at https://s.itslearning.com/Folder/processfolder.aspx?FolderID=11'',
           Fetch \<lparr>requestUrl = ''https://s.itslearning.com/Folder/processfolder.aspx?FolderID=12'',
                  cookieHeader = Some ''ASP.NET_SessionId=sid;'', redirectManual = False\<rparr>],
        fs = Map.empty\<rparr>)"
  by (simp add: openFolder_def server_eval server_join Let_def isDigit_def
      decodeString_def bufferRoundTrip_def forbidden_def namedReferences_def)

text \<open>
  The amended claim C4 on the example server. The page of folder 10 lists the folders
  \<open>Notes\<close> (11), \<open>Notes\<close> (12) and \<open>Syllabus\<close> (13). Folder 12 is traversed with the flag
  and gets the directory \<^verbatim>\<open>Notes_ _2_ [12]\<close>; folder 13 is traversed without it and gets
  the directory \<^verbatim>\<open>Syllabus\<close>.
\<close>

theorem duplicate_name_flags_folder_entries_witness:
  "openFolder server start ''s'' ''/Folder/processfolder.aspx?FolderID=10'' ''sid''
       ''data/Math_ 1'' False
   = Opened
       \<lparr>trace =
          [Fetch \<lparr>requestUrl = ''https://s.itslearning.com/Folder/processfolder.aspx?FolderID=10'',
                  cookieHeader = Some ''ASP.NET_SessionId=sid;'', redirectManual = False\<rparr>],
        fs = Map.empty\<rparr>
       ''data/Math_ 1/Root'' [''Notes'', ''Notes'', ''Syllabus''] rootEntries
   \<and> rootEntries
       = [folderEntry ''Notes'' ''/Folder/processfolder.aspx?FolderID=11'']
         @ folderEntry ''Notes'' ''/Folder/processfolder.aspx?FolderID=12''
         # [folderEntry ''Syllabus'' ''/Folder/processfolder.aspx?FolderID=13'']
   \<and> folderEntriesLoop (Suc 0) server
         \<lparr>trace =
            [Fetch \<lparr>requestUrl = ''https://s.itslearning.com/Folder/processfolder.aspx?FolderID=10'',
                    cookieHeader = Some ''ASP.NET_SessionId=sid;'', redirectManual = False\<rparr>],
          fs = Map.empty\<rparr>
         ''s'' ''sid'' ''data/Math_ 1/Root'' [''Notes'', ''Notes'', ''Syllabus'']
         [folderEntry ''Notes'' ''/Folder/processfolder.aspx?FolderID=11'']
       = Some (Returned
           \<lparr>trace =
              [Fetch \<lparr>requestUrl = ''https://s.itslearning.com/Folder/processfolder.aspx?FolderID=10'',
                      cookieHeader = Some ''ASP.NET_SessionId=sid;'', redirectManual = False\<rparr>,
               Fetch \<lparr>requestUrl = ''https://s.itslearning.com/Folder/processfolder.aspx?FolderID=11'',
                      cookieHeader = Some ''ASP.NET_SessionId=sid;'', redirectManual = False\<rparr>,
               ConsoleError ''Failed to fetch web content for folder at https://s.itslearning.com/Folder/processfolder.aspx?FolderID=11''],
            fs = Map.empty\<rparr>)
   \<and> getAttribute (folderEntry ''Notes'' ''/Folder/processfolder.aspx?FolderID=12'') ''href''
       = Some ''/Folder/processfolder.aspx?FolderID=12''
   \<and> startsWith ''/Folder/processfolder.aspx?FolderID=12'' ''/Folder''
   \<and> downloadResourceFolder (Suc (Suc 0)) server start ''s''
         ''/Folder/processfolder.aspx?FolderID=10'' ''sid'' ''data/Math_ 1'' False
       = (case downloadResourceFolder (Suc 0) server
                 \<lparr>trace =
                    [Fetch \<lparr>requestUrl = ''https://s.itslearning.com/Folder/processfolder.aspx?FolderID=10'',
                            cookieHeader = Some ''ASP.NET_SessionId=sid;'', redirectManual = False\<rparr>,
                     Fetch \<lparr>requestUrl = ''https://s.itslearning.com/Folder/processfolder.aspx?FolderID=11'',
                            cookieHeader = Some ''ASP.NET_SessionId=sid;'', redirectManual = False\<rparr>,
                     ConsoleError ''Failed to fetch web content for folder at https://s.itslearning.com/Folder/processfolder.aspx?FolderID=11''],
                  fs = Map.empty\<rparr>
                 ''s'' ''/Folder/processfolder.aspx?FolderID=12'' ''sid'' ''data/Math_ 1/Root'' True of
            None \<Rightarrow> None
          | Some (Returned s') \<Rightarrow>
              folderEntriesLoop (Suc 0) server s' ''s'' ''sid'' ''data/Math_ 1/Root''
                [''Notes'', ''Notes'', ''Syllabus'']
                [folderEntry ''Syllabus'' ''/Folder/processfolder.aspx?FolderID=13'']
          | Some (Threw e s') \<Rightarrow> Some (Threw e s')
          | Some (Uncaught e s') \<Rightarrow> Some (Uncaught e s'))
   \<and> rootEntries
       = [folderEntry ''Notes'' ''/Folder/processfolder.aspx?FolderID=11'',
          folderEntry ''Notes'' ''/Folder/processfolder.aspx?FolderID=12'']
         @ folderEntry ''Syllabus'' ''/Folder/processfolder.aspx?FolderID=13'' # []
   \<and> getAttribute (folderEntry ''Syllabus'' ''/Folder/processfolder.aspx?FolderID=13'') ''href''
       = Some ''/Folder/processfolder.aspx?FolderID=13''
   \<and> startsWith ''/Folder/processfolder.aspx?FolderID=13'' ''/Folder''
   \<and> downloadResourceFolder (Suc (Suc 0)) server start ''s''
         ''/Folder/processfolder.aspx?FolderID=10'' ''sid'' ''data/Math_ 1'' False
       = (case downloadResourceFolder (Suc 0) server
                 \<lparr>trace =
                    [Fetch \<lparr>requestUrl = ''https://s.itslearning.com/Folder/processfolder.aspx?FolderID=10'',
                            cookieHeader = Some ''ASP.NET_SessionId=sid;'', redirectManual = False\<rparr>,
                     Fetch \<lparr>requestUrl = ''https://s.itslearning.com/Folder/processfolder.aspx?FolderID=11'',
                            cookieHeader = Some ''ASP.NET_SessionId=sid;'', redirectManual = False\<rparr>,
                     ConsoleError ''Failed to fetch web content for folder at https://s.itslearning.com/Folder/processfolder.aspx?FolderID=11'',
                     Fetch \<lparr>requestUrl = ''https://s.itslearning.com/Folder/processfolder.aspx?FolderID=12'',
                            cookieHeader = Some ''ASP.NET_SessionId=sid;'', redirectManual = False\<rparr>],
                  fs = Map.empty\<rparr>
                 ''s'' ''/Folder/processfolder.aspx?FolderID=13'' ''sid'' ''data/Math_ 1/Root'' False of
            None \<Rightarrow> None
          | Some (Returned s') \<Rightarrow>
              folderEntriesLoop (Suc 0) server s' ''s'' ''sid'' ''data/Math_ 1/Root''
                [''Notes'', ''Notes'', ''Syllabus''] []
          | Some (Threw e s') \<Rightarrow> Some (Threw e s')
          | Some (Uncaught e s') \<Rightarrow> Some (Uncaught e s'))
   \<and> openFolder server start ''s'' ''/Folder/processfolder.aspx?FolderID=12'' ''sid''
         ''data/Math_ 1/Root'' True
       = Opened
           \<lparr>trace =
              [Fetch \<lparr>requestUrl = ''https://s.itslearning.com/Folder/processfolder.aspx?FolderID=12'',
                      cookieHeader = Some ''ASP.NET_SessionId=sid;'', redirectManual = False\<rparr>],
            fs = Map.empty\<rparr>
           ''data/Math_ 1/Root/Notes_ _2_ [12]'' [] []
   \<and> openFolder server start ''s'' ''/Folder/processfolder.aspx?FolderID=13'' ''sid''
         ''data/Math_ 1/Root'' False
       = Opened
           \<lparr>trace =
              [Fetch \<lparr>requestUrl = ''https://s.itslearning.com/Folder/processfolder.aspx?FolderID=13'',
                      cookieHeader = Some ''ASP.NET_SessionId=sid;'', redirectManual = False\<rparr>],
            fs = Map.empty\<rparr>
           ''data/Math_ 1/Root/Syllabus'' [] []"
proof -
  have p12: "rootEntries
       = [folderEntry ''Notes'' ''/Folder/processfolder.aspx?FolderID=11'']
         @ folderEntry ''Notes'' ''/Folder/processfolder.aspx?FolderID=12''
         # [folderEntry ''Syllabus'' ''/Folder/processfolder.aspx?FolderID=13'']"
    by (simp add: rootEntries_def)
  have p13: "rootEntries
       = [folderEntry ''Notes'' ''/Folder/processfolder.aspx?FolderID=11'',
          folderEntry ''Notes'' ''/Folder/processfolder.aspx?FolderID=12'']
         @ folderEntry ''Syllabus'' ''/Folder/processfolder.aspx?FolderID=13'' # []"
    by (simp add: rootEntries_def)
  have h12: "getAttribute (folderEntry ''Notes'' ''/Folder/processfolder.aspx?FolderID=12'') ''href''
              = Some ''/Folder/processfolder.aspx?FolderID=12''"
    by (simp add: getAttribute_def folderEntry_def)
  have h13: "getAttribute (folderEntry ''Syllabus'' ''/Folder/processfolder.aspx?FolderID=13'') ''href''
              = Some ''/Folder/processfolder.aspx?FolderID=13''"
    by (simp add: getAttribute_def folderEntry_def)
  have f12: "startsWith ''/Folder/processfolder.aspx?FolderID=12'' ''/Folder''"
    by simp
  have f13: "startsWith ''/Folder/processfolder.aspx?FolderID=13'' ''/Folder''"
    by simp
  have n12: "(1 < count_list [''Notes'', ''Notes'', ''Syllabus'']
                  (textContent (folderEntry ''Notes'' ''/Folder/processfolder.aspx?FolderID=12''))) = True"
    by (simp add: folderEntry_def)
  have n13: "(1 < count_list [''Notes'', ''Notes'', ''Syllabus'']
                  (textContent (folderEntry ''Syllabus'' ''/Folder/processfolder.aspx?FolderID=13''))) = False"
    by (simp add: folderEntry_def)
  note t12 = duplicate_name_flags_folder_entries [OF open10 p12 loop11 h12,
      THEN conjunct2, THEN conjunct2, THEN conjunct2, THEN conjunct1, THEN mp, OF f12,
      unfolded n12]
  note t13 = duplicate_name_flags_folder_entries [OF open10 p13 loop11_12 h13,
      THEN conjunct2, THEN conjunct2, THEN conjunct2, THEN conjunct1, THEN mp, OF f13,
      unfolded n13]
  have o12: "openFolder server start ''s'' ''/Folder/processfolder.aspx?FolderID=12'' ''sid''
         ''data/Math_ 1/Root'' True
       = Opened
           \<lparr>trace =
              [Fetch \<lparr>requestUrl = ''https://s.itslearning.com/Folder/processfolder.aspx?FolderID=12'',
                      cookieHeader = Some ''ASP.NET_SessionId=sid;'', redirectManual = False\<rparr>],
            fs = Map.empty\<rparr>
           ''data/Math_ 1/Root/Notes_ _2_ [12]'' [] []"
    by (simp add: openFolder_def server_eval server_join Let_def isDigit_def decodeString_def
        bufferRoundTrip_def forbidden_def namedReferences_def)
  have o13: "openFolder server start ''s'' ''/Folder/processfolder.aspx?FolderID=13'' ''sid''
         ''data/Math_ 1/Root'' False
       = Opened
           \<lparr>trace =
              [Fetch \<lparr>requestUrl = ''https://s.itslearning.com/Folder/processfolder.aspx?FolderID=13'',
                      cookieHeader = Some ''ASP.NET_SessionId=sid;'', redirectManual = False\<rparr>],
            fs = Map.empty\<rparr>
           ''data/Math_ 1/Root/Syllabus'' [] []"
    by (simp add: openFolder_def server_eval server_join Let_def isDigit_def decodeString_def
        bufferRoundTrip_def forbidden_def namedReferences_def)
  from open10 p12 loop11 h12 f12 t12 p13 h13 f13 t13 o12 o13 show ?thesis
    by (intro conjI)
qed

text \<open>
  Claim C4, as stated, fails for file entries. The page of folder 14 of the example
  server lists three files; the first two are both named \<open>Notes\<close>. Their resolutions are
  started as \<^verbatim>\<open>downloadResourceObject(school, sessionId, "21", folderPath)\<close> and
  \<^verbatim>\<open>downloadResourceObject(school, sessionId, "25", folderPath)\<close>, with the same folder
  path and no flag, and the loop does the same when the three names differ.
\<close>

theorem file_entries_ignore_duplicate_names:
  "1 < count_list (map textContent fileEntries) (textContent (fileEntries ! 0))
   \<and> downloadResourceFolder (Suc 0) server start ''s'' ''/Folder/processfolder.aspx?FolderID=14''
         ''sid'' ''data/Math_ 1/Root'' False
       = Some (Returned
           \<lparr>trace =
              [Fetch \<lparr>requestUrl = ''https://s.itslearning.com/Folder/processfolder.aspx?FolderID=14'',
                      cookieHeader = Some ''ASP.NET_SessionId=sid;'', redirectManual = False\<rparr>,
               Started ''21'' ''data/Math_ 1/Root/Files'',
               Started ''25'' ''data/Math_ 1/Root/Files'',
               Started ''23'' ''data/Math_ 1/Root/Files''],
            fs = Map.empty\<rparr>)
   \<and> folderEntriesLoop 0 server start ''s'' ''sid'' ''data/Math_ 1/Root/Files''
         (map textContent fileEntries) fileEntries
       = folderEntriesLoop 0 server start ''s'' ''sid'' ''data/Math_ 1/Root/Files''
           [''1'', ''2'', ''3''] fileEntries"
proof (intro conjI)
  show "1 < count_list (map textContent fileEntries) (textContent (fileEntries ! 0))"
    by (simp add: fileEntries_def folderEntry_def)
  show "downloadResourceFolder (Suc 0) server start ''s'' ''/Folder/processfolder.aspx?FolderID=14''
         ''sid'' ''data/Math_ 1/Root'' False
       = Some (Returned
           \<lparr>trace =
              [Fetch \<lparr>requestUrl = ''https://s.itslearning.com/Folder/processfolder.aspx?FolderID=14'',
                      cookieHeader = Some ''ASP.NET_SessionId=sid;'', redirectManual = False\<rparr>,
               Started ''21'' ''data/Math_ 1/Root/Files'',
               Started ''25'' ''data/Math_ 1/Root/Files'',
               Started ''23'' ''data/Math_ 1/Root/Files''],
            fs = Map.empty\<rparr>)"
    by (simp add: openFolder_def fileEntries_def server_eval server_join Let_def isDigit_def
        decodeString_def bufferRoundTrip_def forbidden_def namedReferences_def)
  have "list_all (\<lambda>e. case getAttribute e ''href'' of None \<Rightarrow> True
                  | Some u \<Rightarrow> \<not> startsWith u ''/Folder'') fileEntries"
    by (simp add: fileEntries_def folderEntry_def getAttribute_def)
  then show "folderEntriesLoop 0 server start ''s'' ''sid'' ''data/Math_ 1/Root/Files''
         (map textContent fileEntries) fileEntries
       = folderEntriesLoop 0 server start ''s'' ''sid'' ''data/Math_ 1/Root/Files''
           [''1'', ''2'', ''3''] fileEntries"
    by (rule loop_names_irrelevant)
qed

section \<open>File names and directory names: claim C10\<close>

lemma deliver_without_anchor:
  assumes "getElementById doc ''ctl00_ctl00_MainFormContent_DownloadLinkForViewType'' = None"
  shows "(\<exists>s4. deliver env s folderPath fileName ck doc = Returned s4 \<and> fs s4 = fs s)
       \<or> (\<exists>e s4. deliver env s folderPath fileName ck doc = Threw e s4 \<and> fs s4 = fs s)
       \<or> (\<exists>s4 officeDownloadUrl. deliver env s folderPath fileName ck doc
              = downloadFile env s4 officeDownloadUrl [] folderPath (Some fileName))"
  using assms unfolding deliver_def Let_def
  by (auto simp: emit_def split: option.splits sum.splits)

lemma deliver_with_anchor:
  assumes "getElementById doc ''ctl00_ctl00_MainFormContent_DownloadLinkForViewType'' = Some anchor"
  shows "(case getAttribute anchor ''href'' of
            None \<Rightarrow> deliver env s folderPath fileName ck doc = Threw TypeError s
          | Some href \<Rightarrow> deliver env s folderPath fileName ck doc
              = downloadFile env s
                  (''https://resource.itslearning.com'' @ replaceAll ''&amp;'' ''&'' href)
                  ck folderPath (getAttribute anchor ''Download''))"
  using assms by (simp add: deliver_def split: option.splits)

text \<open>
  Claim C10. In a resolution that reaches the platform page, the file name is the text
  of the title of the view page, as it is. When the page has a download anchor, the
  resolver throws or calls \<^verbatim>\<open>downloadFile\<close> with the value of the \<^verbatim>\<open>Download\<close>
  attribute, as it is; when it has none, the resolver ends without writing or calls
  \<^verbatim>\<open>downloadFile\<close> with the title text. \<^verbatim>\<open>decodeString\<close> is applied in neither case.
  The directory of a folder is the parent path, a slash and a name without any forbidden
  character; the directory of a course is joined from the download location and the
  sanitized title.
\<close>

theorem file_name_is_not_sanitized:
  assumes reached: "resolveHops env s school sessionId elementId = Reached s3 fileName ck doc"
  shows "(\<exists>viewResponse title.
             fetch env (viewRequest school sessionId elementId) = Inr viewResponse
           \<and> getElementById (parseFromString env (body viewResponse)) ''ctl00_PageHeader_TT''
               = Some title
           \<and> fileName = textContent title)
       \<and> (case getElementById doc ''ctl00_ctl00_MainFormContent_DownloadLinkForViewType'' of
            Some anchor \<Rightarrow>
              (case getAttribute anchor ''href'' of
                 None \<Rightarrow> downloadResourceObject env s school sessionId elementId folderPath
                          = Threw TypeError s3
               | Some href \<Rightarrow> downloadResourceObject env s school sessionId elementId folderPath
                   = downloadFile env s3
                       (''https://resource.itslearning.com'' @ replaceAll ''&amp;'' ''&'' href)
                       ck folderPath (getAttribute anchor ''Download''))
          | None \<Rightarrow>
              (\<exists>s4. downloadResourceObject env s school sessionId elementId folderPath = Returned s4
                    \<and> fs s4 = fs s3)
            \<or> (\<exists>e s4. downloadResourceObject env s school sessionId elementId folderPath = Threw e s4
                    \<and> fs s4 = fs s3)
            \<or> (\<exists>s4 officeDownloadUrl.
                    downloadResourceObject env s school sessionId elementId folderPath
                    = downloadFile env s4 officeDownloadUrl [] folderPath (Some fileName)))
       \<and> (\<forall>s0 folderUrl parentFolderPath appendId s1 path names entries.
             openFolder env s0 school folderUrl sessionId parentFolderPath appendId
               = Opened s1 path names entries \<longrightarrow>
             (\<exists>name. path = parentFolderPath @ ''/'' @ name \<and> set name \<inter> forbidden = {}))
       \<and> (\<forall>s0 c s1 resourceFolderUrl parentFolder.
             openCourse env s0 school sessionId c = Entered s1 resourceFolderUrl parentFolder \<longrightarrow>
             parentFolder = pathJoin env (downloadLocation env) (decodeString env (Title c))
             \<and> set (decodeString env (Title c)) \<inter> forbidden = {})"
proof (intro conjI allI impI)
  show "\<exists>viewResponse title.
             fetch env (viewRequest school sessionId elementId) = Inr viewResponse
           \<and> getElementById (parseFromString env (body viewResponse)) ''ctl00_PageHeader_TT''
               = Some title
           \<and> fileName = textContent title"
    using resolveHops_Reached [OF reached] by blast
next
  have d: "downloadResourceObject env s school sessionId elementId folderPath
           = deliver env s3 folderPath fileName ck doc"
    by (simp add: downloadResourceObject_def reached)
  show "case getElementById doc ''ctl00_ctl00_MainFormContent_DownloadLinkForViewType'' of
            Some anchor \<Rightarrow>
              (case getAttribute anchor ''href'' of
                 None \<Rightarrow> downloadResourceObject env s school sessionId elementId folderPath
                          = Threw TypeError s3
               | Some href \<Rightarrow> downloadResourceObject env s school sessionId elementId folderPath
                   = downloadFile env s3
                       (''https://resource.itslearning.com'' @ replaceAll ''&amp;'' ''&'' href)
                       ck folderPath (getAttribute anchor ''Download''))
          | None \<Rightarrow>
              (\<exists>s4. downloadResourceObject env s school sessionId elementId folderPath = Returned s4
                    \<and> fs s4 = fs s3)
            \<or> (\<exists>e s4. downloadResourceObject env s school sessionId elementId folderPath = Threw e s4
                    \<and> fs s4 = fs s3)
            \<or> (\<exists>s4 officeDownloadUrl.
                    downloadResourceObject env s school sessionId elementId folderPath
                    = downloadFile env s4 officeDownloadUrl [] folderPath (Some fileName))"
  proof (cases "getElementById doc ''ctl00_ctl00_MainFormContent_DownloadLinkForViewType''")
    case None
    then show ?thesis
      using deliver_without_anchor [OF None, of env s3 folderPath fileName ck]
      by (simp only: d option.case)
  next
    case (Some anchor)
    then show ?thesis
      using deliver_with_anchor [OF Some, of env s3 folderPath fileName ck]
      by (simp only: d option.case)
  qed
next
  fix s0 folderUrl parentFolderPath appendId s1 path names entries
  assume "openFolder env s0 school folderUrl sessionId parentFolderPath appendId
               = Opened s1 path names entries"
  then show "\<exists>name. path = parentFolderPath @ ''/'' @ name \<and> set name \<inter> forbidden = {}"
    by (rule openFolder_Opened)
next
  fix s0 c s1 resourceFolderUrl parentFolder
  assume "openCourse env s0 school sessionId c = Entered s1 resourceFolderUrl parentFolder"
  then show "parentFolder = pathJoin env (downloadLocation env) (decodeString env (Title c))"
    by (rule openCourse_Entered)
next
  fix c
  show "set (decodeString env (Title c)) \<inter> forbidden = {}"
    by (rule decodeString_clean)
qed

text \<open>
  Claim C10 on the example server. The file of element 25 is written as
  \<^verbatim>\<open>Plan:1&amp;2.pdf\<close> and that of element 22 as \<^verbatim>\<open>Slides:1&amp;2.pptx\<close>, with the
  colon and the entity in the name, while the course \<^verbatim>\<open>Math: 1\<close> gets the directory
  \<^verbatim>\<open>data/Math_ 1\<close>.
\<close>

theorem file_name_is_not_sanitized_witness:
  "resolveHops server start ''s'' ''sid'' ''25''
   = Reached
       \<lparr>trace =
          [Fetch \<lparr>requestUrl = ''https://s.itslearning.com/LearningToolElement/ViewLearningToolElement.aspx?LearningToolElementId=25'',
                  cookieHeader = Some ''ASP.NET_SessionId=sid;'', redirectManual = True\<rparr>,
           Fetch \<lparr>requestUrl = ''https://platform.example/25'', cookieHeader = None,
                  redirectManual = True\<rparr>,
           Fetch \<lparr>requestUrl = ''https://resource.example/25'', cookieHeader = Some ''P=1'',
                  redirectManual = False\<rparr>],
        fs = Map.empty\<rparr>
       ''Plan'' ''ASP.NET_SessionId=r1'' (anchorPage ''/d25'' ''Plan:1&amp;2.pdf'')
   \<and> downloadResourceObject server start ''s'' ''sid'' ''25'' ''data/Math_ 1/Root''
       = downloadFile server
           \<lparr>trace =
              [Fetch \<lparr>requestUrl = ''https://s.itslearning.com/LearningToolElement/ViewLearningToolElement.aspx?LearningToolElementId=25'',
                      cookieHeader = Some ''ASP.NET_SessionId=sid;'', redirectManual = True\<rparr>,
               Fetch \<lparr>requestUrl = ''https://platform.example/25'', cookieHeader = None,
                      redirectManual = True\<rparr>,
               Fetch \<lparr>requestUrl = ''https://resource.example/25'', cookieHeader = Some ''P=1'',
                      redirectManual = False\<rparr>],
            fs = Map.empty\<rparr>
           ''https://resource.itslearning.com/d25'' ''ASP.NET_SessionId=r1'' ''data/Math_ 1/Root''
           (Some ''Plan:1&amp;2.pdf'')
   \<and> downloadResourceObject server start ''s'' ''sid'' ''25'' ''data/Math_ 1/Root''
       = Returned
           \<lparr>trace =
              [Fetch \<lparr>requestUrl = ''https://s.itslearning.com/LearningToolElement/ViewLearningToolElement.aspx?LearningToolElementId=25'',
                      cookieHeader = Some ''ASP.NET_SessionId=sid;'', redirectManual = True\<rparr>,
               Fetch \<lparr>requestUrl = ''https://platform.example/25'', cookieHeader = None,
                      redirectManual = True\<rparr>,
               Fetch \<lparr>requestUrl = ''https://resource.example/25'', cookieHeader = Some ''P=1'',
                      redirectManual = False\<rparr>,
               Fetch \<lparr>requestUrl = ''https://resource.itslearning.com/d25'',
                      cookieHeader = Some ''ASP.NET_SessionId=r1'', redirectManual = False\<rparr>,
               ConsoleLog ''Downloaded file to data/Math_ 1/Root/Plan:1&amp;2.pdf''],
            fs = [''data/Math_ 1/Root'' \<mapsto> Directory,
                  ''data/Math_ 1/Root/Plan:1&amp;2.pdf'' \<mapsto> File ''PLAN'']\<rparr>
   \<and> downloadResourceObject server start ''s'' ''sid'' ''22'' ''data/Math_ 1/Root''
       = Returned
           \<lparr>trace =
              [Fetch \<lparr>requestUrl = ''https://s.itslearning.com/LearningToolElement/ViewLearningToolElement.aspx?LearningToolElementId=22'',
                      cookieHeader = Some ''ASP.NET_SessionId=sid;'', redirectManual = True\<rparr>,
               Fetch \<lparr>requestUrl = ''https://platform.example/22'', cookieHeader = None,
                      redirectManual = True\<rparr>,
               Fetch \<lparr>requestUrl = ''https://resource.example/22'', cookieHeader = Some ''P=1'',
                      redirectManual = False\<rparr>,
               Fetch \<lparr>requestUrl = ''https://resource.itslearning.com/p22'',
                      cookieHeader = Some ''ASP.NET_SessionId=r1'', redirectManual = False\<rparr>,
               Fetch \<lparr>requestUrl = ''https://wopi.example/22/contents?access_token=TOKEN'',
                      cookieHeader = Some [], redirectManual = False\<rparr>,
               ConsoleLog ''Downloaded file to data/Math_ 1/Root/Slides:1&amp;2.pptx''],
            fs = [''data/Math_ 1/Root'' \<mapsto> Directory,
                  ''data/Math_ 1/Root/Slides:1&amp;2.pptx'' \<mapsto> File ''PPTX'']\<rparr>
   \<and> openCourse server start ''s'' ''sid'' \<lparr>Title = ''Math: 1'', CourseId = ''1''\<rparr>
       = Entered
           \<lparr>trace =
              [Fetch \<lparr>requestUrl = ''https://s.itslearning.com/ContentArea/ContentArea.aspx?LocationID=1&LocationType=1'',
                      cookieHeader = Some ''ASP.NET_SessionId=sid;'', redirectManual = False\<rparr>],
            fs = Map.empty\<rparr>
           ''/Folder/processfolder.aspx?FolderID=10'' ''data/Math_ 1''"
proof -
  have a: "getElementById (anchorPage ''/d25'' ''Plan:1&amp;2.pdf'')
             ''ctl00_ctl00_MainFormContent_DownloadLinkForViewType''
           = Some (hd (anchorPage ''/d25'' ''Plan:1&amp;2.pdf''))"
    by (simp add: getElementById_def getAttribute_def anchorPage_def)
  have h: "getAttribute (hd (anchorPage ''/d25'' ''Plan:1&amp;2.pdf'')) ''href'' = Some ''/d25''"
    by (simp add: getAttribute_def anchorPage_def)
  have n: "getAttribute (hd (anchorPage ''/d25'' ''Plan:1&amp;2.pdf'')) ''Download''
           = Some ''Plan:1&amp;2.pdf''"
    by (simp add: getAttribute_def anchorPage_def)
  have u: "''https://resource.itslearning.com'' @ replaceAll ''&amp;'' ''&'' ''/d25''
           = ''https://resource.itslearning.com/d25''"
    by simp
  note call = file_name_is_not_sanitized [OF hops25, of "''data/Math_ 1/Root''",
      THEN conjunct2, THEN conjunct1, unfolded a option.case h n u]
  have done25: "downloadFile server
           \<lparr>trace =
              [Fetch \<lparr>requestUrl = ''https://s.itslearning.com/LearningToolElement/ViewLearningToolElement.aspx?LearningToolElementId=25'',
                      cookieHeader = Some ''ASP.NET_SessionId=sid;'', redirectManual = True\<rparr>,
               Fetch \<lparr>requestUrl = ''https://platform.example/25'', cookieHeader = None,
                      redirectManual = True\<rparr>,
               Fetch \<lparr>requestUrl = ''https://resource.example/25'', cookieHeader = Some ''P=1'',
                      redirectManual = False\<rparr>],
            fs = Map.empty\<rparr>
           ''https://resource.itslearning.com/d25'' ''ASP.NET_SessionId=r1'' ''data/Math_ 1/Root''
           (Some ''Plan:1&amp;2.pdf'')
       = Returned
           \<lparr>trace =
              [Fetch \<lparr>requestUrl = ''https://s.itslearning.com/LearningToolElement/ViewLearningToolElement.aspx?LearningToolElementId=25'',
                      cookieHeader = Some ''ASP.NET_SessionId=sid;'', redirectManual = True\<rparr>,
               Fetch \<lparr>requestUrl = ''https://platform.example/25'', cookieHeader = None,
                      redirectManual = True\<rparr>,
               Fetch \<lparr>requestUrl = ''https://resource.example/25'', cookieHeader = Some ''P=1'',
                      redirectManual = False\<rparr>,
               Fetch \<lparr>requestUrl = ''https://resource.itslearning.com/d25'',
                      cookieHeader = Some ''ASP.NET_SessionId=r1'', redirectManual = False\<rparr>,
               ConsoleLog ''Downloaded file to data/Math_ 1/Root/Plan:1&amp;2.pdf''],
            fs = [''data/Math_ 1/Root'' \<mapsto> Directory,
                  ''data/Math_ 1/Root/Plan:1&amp;2.pdf'' \<mapsto> File ''PLAN'']\<rparr>"
    by (simp add: downloadFile_def server_eval server_join posixJoin_def normalize_def
        existsSync_def mkdirSync_def createWriteStream_def posixDirname_def Let_def)
  have done22: "downloadResourceObject server start ''s'' ''sid'' ''22'' ''data/Math_ 1/Root''
       = Returned
           \<lparr>trace =
              [Fetch \<lparr>requestUrl = ''https://s.itslearning.com/LearningToolElement/ViewLearningToolElement.aspx?LearningToolElementId=22'',
                      cookieHeader = Some ''ASP.NET_SessionId=sid;'', redirectManual = True\<rparr>,
               Fetch \<lparr>requestUrl = ''https://platform.example/22'', cookieHeader = None,
                      redirectManual = True\<rparr>,
               Fetch \<lparr>requestUrl = ''https://resource.example/22'', cookieHeader = Some ''P=1'',
                      redirectManual = False\<rparr>,
               Fetch \<lparr>requestUrl = ''https://resource.itslearning.com/p22'',
                      cookieHeader = Some ''ASP.NET_SessionId=r1'', redirectManual = False\<rparr>,
               Fetch \<lparr>requestUrl = ''https://wopi.example/22/contents?access_token=TOKEN'',
                      cookieHeader = Some [], redirectManual = False\<rparr>,
               ConsoleLog ''Downloaded file to data/Math_ 1/Root/Slides:1&amp;2.pptx''],
            fs = [''data/Math_ 1/Root'' \<mapsto> Directory,
                  ''data/Math_ 1/Root/Slides:1&amp;2.pptx'' \<mapsto> File ''PPTX'']\<rparr>"
  proof -
    have p1: "getElementById previewPage ''ctl00_ctl00_MainFormContent_DownloadLinkForViewType''
              = None"
      by (simp add: getElementById_def getAttribute_def previewPage_def)
    have p2: "getElementById previewPage
                ''ctl00_ctl00_MainFormContent_PreviewIframe_FilePreviewIframe''
              = Some (hd previewPage)"
      by (simp add: getElementById_def getAttribute_def previewPage_def)
    have src: "toString (getAttribute (hd previewPage) ''src'') = ''p22''"
      by (simp add: toString_def getAttribute_def previewPage_def)
    have p3: "fetch server (previewRequest (hd previewPage) ''ASP.NET_SessionId=r1'')
              = Inr (page officePage)"
      unfolding src by (simp add: fetch_server site_def)
    have p4: "ok (page officePage)"
      by (simp add: page_def)
    have p5: "getOfficeFileDownloadUrl (body (page officePage))
              = Inr ''https://wopi.example/22/contents?access_token=TOKEN''"
      using office_url [OF office_action office_token office_ttl office_wopi]
      by (simp add: page_def)
    show ?thesis
      unfolding downloadResourceObject_def hops22 hops.case
        deliver_preview [OF p1 p2 p3 p4 p5] src
      by (simp add: downloadFile_def server_eval server_join posixJoin_def normalize_def
          existsSync_def mkdirSync_def createWriteStream_def posixDirname_def Let_def)
  qed
  have course: "openCourse server start ''s'' ''sid'' \<lparr>Title = ''Math: 1'', CourseId = ''1''\<rparr>
       = Entered
           \<lparr>trace =
              [Fetch \<lparr>requestUrl = ''https://s.itslearning.com/ContentArea/ContentArea.aspx?LocationID=1&LocationType=1'',
                      cookieHeader = Some ''ASP.NET_SessionId=sid;'', redirectManual = False\<rparr>],
            fs = Map.empty\<rparr>
           ''/Folder/processfolder.aspx?FolderID=10'' ''data/Math_ 1''"
    by (simp add: openCourse_def server_eval server_join Let_def decodeString_def
        bufferRoundTrip_def forbidden_def namedReferences_def posixJoin_def normalize_def)
  from hops25 call done25 done22 course show ?thesis
    by (simp only: simp_thms)
qed

end
